theory Spec2Isabelle
  imports Main "HOL-Library.AList"
begin

section \<open>Worker state (core/state-manager.js)\<close>

text \<open>
  The worker keeps all of its mutable state in one object, \<^verbatim>\<open>StateManager._state\<close>.
  The record below holds the fields that the modelled functions read or write.
  JavaScript \<^verbatim>\<open>Map\<close>s that are only looked up by key are partial functions; numbers
  are unbounded integers (the counters stay far below $2^{53}$); times are
  milliseconds as returned by \<^verbatim>\<open>Date.now()\<close> and are passed in by the caller.
  Strings are lists of Isabelle characters, one character per UTF-16 code unit, which
  restricts the model to code points below 256.
\<close>

record credentials =
  bot_guid :: "string option"
  bot_token :: "string option"

record timer =
  t_message :: string
  t_upload_id :: "string option"

record command =
  c_response :: string
  c_upload_id :: "string option"

record entity =
  guid :: string
  etype :: "string option"
  parent_guid :: "string option"
  permissions_parent_guid :: "string option"
  commands :: "(string \<times> command) list"
  timers :: "timer list"
  timer_counter_max :: int
  read_only :: bool
  welcome_message :: "string option"

datatype payload =
    GroupchatMessage string "string option"
  | MucLightConfigQuery
  | SupergroupSubscribe bool
  | PresenceAvailable
  | IqErrorFeatureNotImplemented

record stanza =
  st_to :: "string option"
  st_payload :: payload

record state =
  xmppOnline :: bool
  botCredentials :: "credentials option"
  isConnecting :: bool
  isShuttingDown :: bool
  isReconnecting :: bool
  reconnectionAttempts :: nat
  lastReconnectionTime :: int
  reconnectionBackoffMs :: int
  entities :: "string \<rightharpoonup> entity"
  messageCounts :: "string \<rightharpoonup> int"
  autoMessageTurn :: "string \<rightharpoonup> int"
  recentlyUnassignedEntities :: "string set"
  nonExistentEntities :: "string set"
  outgoingStanzaQueue :: "stanza list"

text \<open>The constructor of \<^verbatim>\<open>StateManager\<close>: the state a worker process starts with.\<close>

definition initial_state :: state where
  "initial_state =
     \<lparr> xmppOnline = False, botCredentials = None, isConnecting = False,
       isShuttingDown = False, isReconnecting = False,
       reconnectionAttempts = 0, lastReconnectionTime = 0, reconnectionBackoffMs = 5000,
       entities = Map.empty, messageCounts = Map.empty, autoMessageTurn = Map.empty,
       recentlyUnassignedEntities = {}, nonExistentEntities = {},
       outgoingStanzaQueue = [] \<rparr>"

text \<open>
  What the worker does to the outside world. HTTP requests, stanzas written to the
  XMPP session and timers that end the process are returned by the functions as a list
  of effects, in the order in which the code issues them.
\<close>

datatype effect =
    WebhookPost string string
  | DeleteRequest string string string
  | MuteRequest string string int
  | XmppSend stanza
  | EntityStatusPost string string
  | ExitTimer int

text \<open>
  \<^verbatim>\<open>queueStanza\<close> of services/worker/index.js appends to the outgoing queue unless the
  worker is shutting down. \<^verbatim>\<open>setPresence()\<close> of lib/xmpp/actions.js, without arguments,
  is a bare \<^verbatim>\<open>presence\<close> element.
\<close>

definition queueStanza :: "stanza \<Rightarrow> state \<Rightarrow> state" where
  "queueStanza st s =
     (if isShuttingDown s then s
      else s\<lparr> outgoingStanzaQueue := outgoingStanzaQueue s @ [st] \<rparr>)"

definition setPresence :: stanza where
  "setPresence = \<lparr> st_to = None, st_payload = PresenceAvailable \<rparr>"

section \<open>Reconnection and circuit breaker (services/worker/index.js)\<close>

definition shouldAttemptReconnection :: "int \<Rightarrow> state \<Rightarrow> bool" where
  "shouldAttemptReconnection now s =
     (if reconnectionAttempts s \<ge> 10 then False
      else if now - lastReconnectionTime s < reconnectionBackoffMs s then False
      else True)"

definition recordReconnectionAttempt :: "int \<Rightarrow> state \<Rightarrow> state \<times> effect list" where
  "recordReconnectionAttempt now s =
     (let attempts = reconnectionAttempts s + 1;
          currentBackoff = reconnectionBackoffMs s;
          newBackoff = min (currentBackoff * 2) 300000;
          s' = s\<lparr> reconnectionAttempts := attempts,
                   lastReconnectionTime := now,
                   reconnectionBackoffMs := newBackoff \<rparr>
      in (s', if attempts \<ge> 10 then [ExitTimer 1] else []))"

definition resetReconnectionState :: "state \<Rightarrow> state" where
  "resetReconnectionState s = s\<lparr> reconnectionAttempts := 0, reconnectionBackoffMs := 5000 \<rparr>"

definition performPreConnectionChecks :: "int \<Rightarrow> state \<Rightarrow> bool" where
  "performPreConnectionChecks now s =
     (if isConnecting s \<or> isShuttingDown s then False
      else if \<not> shouldAttemptReconnection now s then False
      else True)"

text \<open>
  \<^verbatim>\<open>connectXmpp\<close> talks to the data-plane and to the chat service after it has
  recorded the attempt. The model takes what came back as an argument: either the
  \<^verbatim>\<open>try\<close> block threw (with the credentials that \<^verbatim>\<open>setBotCredentials\<close> had stored
  before the throw, if it got that far), or the client was started.
\<close>

datatype conn_outcome = ConnectError "credentials option" | ConnectStarted credentials

definition connectXmpp :: "int \<Rightarrow> conn_outcome \<Rightarrow> state \<Rightarrow> state \<times> effect list" where
  "connectXmpp now outcome s =
     (if \<not> performPreConnectionChecks now s then (s, [])
      else
        let s1 = s\<lparr> isConnecting := True, isReconnecting := False \<rparr>;
            (s2, effs) = recordReconnectionAttempt now s1
        in (case outcome of
              ConnectStarted c \<Rightarrow> (s2\<lparr> botCredentials := Some c \<rparr>, effs)
            | ConnectError None \<Rightarrow> (s2\<lparr> isConnecting := False \<rparr>, effs)
            | ConnectError (Some c) \<Rightarrow>
                (s2\<lparr> botCredentials := Some c, isConnecting := False \<rparr>, effs)))"

definition handleXmppOffline :: "state \<Rightarrow> state" where
  "handleXmppOffline s = s\<lparr> isConnecting := False, isReconnecting := False, xmppOnline := False \<rparr>"

text \<open>
  \<^verbatim>\<open>handleXmppOnline\<close>, up to the call of \<^verbatim>\<open>scheduleEntityUpdates\<close>: it clears the
  flags, resets the reconnection state, starts the interval timers (not modelled) and
  queues the initial presence. The client reports the status \<^verbatim>\<open>online\<close> from then on.
\<close>

definition handleXmppOnline :: "state \<Rightarrow> state" where
  "handleXmppOnline s =
     queueStanza setPresence
       (resetReconnectionState
          (s\<lparr> isConnecting := False, isReconnecting := False, xmppOnline := True \<rparr>))"

text \<open>
  The session life cycle as the worker sees it: a call of \<^verbatim>\<open>connectXmpp\<close> at some
  time with some outcome, the \<^verbatim>\<open>online\<close> event and the \<^verbatim>\<open>offline\<close> event.
\<close>

datatype conn_event = Connect int conn_outcome | Online | Offline

fun conn_step :: "state \<times> effect list \<Rightarrow> conn_event \<Rightarrow> state \<times> effect list" where
  "conn_step (s, log) (Connect now outcome) =
     (let (s', effs) = connectXmpp now outcome s in (s', log @ effs))"
| "conn_step (s, log) Online = (handleXmppOnline s, log)"
| "conn_step (s, log) Offline = (handleXmppOffline s, log)"

definition conn_run :: "conn_event list \<Rightarrow> state \<times> effect list" where
  "conn_run evs = foldl conn_step (initial_state, []) evs"

definition reconnection_inv :: "state \<times> effect list \<Rightarrow> bool" where
  "reconnection_inv p =
     (reconnectionAttempts (fst p) \<le> 10 \<and>
      (if reconnectionAttempts (fst p) = 10 then ExitTimer 1 \<in> set (snd p) else True) \<and>
      5000 \<le> reconnectionBackoffMs (fst p) \<and> reconnectionBackoffMs (fst p) \<le> 300000)"

section \<open>JavaScript values\<close>

text \<open>
  The pieces of JavaScript that the modelled code relies on. An exception is a value of
  \<open>js_error\<close>. \<^verbatim>\<open>x || null\<close> on an optional string turns the empty string into
  \<^verbatim>\<open>null\<close>. \<^verbatim>\<open>a % b\<close> takes the sign of \<open>a\<close> (for \<open>b = 0\<close> it is \<^verbatim>\<open>NaN\<close>;
  the only caller passes the length of a non-empty array). \<^verbatim>\<open>Array.prototype.at\<close>
  counts a negative index from the end and returns \<^verbatim>\<open>undefined\<close> out of range.
  \<^verbatim>\<open>toLowerCase\<close> is given for the code points below 256.
\<close>

datatype js_error = TypeError

definition truthy :: "string option \<Rightarrow> bool" where
  "truthy x = (x \<noteq> None \<and> x \<noteq> Some [])"

definition or_null :: "string option \<Rightarrow> string option" where
  "or_null x = (if truthy x then x else None)"

definition js_rem :: "int \<Rightarrow> int \<Rightarrow> int" where
  "js_rem a b = sgn a * (\<bar>a\<bar> mod \<bar>b\<bar>)"

definition js_at :: "'a list \<Rightarrow> int \<Rightarrow> 'a option" where
  "js_at xs i =
     (let n = int (length xs); k = (if i < 0 then n + i else i)
      in if 0 \<le> k \<and> k < n then Some (xs ! nat k) else None)"

definition lower_char :: "char \<Rightarrow> char" where
  "lower_char c =
     (let n = (of_char c :: nat)
      in if (65 \<le> n \<and> n \<le> 90) \<or> (192 \<le> n \<and> n \<le> 222 \<and> n \<noteq> 215)
         then char_of (n + 32) else c)"

definition toLowerCase :: "string \<Rightarrow> string" where
  "toLowerCase s = map lower_char s"

section \<open>Identifiers and stanzas (lib/utils/index.js, lib/xmpp/actions.js)\<close>

record xmpp_config =
  domain :: string
  mucDomain :: string
  supergroupDomain :: string

text \<open>\<^verbatim>\<open>xmppConfig\<close> of config/index.js outside staging.\<close>

definition xmppConfig :: xmpp_config where
  "xmppConfig = \<lparr> domain = ''chat.faceit.com'', mucDomain = ''muclight.chat.faceit.com'',
                  supergroupDomain = ''supergroups.chat.faceit.com'' \<rparr>"

definition is_hex :: "char \<Rightarrow> bool" where
  "is_hex c = (c \<in> set ''0123456789abcdefABCDEF'')"

text \<open>
  The pattern \<^verbatim>\<open>[0-9a-f]{8}-[0-9a-f]{4}-[0-9a-f]{4}-[0-9a-f]{4}-[0-9a-f]{12}\<close> with the
  \<^verbatim>\<open>i\<close> flag, against a whole string, and all its matches from left to right
  (\<^verbatim>\<open>String.prototype.match\<close> with the \<^verbatim>\<open>g\<close> flag).
\<close>

definition uuid_shape :: "string \<Rightarrow> bool" where
  "uuid_shape xs =
     (length xs = 36 \<and>
      list_all is_hex (take 8 xs) \<and> xs ! 8 = CHR ''-'' \<and>
      list_all is_hex (take 4 (drop 9 xs)) \<and> xs ! 13 = CHR ''-'' \<and>
      list_all is_hex (take 4 (drop 14 xs)) \<and> xs ! 18 = CHR ''-'' \<and>
      list_all is_hex (take 4 (drop 19 xs)) \<and> xs ! 23 = CHR ''-'' \<and>
      list_all is_hex (drop 24 xs))"

fun uuid_matches :: "string \<Rightarrow> string list" where
  "uuid_matches [] = []"
| "uuid_matches (c # cs) =
     (if uuid_shape (take 36 (c # cs)) then take 36 (c # cs) # uuid_matches (drop 35 cs)
      else uuid_matches cs)"

definition normalizeId :: "string \<Rightarrow> string option" where
  "normalizeId ident =
     (if ident = [] then None
      else if uuid_shape ident then Some ident
      else (case uuid_matches ident of
              [] \<Rightarrow> Some ident
            | m # ms \<Rightarrow> Some (last (m # ms))))"

definition fromJid :: "string \<Rightarrow> string option" where
  "fromJid jid = normalizeId jid"

text \<open>
  An entity object always carries a non-empty \<^verbatim>\<open>guid\<close> (the primary key of the
  entities table), so \<^verbatim>\<open>entity?.guid || this.normalizeId(entity)\<close> is the guid.
\<close>

definition entity_type :: "entity \<Rightarrow> string" where
  "entity_type e = toLowerCase (if truthy (etype e) then the (etype e) else ''community'')"

definition entity_parent :: "entity \<Rightarrow> string option" where
  "entity_parent e =
     (if truthy (parent_guid e) then parent_guid e else or_null (permissions_parent_guid e))"

definition toMucLightJidForEntity :: "entity \<Rightarrow> xmpp_config \<Rightarrow> string" where
  "toMucLightJidForEntity e cfg =
     (if entity_type e = ''community'' then ''club-'' @ guid e @ ''-general@'' @ mucDomain cfg
      else if (entity_type e = ''chat'' \<or> entity_type e = ''ihl'') \<and> entity_parent e \<noteq> None
      then ''club-'' @ the (entity_parent e) @ ''-channel-'' @ guid e @ ''@'' @ mucDomain cfg
      else ''club-'' @ guid e @ ''-general@'' @ mucDomain cfg)"

text \<open>The object literal \<^verbatim>\<open>{ guid: roomId, type: 'community' }\<close>.\<close>

definition community_of :: "string \<Rightarrow> entity" where
  "community_of roomId =
     \<lparr> guid = roomId, etype = Some ''community'', parent_guid = None,
       permissions_parent_guid = None, commands = [], timers = [], timer_counter_max = 0,
       read_only = False, welcome_message = None \<rparr>"

definition sendMessage :: "entity + string \<Rightarrow> string \<Rightarrow> string option \<Rightarrow> stanza" where
  "sendMessage entityOrRoomId text uploadId =
     (let roomJid = (case entityOrRoomId of
                       Inr roomId \<Rightarrow> toMucLightJidForEntity (community_of roomId) xmppConfig
                     | Inl e \<Rightarrow> toMucLightJidForEntity e xmppConfig)
      in \<lparr> st_to = Some roomJid, st_payload = GroupchatMessage text (or_null uploadId) \<rparr>)"

section \<open>Counters and the outgoing queue (core/state-manager.js, services/worker/index.js)\<close>

definition hasEntity :: "string \<Rightarrow> state \<Rightarrow> bool" where
  "hasEntity entityId s = (entities s entityId \<noteq> None)"

definition entityOrRoom :: "string \<Rightarrow> state \<Rightarrow> entity + string" where
  "entityOrRoom roomId s = (case entities s roomId of Some e \<Rightarrow> Inl e | None \<Rightarrow> Inr roomId)"

definition getMessageCount :: "string \<Rightarrow> state \<Rightarrow> int" where
  "getMessageCount roomId s = (case messageCounts s roomId of None \<Rightarrow> 0 | Some c \<Rightarrow> c)"

definition setMessageCount :: "string \<Rightarrow> int \<Rightarrow> state \<Rightarrow> state" where
  "setMessageCount roomId c s = s\<lparr> messageCounts := (messageCounts s)(roomId \<mapsto> c) \<rparr>"

definition incrementMessageCount :: "string \<Rightarrow> state \<Rightarrow> int \<times> state" where
  "incrementMessageCount roomId s =
     (let newCount = getMessageCount roomId s + 1 in (newCount, setMessageCount roomId newCount s))"

definition resetMessageCount :: "string \<Rightarrow> state \<Rightarrow> state" where
  "resetMessageCount roomId s = setMessageCount roomId 0 s"

definition getAutoMessageTurn :: "string \<Rightarrow> state \<Rightarrow> int" where
  "getAutoMessageTurn roomId s = (case autoMessageTurn s roomId of None \<Rightarrow> 0 | Some t \<Rightarrow> t)"

definition setAutoMessageTurn :: "string \<Rightarrow> int \<Rightarrow> state \<Rightarrow> state" where
  "setAutoMessageTurn roomId t s = s\<lparr> autoMessageTurn := (autoMessageTurn s)(roomId \<mapsto> t) \<rparr>"

definition incrementAutoMessageTurn :: "string \<Rightarrow> int \<Rightarrow> state \<Rightarrow> int \<times> state" where
  "incrementAutoMessageTurn roomId maxTurn s =
     (let newTurn = js_rem (getAutoMessageTurn roomId s + 1) maxTurn
      in (newTurn, setAutoMessageTurn roomId newTurn s))"

definition resetAutoMessageTurn :: "string \<Rightarrow> state \<Rightarrow> state" where
  "resetAutoMessageTurn roomId s = setAutoMessageTurn roomId 0 s"

definition removeAutoMessageTurn :: "string \<Rightarrow> state \<Rightarrow> state" where
  "removeAutoMessageTurn roomId s = s\<lparr> autoMessageTurn := (autoMessageTurn s)(roomId := None) \<rparr>"

section \<open>Timed messages (modules/messaging/timed-messages.js)\<close>

text \<open>
  \<^verbatim>\<open>processTimedMessages\<close> returns nothing; the model returns the exception it ends
  with, if any, and the state it leaves. Reading \<^verbatim>\<open>.message\<close> of \<^verbatim>\<open>undefined\<close> is
  the one place where it can throw.
\<close>

definition processTimedMessages :: "string \<Rightarrow> entity \<Rightarrow> state \<Rightarrow> js_error option \<times> state" where
  "processTimedMessages roomId roomConfig s =
     (let (newCount, s1) = incrementMessageCount roomId s
      in if length (timers roomConfig) > 0 \<and> newCount > timer_counter_max roomConfig
         then
           let (nextTurn, s2) =
                 incrementAutoMessageTurn roomId (int (length (timers roomConfig))) s1
           in (case js_at (timers roomConfig) nextTurn of
                 None \<Rightarrow> (Some TypeError, s2)
               | Some timerConfig \<Rightarrow>
                   let timedMessage = t_message timerConfig;
                       uploadId = or_null (t_upload_id timerConfig);
                       s3 = queueStanza (sendMessage (entityOrRoom roomId s2) timedMessage uploadId) s2
                   in (None, resetMessageCount roomId s3))
         else (None, s1))"

text \<open>
  Feeding \<open>m\<close> messages of one room through the timer stage, the room's configuration
  staying the same; a run stops at an exception.
\<close>

fun feed_timer :: "nat \<Rightarrow> string \<Rightarrow> entity \<Rightarrow> state \<Rightarrow> js_error option \<times> state" where
  "feed_timer 0 roomId roomConfig s = (None, s)"
| "feed_timer (Suc m) roomId roomConfig s =
     (case feed_timer m roomId roomConfig s of
        (None, s') \<Rightarrow> processTimedMessages roomId roomConfig s'
      | (Some e, s') \<Rightarrow> (Some e, s'))"

text \<open>
  The stanza that the \<open>j\<close>-th emission of a room with \<open>n\<close> timers queues when the
  rotation is \<open>t\<^sub>1, t\<^sub>2, \<dots>, t\<^sub>0, t\<^sub>1, \<dots>\<close>.
\<close>

definition timed_stanza :: "string \<Rightarrow> entity \<Rightarrow> state \<Rightarrow> nat \<Rightarrow> stanza" where
  "timed_stanza roomId roomConfig s j =
     (let t = timers roomConfig ! (j mod length (timers roomConfig))
      in sendMessage (entityOrRoom roomId s) (t_message t) (or_null (t_upload_id t)))"

text \<open>
  What can happen to the timer state of a worker: a message of a room reaches the timer
  stage with the configuration the room has at that moment, a room's cursor is reset, or
  a room's cursor and counter are dropped (entity removal, memory cleanup).
\<close>

datatype timer_event =
    TimerMessage string entity
  | TurnReset string
  | TurnRemoved string

fun timer_step :: "js_error option \<times> state \<Rightarrow> timer_event \<Rightarrow> js_error option \<times> state" where
  "timer_step (Some e, s) ev = (Some e, s)"
| "timer_step (None, s) (TimerMessage roomId roomConfig) = processTimedMessages roomId roomConfig s"
| "timer_step (None, s) (TurnReset roomId) = (None, resetAutoMessageTurn roomId s)"
| "timer_step (None, s) (TurnRemoved roomId) =
     (None, removeAutoMessageTurn roomId (s\<lparr> messageCounts := (messageCounts s)(roomId := None) \<rparr>))"

definition timer_run :: "timer_event list \<Rightarrow> js_error option \<times> state" where
  "timer_run evs = foldl timer_step (None, initial_state) evs"

text \<open>The cursor that the timer stage uses when a message makes it emit.\<close>

definition cursor_used :: "string \<Rightarrow> entity \<Rightarrow> state \<Rightarrow> int" where
  "cursor_used roomId roomConfig s =
     fst (incrementAutoMessageTurn roomId (int (length (timers roomConfig)))
            (snd (incrementMessageCount roomId s)))"

definition timer_emits :: "string \<Rightarrow> entity \<Rightarrow> state \<Rightarrow> bool" where
  "timer_emits roomId roomConfig s =
     (length (timers roomConfig) > 0 \<and>
      fst (incrementMessageCount roomId s) > timer_counter_max roomConfig)"

definition cursors_nonneg :: "state \<Rightarrow> bool" where
  "cursors_nonneg s = (\<forall>r. 0 \<le> getAutoMessageTurn r s)"

section \<open>Validation of word lists (lib/utils/validation.js)\<close>

text \<open>
  A value of a JSON array is a string or something else. \<^verbatim>\<open>isValidString\<close> and
  \<^verbatim>\<open>isValidArray\<close> check the type and the length. The character classes of
  \<^verbatim>\<open>/^[\p{L}\p{N}\s\-_'.!?]+$/u\<close> are the Unicode properties \<open>L\<close> and \<open>N\<close> and the
  white space class \<^verbatim>\<open>\s\<close>, given here for the code points below 256.
\<close>

datatype jv = JString string | JOther

definition isValidString :: "jv \<Rightarrow> nat \<Rightarrow> nat \<Rightarrow> bool" where
  "isValidString v minLength maxLength =
     (case v of JString w \<Rightarrow> length w \<ge> minLength \<and> length w \<le> maxLength | JOther \<Rightarrow> False)"

definition isValidArray :: "'a list \<Rightarrow> nat \<Rightarrow> nat \<Rightarrow> bool" where
  "isValidArray xs minLength maxLength = (length xs \<ge> minLength \<and> length xs \<le> maxLength)"

definition code_in :: "char \<Rightarrow> nat \<Rightarrow> nat \<Rightarrow> bool" where
  "code_in c lo hi = (lo \<le> (of_char c :: nat) \<and> (of_char c :: nat) \<le> hi)"

definition is_letter :: "char \<Rightarrow> bool" where
  "is_letter c =
     (code_in c 65 90 \<or> code_in c 97 122 \<or> code_in c 170 170 \<or> code_in c 181 181 \<or>
      code_in c 186 186 \<or> code_in c 192 214 \<or> code_in c 216 246 \<or> code_in c 248 255)"

definition is_number :: "char \<Rightarrow> bool" where
  "is_number c =
     (code_in c 48 57 \<or> code_in c 178 179 \<or> code_in c 185 185 \<or> code_in c 188 190)"

definition is_space :: "char \<Rightarrow> bool" where
  "is_space c = (code_in c 9 13 \<or> code_in c 32 32 \<or> code_in c 160 160)"

definition is_word_punct :: "char \<Rightarrow> bool" where
  "is_word_punct c = (c \<in> set ''-_.!?'' \<or> c = CHR 0x27)"

definition safe_char :: "char \<Rightarrow> bool" where
  "safe_char c = (is_letter c \<or> is_number c \<or> is_space c \<or> is_word_punct c)"

definition isSafeWordString :: "jv \<Rightarrow> bool" where
  "isSafeWordString v =
     (if \<not> isValidString v 1 100 then False
      else (case v of JString w \<Rightarrow> list_all safe_char w | JOther \<Rightarrow> False))"

definition sanitizeStringArray :: "jv list \<Rightarrow> (jv \<Rightarrow> bool) \<Rightarrow> jv list" where
  "sanitizeStringArray ws validator =
     (if \<not> isValidArray ws 0 1000 then [] else filter validator ws)"

section \<open>Banned-word lists (modules/moderation/banned-words/banned-words-manager.js)\<close>

text \<open>
  \<^verbatim>\<open>containsDangerousRegexPatterns\<close> looks for nine patterns anywhere in the word: the
  four lookaround openers, \<^verbatim>\<open>{\<close>digits\<^verbatim>\<open>,}\<close>, \<^verbatim>\<open>++\<close>, \<^verbatim>\<open>**\<close>, \<^verbatim>\<open>(.*)\<close> and \<^verbatim>\<open>(.+)\<close>.
\<close>

definition starts_with :: "string \<Rightarrow> string \<Rightarrow> bool" where
  "starts_with p w = (take (length p) w = p)"

fun has_infix :: "string \<Rightarrow> string \<Rightarrow> bool" where
  "has_infix p [] = (p = [])"
| "has_infix p (c # cs) = (starts_with p (c # cs) \<or> has_infix p cs)"

definition is_digit :: "char \<Rightarrow> bool" where
  "is_digit c = (c \<in> set ''0123456789'')"

definition unbounded_quantifier_at :: "string \<Rightarrow> bool" where
  "unbounded_quantifier_at w =
     (case w of
        [] \<Rightarrow> False
      | c # cs \<Rightarrow> c = CHR ''{'' \<and> takeWhile is_digit cs \<noteq> [] \<and>
                  starts_with '',}'' (dropWhile is_digit cs))"

fun has_unbounded_quantifier :: "string \<Rightarrow> bool" where
  "has_unbounded_quantifier [] = False"
| "has_unbounded_quantifier (c # cs) =
     (unbounded_quantifier_at (c # cs) \<or> has_unbounded_quantifier cs)"

definition containsDangerousRegexPatterns :: "string \<Rightarrow> bool" where
  "containsDangerousRegexPatterns w =
     (has_infix ''(?='' w \<or> has_infix ''(?!'' w \<or> has_infix ''(?<='' w \<or> has_infix ''(?<!'' w \<or>
      has_unbounded_quantifier w \<or> has_infix ''++'' w \<or> has_infix ''**'' w \<or>
      has_infix ''(.*)'' w \<or> has_infix ''(.+)'' w)"

definition word_ok :: "jv \<Rightarrow> bool" where
  "word_ok v =
     (if \<not> isSafeWordString v then False
      else (case v of
              JString w \<Rightarrow> (if containsDangerousRegexPatterns w then False else True)
            | JOther \<Rightarrow> False))"

definition validateAndSanitizeWords :: "jv list \<Rightarrow> jv list" where
  "validateAndSanitizeWords ws =
     (if \<not> isValidArray ws 0 1000 then [] else sanitizeStringArray ws word_ok)"

text \<open>
  A word list as it arrives from the data-plane (\<^verbatim>\<open>preset.words\<close>,
  \<^verbatim>\<open>profanityConfig.custom_words\<close>): an array; a non-empty string, given by what
  \<^verbatim>\<open>JSON.parse\<close> makes of it (an array, \<^verbatim>\<open>null\<close>, another value, or a syntax
  error); or anything else (\<^verbatim>\<open>null\<close>, the empty string, a number, an object).
\<close>

datatype words_field =
    WordsArray "jv list"
  | WordsJsonArray "jv list"
  | WordsJsonNull
  | WordsJsonOther
  | WordsJsonInvalid
  | WordsOther

text \<open>
  What the cache holds for a preset: \<^verbatim>\<open>initializePreset\<close> always stores an array,
  \<^verbatim>\<open>refreshPreset\<close> stores whatever \<^verbatim>\<open>JSON.parse\<close> returned. A value that is not an
  array, \<^verbatim>\<open>null\<close> included, is read as a preset without words
  (\<^verbatim>\<open>presetWords.get(id) || []\<close>, then \<^verbatim>\<open>Array.isArray\<close> in \<^verbatim>\<open>combineWordLists\<close>).
\<close>

datatype cached_words = Words "jv list" | NotAnArray

record preset =
  preset_name :: string
  preset_words :: words_field

record profanity_config =
  banned_words_preset_id :: "int option"
  custom_words :: words_field
  discord_webhook_url :: "string option"
  discord_custom_message :: "string option"
  message_reply :: "string option"
  mute_duration_seconds :: "int option"
  is_active :: bool
  manager_guids :: "string list option"

record bw_config =
  presetId :: "int option"
  customWords :: "jv list"
  managerGuids :: "string list"
  enabled :: bool

text \<open>
  The regular expression engine is not part of the repository; it is a parameter
  \<open>rx\<close> of the model: \<open>rx pattern\<close> is \<open>None\<close> when \<^verbatim>\<open>new RegExp(pattern, 'i')\<close>
  throws, and otherwise the \<^verbatim>\<open>test\<close> method of the expression (without the \<^verbatim>\<open>g\<close>
  flag the method has no state).

  \<^verbatim>\<open>compiledPatterns\<close> of the manager's \<^verbatim>\<open>SmartWordFilter\<close> is one \<^verbatim>\<open>Map\<close> with two
  kinds of values: under the key \<open>W\<close> the expression that \<^verbatim>\<open>hasWordBoundaryMatch\<close>
  compiled for the word \<open>W\<close>, and under the key \<^verbatim>\<open>evasion_\<close>\<open>W\<close> the array of
  expressions that \<^verbatim>\<open>hasEvasionPattern\<close> made for the word \<open>W\<close>.
\<close>

type_synonym regex_engine = "string \<Rightarrow> (string \<Rightarrow> bool) option"

datatype compiled = Pattern "string \<Rightarrow> bool" | Patterns "(string \<Rightarrow> bool) list"

type_synonym pattern_cache = "string \<rightharpoonup> compiled"

text \<open>
  The state of a \<^verbatim>\<open>BannedWordsManager\<close>. \<^verbatim>\<open>entityConfigs\<close> and \<^verbatim>\<open>presetWords\<close> are
  association lists, because \<^verbatim>\<open>cleanupEntity\<close> walks over the values of one and
  \<^verbatim>\<open>refreshLoadedPresets\<close> over the keys of the other; the compiled patterns of the
  word filter are only looked up by key. A number is truthy when it is not 0.
\<close>

record bw_manager =
  presetWords :: "(int \<times> cached_words) list"
  entityConfigs :: "(string \<times> bw_config) list"
  usedPresetIds :: "int set"
  compiledPatterns :: pattern_cache

definition new_manager :: bw_manager where
  "new_manager = \<lparr> presetWords = [], entityConfigs = [], usedPresetIds = {},
                    compiledPatterns = Map.empty \<rparr>"

definition truthy_id :: "int option \<Rightarrow> bool" where
  "truthy_id x = (x \<noteq> None \<and> x \<noteq> Some 0)"

definition raw_preset_words :: "words_field \<Rightarrow> jv list" where
  "raw_preset_words f =
     (case f of
        WordsArray ws \<Rightarrow> ws
      | WordsJsonArray ws \<Rightarrow> ws
      | WordsJsonNull \<Rightarrow> []
      | WordsJsonOther \<Rightarrow> []
      | WordsJsonInvalid \<Rightarrow> []
      | WordsOther \<Rightarrow> [])"

text \<open>
  The functions that fetch a preset take the answer of \<^verbatim>\<open>fetchPreset\<close> as an
  argument: \<open>None\<close> is \<^verbatim>\<open>null\<close> (the preset does not exist, or the request failed).
  When \<^verbatim>\<open>JSON.parse\<close> returns something that is not an array, \<^verbatim>\<open>parseJsonField\<close>
  passes it on and \<^verbatim>\<open>validateAndSanitizeWords\<close> turns it into the empty list.
\<close>

definition initializePreset :: "int \<Rightarrow> preset option \<Rightarrow> bw_manager \<Rightarrow> bw_manager" where
  "initializePreset pid fetched m =
     (if map_of (presetWords m) pid \<noteq> None then m
      else (case fetched of
              None \<Rightarrow> m
            | Some p \<Rightarrow>
                m\<lparr> presetWords :=
                     AList.update pid
                       (Words (validateAndSanitizeWords (raw_preset_words (preset_words p))))
                       (presetWords m) \<rparr>))"

definition configureEntity ::
  "string \<Rightarrow> profanity_config option \<Rightarrow> preset option \<Rightarrow> bw_manager \<Rightarrow> bw_manager" where
  "configureEntity entityId profanityConfig fetched m =
     (case profanityConfig of
        None \<Rightarrow> m\<lparr> entityConfigs := AList.delete entityId (entityConfigs m) \<rparr>
      | Some pc \<Rightarrow>
          if \<not> is_active pc then m\<lparr> entityConfigs := AList.delete entityId (entityConfigs m) \<rparr>
          else
            let pid = banned_words_preset_id pc;
                cw = (case custom_words pc of
                        WordsArray ws \<Rightarrow> validateAndSanitizeWords ws
                      | WordsJsonArray ws \<Rightarrow> validateAndSanitizeWords ws
                      | WordsJsonNull \<Rightarrow> []
                      | WordsJsonOther \<Rightarrow> []
                      | WordsJsonInvalid \<Rightarrow> []
                      | WordsOther \<Rightarrow> []);
                mg = (case manager_guids pc of None \<Rightarrow> [] | Some gs \<Rightarrow> gs);
                m1 = (if truthy_id pid
                      then (initializePreset (the pid) fetched m)
                             \<lparr> usedPresetIds := insert (the pid) (usedPresetIds m) \<rparr>
                      else m);
                config = \<lparr> presetId = pid, customWords = cw, managerGuids = mg, enabled = True \<rparr>
            in m1\<lparr> entityConfigs := AList.update entityId config (entityConfigs m1) \<rparr>)"

definition stillUsed :: "int \<Rightarrow> (string \<times> bw_config) list \<Rightarrow> bool" where
  "stillUsed pid cfgs = list_ex (\<lambda>(e, c). presetId c = Some pid) cfgs"

definition cleanupEntity :: "string \<Rightarrow> bw_manager \<Rightarrow> bw_manager" where
  "cleanupEntity entityId m =
     (case map_of (entityConfigs m) entityId of
        None \<Rightarrow> m
      | Some config \<Rightarrow>
          let m1 = m\<lparr> entityConfigs := AList.delete entityId (entityConfigs m) \<rparr>
          in if truthy_id (presetId config)
             then (if \<not> stillUsed (the (presetId config)) (entityConfigs m1)
                   then m1\<lparr> presetWords := AList.delete (the (presetId config)) (presetWords m1),
                            usedPresetIds := usedPresetIds m1 - {the (presetId config)} \<rparr>
                   else m1)
             else m1)"

definition refreshed_words :: "words_field \<Rightarrow> cached_words" where
  "refreshed_words f =
     (case f of
        WordsArray ws \<Rightarrow> Words ws
      | WordsJsonArray ws \<Rightarrow> Words ws
      | WordsJsonNull \<Rightarrow> NotAnArray
      | WordsJsonOther \<Rightarrow> NotAnArray
      | WordsJsonInvalid \<Rightarrow> Words []
      | WordsOther \<Rightarrow> Words [])"

definition clearCompiledPatterns :: "bw_manager \<Rightarrow> bw_manager" where
  "clearCompiledPatterns m = m\<lparr> compiledPatterns := Map.empty \<rparr>"

text \<open>
  \<^verbatim>\<open>refreshPreset\<close> gets the preset id as text; \<open>pid\<close> is what \<^verbatim>\<open>parseInt\<close> makes
  of it (\<open>None\<close> for \<^verbatim>\<open>NaN\<close>). The result is the return value and the new state.
  After it has stored the words it logs \<^verbatim>\<open>words.length\<close>, which throws when the words
  are \<^verbatim>\<open>null\<close>: the \<^verbatim>\<open>catch\<close> block then returns \<^verbatim>\<open>false\<close>, with the words stored
  and the compiled patterns not cleared.
\<close>

definition refreshPreset :: "int option \<Rightarrow> preset option \<Rightarrow> bw_manager \<Rightarrow> bool \<times> bw_manager" where
  "refreshPreset pid fetched m =
     (case pid of
        None \<Rightarrow> (False, m)
      | Some i \<Rightarrow>
          if map_of (presetWords m) i = None then (False, m)
          else (case fetched of
                  Some p \<Rightarrow>
                    let m1 = m\<lparr> presetWords :=
                                  AList.update i (refreshed_words (preset_words p)) (presetWords m) \<rparr>
                    in if preset_words p = WordsJsonNull then (False, m1)
                       else (True, clearCompiledPatterns m1)
                | None \<Rightarrow>
                    (True, clearCompiledPatterns
                             (m\<lparr> presetWords := AList.delete i (presetWords m),
                                  usedPresetIds := usedPresetIds m - {i} \<rparr>))))"

text \<open>
  The loop of \<^verbatim>\<open>refreshLoadedPresets\<close> over the keys that the cache had at the start;
  an exception in one round is caught in that round. The compiled patterns are cleared
  after the loop; with no preset loaded the function returns before that.
\<close>

fun refresh_each :: "int list \<Rightarrow> (int \<Rightarrow> preset option) \<Rightarrow> bw_manager \<Rightarrow> bw_manager" where
  "refresh_each [] fetch m = m"
| "refresh_each (i # ids) fetch m =
     refresh_each ids fetch
       (case fetch i of
          Some p \<Rightarrow>
            m\<lparr> presetWords := AList.update i (refreshed_words (preset_words p)) (presetWords m) \<rparr>
        | None \<Rightarrow>
            m\<lparr> presetWords := AList.delete i (presetWords m),
                usedPresetIds := usedPresetIds m - {i} \<rparr>)"

definition refreshLoadedPresets :: "(int \<Rightarrow> preset option) \<Rightarrow> bw_manager \<Rightarrow> bw_manager" where
  "refreshLoadedPresets fetch m =
     (if presetWords m = [] then m
      else clearCompiledPatterns (refresh_each (map fst (presetWords m)) fetch m))"

definition isAuthorExempt :: "string \<Rightarrow> string \<Rightarrow> credentials option \<Rightarrow> bw_manager \<Rightarrow> bool" where
  "isAuthorExempt entityId messageAuthorGuid creds m =
     (if entityId = [] \<or> messageAuthorGuid = [] then False
      else (case map_of (entityConfigs m) entityId of
              None \<Rightarrow> False
            | Some config \<Rightarrow>
                if (case creds of None \<Rightarrow> False | Some c \<Rightarrow> bot_guid c = Some messageAuthorGuid)
                then True
                else if messageAuthorGuid \<in> set (managerGuids config) then True
                else False))"

text \<open>
  The calls that reach a banned-words manager, each with what the data-plane answered:
  \<^verbatim>\<open>configureEntity\<close>, \<^verbatim>\<open>cleanupEntity\<close>, \<^verbatim>\<open>refreshPreset\<close>, and
  \<^verbatim>\<open>refreshLoadedPresets\<close> with the presets that could be fetched.
\<close>

datatype bw_op =
    Configure string "profanity_config option" "preset option"
  | Cleanup string
  | Refresh "int option" "preset option"
  | RefreshLoaded "(int \<times> preset) list"

fun bw_step :: "bw_manager \<Rightarrow> bw_op \<Rightarrow> bw_manager" where
  "bw_step m (Configure entityId pc fetched) = configureEntity entityId pc fetched m"
| "bw_step m (Cleanup entityId) = cleanupEntity entityId m"
| "bw_step m (Refresh pid fetched) = snd (refreshPreset pid fetched m)"
| "bw_step m (RefreshLoaded presets) = refreshLoadedPresets (map_of presets) m"

definition bw_run :: "bw_op list \<Rightarrow> bw_manager" where
  "bw_run ops = foldl bw_step new_manager ops"

definition is_refresh :: "bw_op \<Rightarrow> bool" where
  "is_refresh op = (case op of Refresh pid fetched \<Rightarrow> True | RefreshLoaded presets \<Rightarrow> True
                    | Configure e pc fetched \<Rightarrow> False | Cleanup e \<Rightarrow> False)"

definition no_refresh :: "bw_op list \<Rightarrow> bool" where
  "no_refresh ops = list_all (\<lambda>op. \<not> is_refresh op) ops"

text \<open>
  The words that a manager holds, and the shape of a held word: a string of 1 to 100
  characters, each a letter, a number, white space or one of \<^verbatim>\<open>-_'.!?\<close>, without any
  of the nine patterns and without any of the characters \<^verbatim>\<open>( ) { } + *\<close>.
\<close>

definition all_custom_words :: "bw_manager \<Rightarrow> jv list" where
  "all_custom_words m = concat (map (\<lambda>(e, c). customWords c) (entityConfigs m))"

definition all_preset_words :: "bw_manager \<Rightarrow> jv list" where
  "all_preset_words m =
     concat (map (\<lambda>(i, c). case c of Words ws \<Rightarrow> ws | NotAnArray \<Rightarrow> []) (presetWords m))"

definition held_word_ok :: "jv \<Rightarrow> bool" where
  "held_word_ok v =
     (case v of
        JOther \<Rightarrow> False
      | JString w \<Rightarrow>
          1 \<le> length w \<and> length w \<le> 100 \<and> list_all safe_char w \<and>
          \<not> containsDangerousRegexPatterns w \<and>
          list_all (\<lambda>c. c \<notin> set ''(){}+*'') w)"

text \<open>
  The same shape, for all custom words of one configuration and for all words of one
  cached preset (a cached value that is not an array holds no word).
\<close>

definition config_words_ok :: "(string \<times> bw_config) \<Rightarrow> bool" where
  "config_words_ok x = list_all held_word_ok (customWords (snd x))"

definition cached_words_ok :: "(int \<times> cached_words) \<Rightarrow> bool" where
  "cached_words_ok x = (case snd x of Words ws \<Rightarrow> list_all held_word_ok ws | NotAnArray \<Rightarrow> True)"

text \<open>
  A preset id is cached when \<^verbatim>\<open>presetWords\<close> has it as a key. A configuration
  references a preset id when its \<^verbatim>\<open>presetId\<close> is that id and is truthy. A
  \<^verbatim>\<open>configureEntity\<close> call drops a reference in place when the entity is configured with
  a preset and the call removes the configuration or puts another preset (or none) in
  its place. A history of calls in which every \<^verbatim>\<open>configureEntity\<close> call that names a
  preset comes with the preset from the data-plane is one whose fetches succeed.
\<close>

definition cached :: "bw_manager \<Rightarrow> int \<Rightarrow> bool" where
  "cached m p = (map_of (presetWords m) p \<noteq> None)"

definition referenced :: "bw_manager \<Rightarrow> int \<Rightarrow> bool" where
  "referenced m p = list_ex (\<lambda>(e, c). presetId c = Some p \<and> p \<noteq> 0) (entityConfigs m)"

definition new_preset_id :: "profanity_config option \<Rightarrow> int option" where
  "new_preset_id pc =
     (case pc of
        None \<Rightarrow> None
      | Some c \<Rightarrow> if is_active c \<and> truthy_id (banned_words_preset_id c)
                  then banned_words_preset_id c else None)"

definition drops_reference :: "bw_manager \<Rightarrow> bw_op \<Rightarrow> bool" where
  "drops_reference m op =
     (case op of
        Configure e pc fetched \<Rightarrow>
          (case map_of (entityConfigs m) e of
             None \<Rightarrow> False
           | Some c \<Rightarrow> truthy_id (presetId c) \<and> new_preset_id pc \<noteq> presetId c)
      | Cleanup e \<Rightarrow> False
      | Refresh pid fetched \<Rightarrow> False
      | RefreshLoaded presets \<Rightarrow> False)"

fun no_reference_dropped :: "bw_manager \<Rightarrow> bw_op list \<Rightarrow> bool" where
  "no_reference_dropped m [] = True"
| "no_reference_dropped m (op # ops) =
     (\<not> drops_reference m op \<and> no_reference_dropped (bw_step m op) ops)"

definition fetch_succeeds :: "bw_op \<Rightarrow> bool" where
  "fetch_succeeds op =
     (case op of
        Configure e pc fetched \<Rightarrow> new_preset_id pc = None \<or> fetched \<noteq> None
      | Cleanup e \<Rightarrow> True
      | Refresh pid fetched \<Rightarrow> True
      | RefreshLoaded presets \<Rightarrow> True)"

definition fetches_succeed :: "bw_op list \<Rightarrow> bool" where
  "fetches_succeed ops = list_all fetch_succeeds ops"

text \<open>
  The two halves of the correspondence between the cache and the configurations, as
  properties of a manager: every referenced preset id is cached; every cached preset id
  is referenced, and no entity has two configurations.
\<close>

definition ref_cached :: "bw_manager \<Rightarrow> bool" where
  "ref_cached m = (\<forall>p. referenced m p \<longrightarrow> cached m p)"

definition cached_ref :: "bw_manager \<Rightarrow> bool" where
  "cached_ref m = (distinct (map fst (entityConfigs m)) \<and> (\<forall>p. cached m p \<longrightarrow> referenced m p))"

text \<open>
  Which cached presets hold words that a refresh put there. \<^verbatim>\<open>refreshPreset\<close> writes
  the words of its preset when the preset is loaded and the data-plane has it;
  \<^verbatim>\<open>refreshLoadedPresets\<close> writes the words of every loaded preset that the data-plane
  has. \<open>refreshed_presets\<close> follows a history of calls and keeps the ids written by a
  refresh for as long as they stay in the cache: a preset that is unloaded and loaded
  again gets its words from \<^verbatim>\<open>initializePreset\<close>. The loaded preset words of a history
  are the words of the cached presets that no refresh has written since they were
  loaded.
\<close>

definition refresh_writes :: "bw_manager \<Rightarrow> bw_op \<Rightarrow> int list" where
  "refresh_writes m op =
     (case op of
        Configure e pc fetched \<Rightarrow> []
      | Cleanup e \<Rightarrow> []
      | Refresh pid fetched \<Rightarrow>
          (case pid of
             None \<Rightarrow> []
           | Some i \<Rightarrow> if cached m i \<and> fetched \<noteq> None then [i] else [])
      | RefreshLoaded presets \<Rightarrow>
          filter (\<lambda>i. map_of presets i \<noteq> None) (map fst (presetWords m)))"

fun refreshed_presets :: "bw_manager \<Rightarrow> int list \<Rightarrow> bw_op list \<Rightarrow> int list" where
  "refreshed_presets m r [] = r"
| "refreshed_presets m r (op # ops) =
     refreshed_presets (bw_step m op)
       (filter (cached (bw_step m op)) (r @ refresh_writes m op)) ops"

definition replaced_by_refresh :: "bw_op list \<Rightarrow> int list" where
  "replaced_by_refresh ops = refreshed_presets new_manager [] ops"

definition loaded_preset_words :: "bw_op list \<Rightarrow> jv list" where
  "loaded_preset_words ops =
     concat (map (\<lambda>(i, c). if i \<in> set (replaced_by_refresh ops) then []
                            else (case c of Words ws \<Rightarrow> ws | NotAnArray \<Rightarrow> []))
               (presetWords (bw_run ops)))"

section \<open>Word matching (modules/moderation/banned-words/smart-word-filter.js)\<close>

text \<open>
  The filter builds regular expressions from the banned word and tests the message
  against them, with the engine \<open>rx\<close> and the map \<^verbatim>\<open>compiledPatterns\<close> described
  above. Both lookups take whatever the map holds under their key: calling \<^verbatim>\<open>test\<close>
  on an array and iterating over an expression raise a \<^verbatim>\<open>TypeError\<close>. The functions
  return their result, or the error, and the map.
\<close>

definition escapeRegex :: "string \<Rightarrow> string" where
  "escapeRegex w =
     concat (map (\<lambda>c. if c \<in> set ''.*+?^${}()|[]'' \<or> c = CHR 0x5C then [CHR 0x5C, c] else [c]) w)"

definition join_chars :: "string \<Rightarrow> string \<Rightarrow> string" where
  "join_chars sep w = (case w of [] \<Rightarrow> [] | c # cs \<Rightarrow> c # concat (map (\<lambda>d. sep @ [d]) cs))"

definition hasWordBoundaryMatch ::
  "regex_engine \<Rightarrow> string \<Rightarrow> string \<Rightarrow> pattern_cache \<Rightarrow> (js_error + bool) \<times> pattern_cache" where
  "hasWordBoundaryMatch rx msg bannedWord cp =
     (case cp bannedWord of
        None \<Rightarrow>
          (case rx ([CHR 0x5C, CHR ''b''] @ escapeRegex bannedWord @ [CHR 0x5C, CHR ''b'']) of
             None \<Rightarrow> (Inr False, cp)
           | Some pat \<Rightarrow> (Inr (pat msg), cp(bannedWord \<mapsto> Pattern pat)))
      | Some (Pattern pat) \<Rightarrow> (Inr (pat msg), cp)
      | Some (Patterns pats) \<Rightarrow> (Inl TypeError, cp))"

text \<open>The sources of the four evasion patterns, and those of them that compile.\<close>

definition evasion_sources :: "string \<Rightarrow> string list" where
  "evasion_sources bannedWord =
     [join_chars [CHR 0x5C, CHR ''s'', CHR ''*''] bannedWord,
      join_chars [CHR 0x5C, CHR ''.''] bannedWord,
      concat (map (\<lambda>c. if c \<in> set ''aeiou'' then [CHR 0x5C, CHR ''*''] else [c]) bannedWord),
      map (\<lambda>c. if c = CHR ''a'' then CHR ''4'' else if c = CHR ''e'' then CHR ''3''
                else if c = CHR ''i'' then CHR ''1'' else if c = CHR ''o'' then CHR ''0''
                else if c = CHR ''s'' then CHR ''5'' else c) bannedWord]"

definition createEvasionPatterns :: "regex_engine \<Rightarrow> string \<Rightarrow> (string \<Rightarrow> bool) list" where
  "createEvasionPatterns rx bannedWord = List.map_filter rx (evasion_sources bannedWord)"

definition hasEvasionPattern ::
  "regex_engine \<Rightarrow> string \<Rightarrow> string \<Rightarrow> pattern_cache \<Rightarrow> (js_error + bool) \<times> pattern_cache" where
  "hasEvasionPattern rx msg bannedWord cp =
     (let patternKey = ''evasion_'' @ bannedWord
      in (case cp patternKey of
            None \<Rightarrow>
              (let pats = createEvasionPatterns rx bannedWord
               in (Inr (list_ex (\<lambda>pat. pat msg) pats), cp(patternKey \<mapsto> Patterns pats)))
          | Some (Patterns pats) \<Rightarrow> (Inr (list_ex (\<lambda>pat. pat msg) pats), cp)
          | Some (Pattern pat) \<Rightarrow> (Inl TypeError, cp)))"

definition isWordPresent ::
  "regex_engine \<Rightarrow> string \<Rightarrow> string \<Rightarrow> pattern_cache \<Rightarrow> (js_error + bool) \<times> pattern_cache" where
  "isWordPresent rx lowerMessage bannedWord cp =
     (case hasWordBoundaryMatch rx lowerMessage bannedWord cp of
        (Inl e, cp1) \<Rightarrow> (Inl e, cp1)
      | (Inr True, cp1) \<Rightarrow> (Inr True, cp1)
      | (Inr False, cp1) \<Rightarrow> hasEvasionPattern rx lowerMessage bannedWord cp1)"

text \<open>The loop of \<^verbatim>\<open>checkBannedWords\<close> over the banned words.\<close>

fun check_each ::
  "regex_engine \<Rightarrow> string \<Rightarrow> string list \<Rightarrow> pattern_cache \<Rightarrow> (js_error + bool) \<times> pattern_cache" where
  "check_each rx lowerMessage [] cp = (Inr False, cp)"
| "check_each rx lowerMessage (w # ws) cp =
     (if \<not> isValidString (JString w) 1 1000 then check_each rx lowerMessage ws cp
      else (case isWordPresent rx lowerMessage (toLowerCase w) cp of
              (Inl e, cp1) \<Rightarrow> (Inl e, cp1)
            | (Inr True, cp1) \<Rightarrow> (Inr True, cp1)
            | (Inr False, cp1) \<Rightarrow> check_each rx lowerMessage ws cp1))"

definition filter_checkBannedWords ::
  "regex_engine \<Rightarrow> string \<Rightarrow> string list \<Rightarrow> pattern_cache \<Rightarrow> (js_error + bool) \<times> pattern_cache" where
  "filter_checkBannedWords rx msg bannedWords cp =
     (if \<not> isValidString (JString msg) 1 1000 then (Inr False, cp)
      else if \<not> isValidArray bannedWords 1 1000 then (Inr False, cp)
      else check_each rx (toLowerCase msg) bannedWords cp)"

definition lowered_strings :: "jv list \<Rightarrow> string list" where
  "lowered_strings ws =
     concat (map (\<lambda>v. case v of JString w \<Rightarrow> (if length w > 0 then [toLowerCase w] else [])
                             | JOther \<Rightarrow> []) ws)"

text \<open>Adding to a \<^verbatim>\<open>Set\<close>: a value that is already there keeps its place.\<close>

fun add_all :: "string list \<Rightarrow> string list \<Rightarrow> string list" where
  "add_all acc [] = acc"
| "add_all acc (x # xs) = add_all (if x \<in> set acc then acc else acc @ [x]) xs"

definition combineWordLists :: "cached_words \<Rightarrow> jv list \<Rightarrow> string list" where
  "combineWordLists presetList customList =
     add_all
       (add_all [] (lowered_strings (case presetList of Words ws \<Rightarrow> ws | NotAnArray \<Rightarrow> [])))
       (lowered_strings customList)"

text \<open>
  \<^verbatim>\<open>checkBannedWords\<close> of the manager. The result is what it returns, or the error
  that the filter raised, and the manager with the patterns compiled on the way.
\<close>

definition manager_checkBannedWords ::
  "regex_engine \<Rightarrow> string \<Rightarrow> string \<Rightarrow> string \<Rightarrow> credentials option \<Rightarrow> bw_manager
     \<Rightarrow> (js_error + bool) \<times> bw_manager" where
  "manager_checkBannedWords rx msg entityId messageAuthorGuid creds m =
     (if msg = [] then (Inr False, m)
      else if entityId = [] then (Inr False, m)
      else if messageAuthorGuid = [] then (Inr False, m)
      else (case map_of (entityConfigs m) entityId of
              None \<Rightarrow> (Inr False, m)
            | Some config \<Rightarrow>
                if \<not> enabled config then (Inr False, m)
                else if isAuthorExempt entityId messageAuthorGuid creds m then (Inr False, m)
                else
                  let cached = (if truthy_id (presetId config)
                                then (case map_of (presetWords m) (the (presetId config)) of
                                        None \<Rightarrow> Words []
                                      | Some ws \<Rightarrow> ws)
                                else Words []);
                      allBannedWords = combineWordLists cached (customWords config);
                      (res, cp) = filter_checkBannedWords rx msg allBannedWords (compiledPatterns m)
                  in (res, m\<lparr> compiledPatterns := cp \<rparr>)))"

section \<open>Discord notifications (modules/moderation/discord/discord-webhook-manager.js)\<close>

record webhook_config =
  wh_url :: string
  wh_customMessage :: string
  wh_muteDurationSeconds :: int
  wh_entityName :: "string option"

definition is_token_char :: "char \<Rightarrow> bool" where
  "is_token_char c = (code_in c 65 90 \<or> code_in c 97 122 \<or> is_digit c \<or> c = CHR ''_'' \<or> c = CHR ''-'')"

definition webhook_tail :: "string \<Rightarrow> bool" where
  "webhook_tail t =
     (takeWhile is_digit t \<noteq> [] \<and>
      (case dropWhile is_digit t of
         [] \<Rightarrow> False
       | c # rest \<Rightarrow> c = CHR ''/'' \<and> rest \<noteq> [] \<and> list_all is_token_char rest))"

text \<open>\<^verbatim>\<open>/^https:\/\/discord(?:app)?\.com\/api\/webhooks\/\d+\/[\w-]+$/\<close> on a string of 1 to 1000 characters.\<close>

definition isValidDiscordWebhookUrl :: "string \<Rightarrow> bool" where
  "isValidDiscordWebhookUrl url =
     (isValidString (JString url) 1 1000 \<and>
      ((starts_with ''https://discord.com/api/webhooks/'' url \<and>
        webhook_tail (drop (length ''https://discord.com/api/webhooks/'') url)) \<or>
       (starts_with ''https://discordapp.com/api/webhooks/'' url \<and>
        webhook_tail (drop (length ''https://discordapp.com/api/webhooks/'') url))))"

definition configureWebhook ::
  "string \<Rightarrow> profanity_config option \<Rightarrow> string option \<Rightarrow> (string \<rightharpoonup> webhook_config)
     \<Rightarrow> (string \<rightharpoonup> webhook_config)" where
  "configureWebhook entityId webhookConfig entityName whs =
     (if entityId = [] then whs
      else (case webhookConfig of
              None \<Rightarrow> whs(entityId := None)
            | Some pc \<Rightarrow>
                if \<not> truthy (discord_webhook_url pc) then whs(entityId := None)
                else if \<not> isValidDiscordWebhookUrl (the (discord_webhook_url pc)) then whs
                else whs(entityId \<mapsto>
                       \<lparr> wh_url = the (discord_webhook_url pc),
                         wh_customMessage =
                           (if truthy (discord_custom_message pc) then the (discord_custom_message pc)
                            else ''A message was caught by the profanity filter.''),
                         wh_muteDurationSeconds =
                           (case mute_duration_seconds pc of
                              None \<Rightarrow> 300
                            | Some d \<Rightarrow> if d = 0 then 300 else d),
                         wh_entityName = entityName \<rparr>)))"

definition cleanupWebhook :: "string \<Rightarrow> (string \<rightharpoonup> webhook_config) \<Rightarrow> (string \<rightharpoonup> webhook_config)" where
  "cleanupWebhook entityId whs = whs(entityId := None)"

text \<open>
  The notification is a POST to the webhook URL; of its payload the effect records the
  description of the embed, the message cut to 1000 characters.
\<close>

definition sendBannedWordsNotification ::
  "string \<Rightarrow> string \<Rightarrow> (string \<rightharpoonup> webhook_config) \<Rightarrow> effect list" where
  "sendBannedWordsNotification entityId messageContent whs =
     (case whs entityId of
        None \<Rightarrow> []
      | Some wc \<Rightarrow>
          [WebhookPost (wh_url wc)
             (if length messageContent > 1000 then take 1000 messageContent @ ''...''
              else messageContent)])"

section \<open>Moderation actions (modules/moderation/moderation.js)\<close>

text \<open>
  A worker: the state manager, the banned-words manager, the webhook configurations and
  the map of profanity configurations that the worker shares with the moderation module.
\<close>

record worker =
  sm :: state
  bwm :: bw_manager
  webhookConfigs :: "string \<rightharpoonup> webhook_config"
  profanityFilterConfigs :: "string \<rightharpoonup> profanity_config"

record message_data =
  md_content :: string
  md_roomJid :: string
  md_roomId :: string
  md_author :: string
  md_messageId :: "string option"

text \<open>\<^verbatim>\<open>constants.moderation\<close> in config/index.js.\<close>

definition bannedWordMuteDuration :: int where
  "bannedWordMuteDuration = 24 * 60 * 60"

definition readOnlyMuteDuration :: int where
  "readOnlyMuteDuration = 10"

definition getMessageReply :: "string \<Rightarrow> worker \<Rightarrow> string option" where
  "getMessageReply entityId w =
     (case profanityFilterConfigs w entityId of
        None \<Rightarrow> None
      | Some c \<Rightarrow> or_null (message_reply c))"

definition accessToken :: "state \<Rightarrow> string option" where
  "accessToken s = (case botCredentials s of None \<Rightarrow> None | Some c \<Rightarrow> or_null (bot_token c))"

text \<open>
  The two requests to the chat admin API. Neither is made without an access token.
  What the API answers only changes what is logged. The delete request is recorded with
  the message id and the two JIDs of its query string (before \<^verbatim>\<open>@\<close> is encoded), the
  mute request with the club, the user and the duration in seconds.
\<close>

definition deleteMessage :: "string option \<Rightarrow> string \<Rightarrow> string \<Rightarrow> state \<Rightarrow> effect list" where
  "deleteMessage msgId authorGuid room s =
     (case accessToken s of
        None \<Rightarrow> []
      | Some token \<Rightarrow>
          [DeleteRequest (case msgId of None \<Rightarrow> ''undefined'' | Some i \<Rightarrow> i)
             (authorGuid @ ''@'' @ domain xmppConfig)
             (toMucLightJidForEntity
                (case entities s room of Some e \<Rightarrow> e | None \<Rightarrow> community_of room) xmppConfig)])"

definition muteClubId :: "string \<Rightarrow> state \<Rightarrow> string" where
  "muteClubId room s =
     (case entities s room of
        None \<Rightarrow> room
      | Some e \<Rightarrow>
          if etype e = Some ''chat'' \<or> etype e = Some ''ihl''
          then (if truthy (parent_guid e) then the (parent_guid e)
                else if truthy (permissions_parent_guid e) then the (permissions_parent_guid e)
                else room)
          else room)"

definition muteUser :: "string \<Rightarrow> string \<Rightarrow> int \<Rightarrow> state \<Rightarrow> effect list" where
  "muteUser userGuid room durationSeconds s =
     (if durationSeconds = 0 \<or> durationSeconds \<le> 0 then []
      else (case accessToken s of
              None \<Rightarrow> []
            | Some token \<Rightarrow> [MuteRequest (muteClubId room s) userGuid durationSeconds]))"

definition muteDuration :: "string \<Rightarrow> worker \<Rightarrow> int" where
  "muteDuration room w =
     (case profanityFilterConfigs w room of
        None \<Rightarrow> bannedWordMuteDuration
      | Some pc \<Rightarrow>
          (case mute_duration_seconds pc of
             None \<Rightarrow> bannedWordMuteDuration
           | Some d \<Rightarrow> d))"

text \<open>
  Stage A. The result is the return value, or the error with which the check of the
  manager ended, the requests made and the worker: its manager holds the patterns
  compiled by the check, and its outgoing queue has the reply added when one is
  configured.
\<close>

definition moderation_checkBannedWords ::
  "regex_engine \<Rightarrow> message_data \<Rightarrow> worker \<Rightarrow> (js_error + bool) \<times> effect list \<times> worker" where
  "moderation_checkBannedWords rx md w =
     (case manager_checkBannedWords rx (md_content md) (md_roomId md) (md_author md)
             (botCredentials (sm w)) (bwm w) of
        (Inl e, m1) \<Rightarrow> (Inl e, [], w\<lparr> bwm := m1 \<rparr>)
      | (Inr False, m1) \<Rightarrow> (Inr False, [], w\<lparr> bwm := m1 \<rparr>)
      | (Inr True, m1) \<Rightarrow>
          let w0 = w\<lparr> bwm := m1 \<rparr>;
              notified = sendBannedWordsNotification (md_roomId md) (md_content md) (webhookConfigs w0);
              w1 = (case getMessageReply (md_roomId md) w0 of
                      None \<Rightarrow> w0
                    | Some reply \<Rightarrow>
                        w0\<lparr> sm := queueStanza
                                    (sendMessage (entityOrRoom (md_roomId md) (sm w0)) reply None)
                                    (sm w0) \<rparr>);
              deleted = deleteMessage (md_messageId md) (md_author md) (md_roomId md) (sm w1);
              muted = muteUser (md_author md) (md_roomId md) (muteDuration (md_roomId md) w1) (sm w1)
          in (Inr True, notified @ deleted @ muted, w1))"

text \<open>Stage B.\<close>

definition enforceReadOnlyMode :: "entity \<Rightarrow> message_data \<Rightarrow> worker \<Rightarrow> bool \<times> effect list" where
  "enforceReadOnlyMode roomConfig md w =
     (if read_only roomConfig
      then (True,
            deleteMessage (md_messageId md) (md_author md) (md_roomId md) (sm w) @
            muteUser (md_author md) (md_roomId md) readOnlyMuteDuration (sm w))
      else (False, []))"

definition processModeration ::
  "regex_engine \<Rightarrow> message_data \<Rightarrow> entity \<Rightarrow> worker \<Rightarrow> (js_error + bool) \<times> effect list \<times> worker" where
  "processModeration rx md roomConfig w =
     (case moderation_checkBannedWords rx md w of
        (Inl e, effs, w1) \<Rightarrow> (Inl e, effs, w1)
      | (Inr True, effs, w1) \<Rightarrow> (Inr True, effs, w1)
      | (Inr False, effs, w1) \<Rightarrow>
          (case enforceReadOnlyMode roomConfig md w1 of
             (True, effs2) \<Rightarrow> (Inr True, effs @ effs2, w1)
           | (False, effs2) \<Rightarrow> (Inr False, effs @ effs2, w1)))"

section \<open>Commands (modules/messaging/commands.js)\<close>

definition processCommands :: "string \<Rightarrow> string \<Rightarrow> entity \<Rightarrow> state \<Rightarrow> bool \<times> state" where
  "processCommands content room roomConfig s =
     (if \<not> starts_with ''!'' content then (False, s)
      else
        let cmd = toLowerCase (drop 1 content)
        in (case map_of (commands roomConfig) cmd of
              None \<Rightarrow> (False, s)
            | Some commandConfig \<Rightarrow>
                (True, queueStanza
                         (sendMessage (entityOrRoom room s) (c_response commandConfig)
                            (or_null (c_upload_id commandConfig))) s)))"

section \<open>Inbound messages (modules/processing/message-processor.js, services/worker/index.js)\<close>

text \<open>
  A groupchat message stanza as far as the worker looks at it: the text of its
  \<^verbatim>\<open>body\<close> child if it has one, whether it carries a \<^verbatim>\<open>urn:xmpp:delay\<close> child, the
  \<^verbatim>\<open>from\<close> attribute, the id of its \<^verbatim>\<open>stanza-id\<close> child and its own \<^verbatim>\<open>id\<close>.
\<close>

record inbound_message =
  in_body :: "string option"
  in_delay :: bool
  in_from :: string
  in_stanza_id :: "string option"
  in_id :: "string option"

text \<open>\<^verbatim>\<open>String.prototype.split\<close> with a one-character separator.\<close>

fun split_on :: "char \<Rightarrow> string \<Rightarrow> string list" where
  "split_on sep [] = [[]]"
| "split_on sep (c # cs) =
     (if c = sep then [] # split_on sep cs
      else (case split_on sep cs of
              [] \<Rightarrow> [[c]]
            | p # ps \<Rightarrow> (c # p) # ps))"

record validated =
  v_content :: string
  v_roomJid :: string
  v_roomId :: "string option"
  v_author :: string
  v_messageId :: "string option"

text \<open>
  \<^verbatim>\<open>validateMessage\<close> returns \<^verbatim>\<open>null\<close> for a message without body, a delayed
  message, a message without author and a message of the bot itself. Reading
  \<^verbatim>\<open>bot_guid\<close> throws when the worker has no credentials.
\<close>

definition validateMessage :: "inbound_message \<Rightarrow> state \<Rightarrow> js_error + validated option" where
  "validateMessage st s =
     (case in_body st of
        None \<Rightarrow> Inr None
      | Some content \<Rightarrow>
          if in_delay st then Inr None
          else
            let parts = split_on (CHR ''/'') (in_from st);
                jid = hd parts;
                authorFullJid = (if length parts > 1 then Some (parts ! 1) else None);
                author = (if truthy authorFullJid
                          then Some (hd (split_on (CHR ''@'') (the authorFullJid))) else None)
            in if \<not> truthy author then Inr None
               else (case botCredentials s of
                       None \<Rightarrow> Inl TypeError
                     | Some creds \<Rightarrow>
                         if bot_guid creds = author then Inr None
                         else Inr (Some \<lparr> v_content = content, v_roomJid = jid,
                                          v_roomId = fromJid jid, v_author = the author,
                                          v_messageId = (case in_stanza_id st of
                                                           Some i \<Rightarrow> Some i
                                                         | None \<Rightarrow> in_id st) \<rparr>)))"

definition isValidEntity :: "string option \<Rightarrow> state \<Rightarrow> bool" where
  "isValidEntity room s =
     (case room of
        None \<Rightarrow> True
      | Some r \<Rightarrow>
          if r \<in> recentlyUnassignedEntities s then False
          else if r \<in> nonExistentEntities s then False
          else True)"

definition getRoomConfig :: "string option \<Rightarrow> state \<Rightarrow> entity option" where
  "getRoomConfig room s = (case room of None \<Rightarrow> None | Some r \<Rightarrow> entities s r)"

text \<open>
  The message data that the stages get. The room id is not \<^verbatim>\<open>null\<close> once a room
  configuration has been found for it.
\<close>

definition message_data_of :: "validated \<Rightarrow> message_data" where
  "message_data_of v =
     \<lparr> md_content = v_content v, md_roomJid = v_roomJid v, md_roomId = the (v_roomId v),
       md_author = v_author v, md_messageId = v_messageId v \<rparr>"

text \<open>
  \<^verbatim>\<open>handleGroupChatMessage\<close>: validation, the entity checks, moderation (stages A and
  B), the timer stage C and the command stage D. The result is the exception that ends
  the handler, if any, the requests made and the worker.
\<close>

definition handleGroupChatMessage ::
  "regex_engine \<Rightarrow> inbound_message \<Rightarrow> worker \<Rightarrow> js_error option \<times> effect list \<times> worker" where
  "handleGroupChatMessage rx st w =
     (case validateMessage st (sm w) of
        Inl e \<Rightarrow> (Some e, [], w)
      | Inr None \<Rightarrow> (None, [], w)
      | Inr (Some v) \<Rightarrow>
          if \<not> isValidEntity (v_roomId v) (sm w) then (None, [], w)
          else (case getRoomConfig (v_roomId v) (sm w) of
                  None \<Rightarrow> (None, [], w)
                | Some roomConfig \<Rightarrow>
                    let md = message_data_of v
                    in (case processModeration rx md roomConfig w of
                          (Inl e, effs, w1) \<Rightarrow> (Some e, effs, w1)
                        | (Inr True, effs, w1) \<Rightarrow> (None, effs, w1)
                        | (Inr False, effs, w1) \<Rightarrow>
                            (case processTimedMessages (md_roomId md) roomConfig (sm w1) of
                               (Some e, s2) \<Rightarrow> (Some e, effs, w1\<lparr> sm := s2 \<rparr>)
                             | (None, s2) \<Rightarrow>
                                 (None, effs,
                                  w1\<lparr> sm := snd (processCommands (md_content md) (md_roomId md)
                                                    roomConfig s2) \<rparr>)))))"

text \<open>
  Who wrote a message, read off the \<^verbatim>\<open>from\<close> attribute as \<^verbatim>\<open>validateMessage\<close> does;
  whether a user is in the manager set that the banned-words manager holds for a room;
  whether a guid is the bot's own.
\<close>

definition author_of :: "inbound_message \<Rightarrow> string option" where
  "author_of st =
     (let parts = split_on (CHR ''/'') (in_from st)
      in if length parts > 1 \<and> parts ! 1 \<noteq> []
         then or_null (Some (hd (split_on (CHR ''@'') (parts ! 1))))
         else None)"

definition in_manager_set :: "string \<Rightarrow> string \<Rightarrow> bw_manager \<Rightarrow> bool" where
  "in_manager_set user room m =
     (case map_of (entityConfigs m) room of
        None \<Rightarrow> False
      | Some config \<Rightarrow> user \<in> set (managerGuids config))"

definition is_bot_guid :: "string \<Rightarrow> state \<Rightarrow> bool" where
  "is_bot_guid user s =
     (case botCredentials s of None \<Rightarrow> False | Some c \<Rightarrow> bot_guid c = Some user)"

section \<open>IQ errors and the queue ticker (modules/monitoring/debug-handler.js, services/worker/index.js)\<close>

text \<open>
  An inbound IQ stanza, as far as the error handling reads it: the \<^verbatim>\<open>type\<close> and
  \<^verbatim>\<open>from\<close> attributes and the \<^verbatim>\<open>code\<close> attribute of its \<^verbatim>\<open>error\<close> child (\<open>None\<close>
  when there is no such child or no such attribute). \<^verbatim>\<open>handleSupergroupIQ\<close> passes every
  stanza of type \<^verbatim>\<open>error\<close> to \<^verbatim>\<open>handleVerboseError\<close>, whatever the logging level,
  unless its \<^verbatim>\<open>query\<close> child is in the namespace \<^verbatim>\<open>faceit:supergroup:group:0\<close>.
\<close>

record iq_stanza =
  iq_type :: string
  iq_from :: "string option"
  iq_error_code :: "string option"

text \<open>
  \<^verbatim>\<open>handle404Error\<close> calls \<^verbatim>\<open>this.stateManager.cleanupEntityData(entityId, options)\<close>.
  The class \<^verbatim>\<open>StateManager\<close> of core/state-manager.js defines every other method
  that the worker and its modules call on it, and no method of that name, so the call
  applies \<^verbatim>\<open>undefined\<close> and raises a \<^verbatim>\<open>TypeError\<close>, whatever its arguments.
\<close>

definition stateManager_cleanupEntityData ::
  "string \<Rightarrow> bool \<Rightarrow> bool \<Rightarrow> state \<Rightarrow> js_error + state" where
  "stateManager_cleanupEntityData entityId addToRecentlyUnassigned addToNonExistent s = Inl TypeError"

text \<open>
  \<^verbatim>\<open>handle404Error\<close> is an \<^verbatim>\<open>async\<close> function that \<^verbatim>\<open>handleVerboseError\<close> calls
  without waiting for it. The first component of the result is the error with which its
  promise is rejected, if it is; the second the requests it makes; the third the state
  it leaves. The request to \<^verbatim>\<open>/entities/:id/status\<close> comes after the clean-up.
\<close>

definition handle404Error :: "iq_stanza \<Rightarrow> state \<Rightarrow> js_error option \<times> effect list \<times> state" where
  "handle404Error stanza s =
     (case iq_from stanza of
        None \<Rightarrow> (None, [], s)
      | Some jid \<Rightarrow>
          if jid = [] \<or> (\<not> has_infix ''@supergroups'' jid \<and> \<not> has_infix ''@muclight'' jid)
          then (None, [], s)
          else (case fromJid jid of
                  None \<Rightarrow> (None, [], s)
                | Some entityId \<Rightarrow>
                    if hasEntity entityId s
                    then (case stateManager_cleanupEntityData entityId True True s of
                            Inl err \<Rightarrow> (Some err, [], s)
                          | Inr s1 \<Rightarrow> (None, [EntityStatusPost entityId ''inactive''], s1))
                    else (None, [], s)))"

definition handleVerboseError :: "iq_stanza \<Rightarrow> state \<Rightarrow> js_error option \<times> effect list \<times> state" where
  "handleVerboseError stanza s =
     (if iq_error_code stanza = Some ''404'' then handle404Error stanza s else (None, [], s))"

definition hasNonExistentEntity :: "string \<Rightarrow> state \<Rightarrow> bool" where
  "hasNonExistentEntity entityId s = (entityId \<in> nonExistentEntities s)"

text \<open>
  One tick of the queue: with a stanza in the queue and the session online, the first
  stanza is taken out of the queue, and it is sent unless its addressee is an entity of
  the non-existent set.
\<close>

definition processStanzaQueue :: "state \<Rightarrow> effect list \<times> state" where
  "processStanzaQueue s =
     (case outgoingStanzaQueue s of
        [] \<Rightarrow> ([], s)
      | st # rest \<Rightarrow>
          if \<not> xmppOnline s then ([], s)
          else
            let s1 = s\<lparr> outgoingStanzaQueue := rest \<rparr>;
                skip = (case st_to st of
                          None \<Rightarrow> False
                        | Some jid \<Rightarrow>
                            jid \<noteq> [] \<and>
                            (case fromJid jid of
                               None \<Rightarrow> False
                             | Some entityId \<Rightarrow> hasNonExistentEntity entityId s1))
            in if skip then ([], s1) else ([XmppSend st], s1))"

text \<open>
  The function \<^verbatim>\<open>cleanupEntityData\<close> of lib/utils/index.js, which no module calls. It
  takes the caches as an argument, here the fields of the state (the map of supergroup
  subscriptions, which it also clears, is not part of the state record).
\<close>

definition cleanupEntityData :: "string \<Rightarrow> bool \<Rightarrow> bool \<Rightarrow> state \<Rightarrow> state" where
  "cleanupEntityData entityId addToRecentlyUnassigned addToNonExistent s =
     (let s1 = s\<lparr> entities := (entities s)(entityId := None),
                   messageCounts := (messageCounts s)(entityId := None),
                   autoMessageTurn := (autoMessageTurn s)(entityId := None) \<rparr>;
          s2 = (if addToRecentlyUnassigned
                then s1\<lparr> recentlyUnassignedEntities := insert entityId (recentlyUnassignedEntities s1) \<rparr>
                else s1)
      in if addToNonExistent
         then s2\<lparr> nonExistentEntities := insert entityId (nonExistentEntities s2) \<rparr>
         else s2)"

section \<open>A regular expression engine for the examples\<close>

text \<open>
  To run the word filter on concrete messages, \<open>fragment_rx\<close> implements the part of
  the pattern language that the filter's patterns for validated words fall into:
  literal characters, escaped characters, \<^verbatim>\<open>.\<close>, \<^verbatim>\<open>\b\<close>, \<^verbatim>\<open>\s*\<close>, and \<^verbatim>\<open>?\<close> after
  a character, an escaped character, \<^verbatim>\<open>.\<close> or \<^verbatim>\<open>\s*\<close> (a second \<^verbatim>\<open>?\<close> after a
  character or \<^verbatim>\<open>.\<close> makes the first one lazy, which does not change what
  \<^verbatim>\<open>test\<close> answers). A pattern is matched anywhere in the subject, without regard to
  case. The engine rejects every pattern outside this fragment, also those that a full
  engine compiles. The theorems hold for every engine; only the examples use this one.
\<close>

datatype atom = ALit char | AAny | ABoundary | ASpaces | AQuest

fun atoms :: "string \<Rightarrow> atom list option" where
  "atoms [] = Some []"
| "atoms (c # cs) =
     (if c = CHR 0x5C then
        (case cs of
           [] \<Rightarrow> None
         | d # ds \<Rightarrow>
             if d = CHR ''b'' then map_option (Cons ABoundary) (atoms ds)
             else if d = CHR ''s'' then
               (case ds of
                  [] \<Rightarrow> None
                | e # es \<Rightarrow> if e = CHR ''*'' then map_option (Cons ASpaces) (atoms es) else None)
             else if is_letter d \<or> is_number d then None
             else map_option (Cons (ALit d)) (atoms ds))
      else if c = CHR ''.'' then map_option (Cons AAny) (atoms cs)
      else if c = CHR ''?'' then map_option (Cons AQuest) (atoms cs)
      else if c \<in> set ''*+^$(){}|[]'' then None
      else map_option (Cons (ALit c)) (atoms cs))"

datatype tok = Lit char | AnyChar | Boundary | Spaces | OptLit char | OptAny

text \<open>
  A \<^verbatim>\<open>?\<close> needs something to repeat: a character or \<^verbatim>\<open>.\<close>, which it makes optional
  (and a \<^verbatim>\<open>?\<close> after that makes it lazy), or \<^verbatim>\<open>\s*\<close>, which it makes lazy.
\<close>

fun quantify :: "atom list \<Rightarrow> tok list option" where
  "quantify [] = Some []"
| "quantify (AQuest # as) = None"
| "quantify (ABoundary # AQuest # as) = None"
| "quantify (ABoundary # as) = map_option (Cons Boundary) (quantify as)"
| "quantify (ASpaces # AQuest # as) = map_option (Cons Spaces) (quantify as)"
| "quantify (ASpaces # as) = map_option (Cons Spaces) (quantify as)"
| "quantify (ALit c # AQuest # AQuest # as) = map_option (Cons (OptLit c)) (quantify as)"
| "quantify (ALit c # AQuest # as) = map_option (Cons (OptLit c)) (quantify as)"
| "quantify (ALit c # as) = map_option (Cons (Lit c)) (quantify as)"
| "quantify (AAny # AQuest # AQuest # as) = map_option (Cons OptAny) (quantify as)"
| "quantify (AAny # AQuest # as) = map_option (Cons OptAny) (quantify as)"
| "quantify (AAny # as) = map_option (Cons AnyChar) (quantify as)"

definition tokens :: "string \<Rightarrow> tok list option" where
  "tokens pat = (case atoms pat of None \<Rightarrow> None | Some as \<Rightarrow> quantify as)"

definition is_word_char :: "char option \<Rightarrow> bool" where
  "is_word_char x = (case x of None \<Rightarrow> False | Some c \<Rightarrow> is_token_char c \<and> c \<noteq> CHR ''-'')"

fun match_here :: "tok list \<Rightarrow> char option \<Rightarrow> string \<Rightarrow> bool" where
  "match_here [] prev s = True"
| "match_here (Lit c # ts) prev [] = False"
| "match_here (Lit c # ts) prev (d # s) = (lower_char c = lower_char d \<and> match_here ts (Some d) s)"
| "match_here (AnyChar # ts) prev [] = False"
| "match_here (AnyChar # ts) prev (d # s) =
     (d \<noteq> CHR 0x0A \<and> d \<noteq> CHR 0x0D \<and> match_here ts (Some d) s)"
| "match_here (Boundary # ts) prev [] = (is_word_char prev \<and> match_here ts prev [])"
| "match_here (Boundary # ts) prev (d # s) =
     (is_word_char prev \<noteq> is_word_char (Some d) \<and> match_here ts prev (d # s))"
| "match_here (Spaces # ts) prev [] = match_here ts prev []"
| "match_here (Spaces # ts) prev (d # s) =
     (match_here ts prev (d # s) \<or> (is_space d \<and> match_here (Spaces # ts) (Some d) s))"
| "match_here (OptLit c # ts) prev [] = match_here ts prev []"
| "match_here (OptLit c # ts) prev (d # s) =
     (match_here ts prev (d # s) \<or> (lower_char c = lower_char d \<and> match_here ts (Some d) s))"
| "match_here (OptAny # ts) prev [] = match_here ts prev []"
| "match_here (OptAny # ts) prev (d # s) =
     (match_here ts prev (d # s) \<or>
      (d \<noteq> CHR 0x0A \<and> d \<noteq> CHR 0x0D \<and> match_here ts (Some d) s))"

fun match_from :: "tok list \<Rightarrow> char option \<Rightarrow> string \<Rightarrow> bool" where
  "match_from ts prev [] = match_here ts prev []"
| "match_from ts prev (c # cs) = (match_here ts prev (c # cs) \<or> match_from ts (Some c) cs)"

definition fragment_rx :: regex_engine where
  "fragment_rx pat = map_option (\<lambda>ts subject. match_from ts None subject) (tokens pat)"

section \<open>Token refresh throttle of the data-plane (services/db-api/index.js)\<close>























section \<open>Example inputs\<close>







text \<open>
  A community with three timers and threshold 2, a worker that knows it, and the same
  worker after two messages of that room. Two more configurations of the room: one that
  emits on every message, and one whose timers list has been cut down to one entry.
\<close>

definition ex_T0 :: timer where
  "ex_T0 = \<lparr> t_message = ''zero'', t_upload_id = None \<rparr>"

definition ex_T1 :: timer where
  "ex_T1 = \<lparr> t_message = ''one'', t_upload_id = Some ''img-1'' \<rparr>"

definition ex_T2 :: timer where
  "ex_T2 = \<lparr> t_message = ''two'', t_upload_id = Some [] \<rparr>"

definition ex_E3 :: entity where
  "ex_E3 = \<lparr> guid = ''e3'', etype = Some ''Community'', parent_guid = None,
             permissions_parent_guid = None, commands = [], timers = [ex_T0, ex_T1, ex_T2],
             timer_counter_max = 2, read_only = False, welcome_message = None \<rparr>"

definition ex_s3 :: state where
  "ex_s3 = initial_state\<lparr> entities := [''e3'' \<mapsto> ex_E3] \<rparr>"

definition ex_s3_two :: state where
  "ex_s3_two = setMessageCount ''e3'' 2 ex_s3"

definition ex_E3_every :: entity where
  "ex_E3_every = ex_E3\<lparr> timer_counter_max := 0 \<rparr>"

definition ex_E3_short :: entity where
  "ex_E3_short = ex_E3\<lparr> timers := [ex_T0], timer_counter_max := 0 \<rparr>"

definition ex_timer_history :: "timer_event list" where
  "ex_timer_history = [TimerMessage ''e3'' ex_E3_every, TimerMessage ''e3'' ex_E3_every]"

text \<open>
  A worker with one community. The room has one timer that fires on every message, a
  \<^verbatim>\<open>!help\<close> command and a profanity configuration with the preset \<^verbatim>\<open>["badword"]\<close>, a
  webhook, a reply, the manager \<^verbatim>\<open>m1\<close> and no mute duration. The same worker with the
  room in read-only mode, and with a mute duration of 0 and of 600 seconds.
\<close>

definition ex_room :: string where
  "ex_room = ''11111111-1111-4111-8111-111111111111''"

definition ex_E1 :: entity where
  "ex_E1 = \<lparr> guid = ex_room, etype = Some ''community'', parent_guid = None,
             permissions_parent_guid = None,
             commands = [(''help'', \<lparr> c_response = ''Ask a manager.'', c_upload_id = None \<rparr>)],
             timers = [ex_T0], timer_counter_max = 0, read_only = False,
             welcome_message = None \<rparr>"

definition ex_pc :: profanity_config where
  "ex_pc = \<lparr> banned_words_preset_id = Some 1, custom_words = WordsOther,
             discord_webhook_url = Some ''https://discord.com/api/webhooks/42/tok-en_1'',
             discord_custom_message = None, message_reply = Some ''Watch your language.'',
             mute_duration_seconds = None, is_active = True, manager_guids = Some [''m1''] \<rparr>"

definition ex_preset :: preset where
  "ex_preset = \<lparr> preset_name = ''basic'', preset_words = WordsArray [JString ''badword''] \<rparr>"

definition ex_creds :: credentials where
  "ex_creds = \<lparr> bot_guid = Some ''bot-guid'', bot_token = Some ''access-token'' \<rparr>"

definition ex_worker_with :: "entity \<Rightarrow> profanity_config \<Rightarrow> worker" where
  "ex_worker_with e pc =
     \<lparr> sm = initial_state\<lparr> botCredentials := Some ex_creds, xmppOnline := True,
                             entities := [ex_room \<mapsto> e] \<rparr>,
       bwm = configureEntity ex_room (Some pc) (Some ex_preset) new_manager,
       webhookConfigs = configureWebhook ex_room (Some pc) (Some ''Room one'') Map.empty,
       profanityFilterConfigs = [ex_room \<mapsto> pc] \<rparr>"

definition ex_worker :: worker where
  "ex_worker = ex_worker_with ex_E1 ex_pc"

definition ex_worker_ro :: worker where
  "ex_worker_ro = ex_worker_with (ex_E1\<lparr> read_only := True \<rparr>) ex_pc"

definition ex_worker_mute :: "int \<Rightarrow> worker" where
  "ex_worker_mute d = ex_worker_with ex_E1 (ex_pc\<lparr> mute_duration_seconds := Some d \<rparr>)"

definition ex_room_jid :: string where
  "ex_room_jid = ''club-11111111-1111-4111-8111-111111111111-general@muclight.chat.faceit.com''"

definition ex_msg :: "string \<Rightarrow> string \<Rightarrow> inbound_message" where
  "ex_msg user body =
     \<lparr> in_body = Some body, in_delay = False,
       in_from = ex_room_jid @ ''/'' @ user @ ''@chat.faceit.com'',
       in_stanza_id = Some ''msg-1'', in_id = None \<rparr>"

definition ex_v :: "string \<Rightarrow> string \<Rightarrow> validated" where
  "ex_v user body =
     \<lparr> v_content = body, v_roomJid = ex_room_jid, v_roomId = Some ex_room, v_author = user,
       v_messageId = Some ''msg-1'' \<rparr>"

definition ex_md :: "string \<Rightarrow> string \<Rightarrow> message_data" where
  "ex_md user body = message_data_of (ex_v user body)"

definition ex_stanza :: "string \<Rightarrow> stanza" where
  "ex_stanza body = \<lparr> st_to = Some ex_room_jid, st_payload = GroupchatMessage body None \<rparr>"

text \<open>
  A history of calls on a banned-words manager: two rooms are configured with custom
  words and a preset each, some of the words unfit, and a room that was never
  configured is cleaned up. The same history followed by a refresh of preset 2, which
  is loaded, and of preset 9, which is not. A word with a tab in it.
\<close>

definition ex_pc_words :: "jv list \<Rightarrow> profanity_config" where
  "ex_pc_words ws = ex_pc\<lparr> custom_words := WordsArray ws \<rparr>"

definition ex_raw_preset :: preset where
  "ex_raw_preset = \<lparr> preset_name = ''raw'',
                     preset_words = WordsJsonArray [JString ''(.*)+'', JString ''bad word''] \<rparr>"

definition ex_word_history :: "bw_op list" where
  "ex_word_history =
     [Configure ''e1''
        (Some (ex_pc_words [JString ''bad word'', JString ''a++'', JString ''(x)'', JOther,
                            JString []])) (Some ex_raw_preset),
      Configure ''e2'' (Some (ex_pc_words [JString ''it's'']\<lparr> banned_words_preset_id := Some 2 \<rparr>))
        (Some ex_preset),
      Cleanup ''e3'']"

definition ex_refresh_history :: "bw_op list" where
  "ex_refresh_history =
     ex_word_history @ [Refresh (Some 2) (Some ex_raw_preset), Refresh (Some 9) (Some ex_raw_preset)]"

definition ex_tab_word :: string where
  "ex_tab_word = ''bad'' @ [CHR 0x09] @ ''word''"

text \<open>
  The example worker with the custom words \<^verbatim>\<open>evasion_x\<close> and \<^verbatim>\<open>x\<close>, in either order.
\<close>

definition ex_worker_keys :: "string list \<Rightarrow> worker" where
  "ex_worker_keys ws = ex_worker_with ex_E1 (ex_pc_words (map JString ws))"

text \<open>
  A history of calls that configures three rooms, two of them with preset 1 and one
  with preset 2, and then cleans up one room of each preset.
\<close>

definition ex_pc_preset :: "int \<Rightarrow> profanity_config" where
  "ex_pc_preset i = ex_pc\<lparr> banned_words_preset_id := Some i \<rparr>"

definition ex_cache_history :: "bw_op list" where
  "ex_cache_history =
     [Configure ''e1'' (Some (ex_pc_preset 1)) (Some ex_preset),
      Configure ''e2'' (Some (ex_pc_preset 1)) (Some ex_preset),
      Configure ''e3'' (Some (ex_pc_preset 2)) (Some ex_raw_preset),
      Cleanup ''e1'',
      Cleanup ''e3'']"

text \<open>
  An IQ error with code 404 from the room of the example worker, and the state of the
  worker after that error and a stanza for the room put in the queue.
\<close>

definition ex_iq_404 :: iq_stanza where
  "ex_iq_404 = \<lparr> iq_type = ''error'', iq_from = Some ex_room_jid, iq_error_code = Some ''404'' \<rparr>"

definition ex_after_404 :: state where
  "ex_after_404 =
     queueStanza (ex_stanza ''hello'') (snd (snd (handleVerboseError ex_iq_404 (sm ex_worker))))"

text \<open>Ten connection attempts that all fail, each made after the longest back-off.\<close>

definition ten_failures :: "conn_event list" where
  "ten_failures = map (\<lambda>k. Connect (5000 + 300000 * int k) (ConnectError None)) [0..<10]"

section \<open>Properties of the reconnection policy\<close>

lemma queueStanza_reconnection [simp]:
  "reconnectionAttempts (queueStanza st s) = reconnectionAttempts s"
  "reconnectionBackoffMs (queueStanza st s) = reconnectionBackoffMs s"
  "lastReconnectionTime (queueStanza st s) = lastReconnectionTime s"
  by (simp_all add: queueStanza_def)

lemma reconnection_inv_initial: "reconnection_inv (initial_state, [])"
  by (simp add: reconnection_inv_def initial_state_def)

lemma reconnection_inv_step:
  assumes "reconnection_inv p"
  shows "reconnection_inv (conn_step p ev)"
proof (cases p)
  case (Pair s log)
  show ?thesis
  proof (cases ev)
    case (Connect now outcome)
    with Pair assms show ?thesis
      by (auto simp: reconnection_inv_def connectXmpp_def performPreConnectionChecks_def
          shouldAttemptReconnection_def recordReconnectionAttempt_def Let_def
          split: conn_outcome.splits option.splits if_splits)
  next
    case Online
    with Pair assms show ?thesis
      by (auto simp: reconnection_inv_def handleXmppOnline_def resetReconnectionState_def
          split: if_splits)
  next
    case Offline
    with Pair assms show ?thesis
      by (auto simp: reconnection_inv_def handleXmppOffline_def split: if_splits)
  qed
qed

lemma reconnection_inv_foldl:
  "reconnection_inv p \<Longrightarrow> reconnection_inv (foldl conn_step p evs)"
  by (induction evs arbitrary: p) (simp_all add: reconnection_inv_step)

lemma reconnection_inv_run: "reconnection_inv (conn_run evs)"
  unfolding conn_run_def by (rule reconnection_inv_foldl [OF reconnection_inv_initial])

text \<open>
  Claim C7. The next-delay starts at 5 s; every recorded attempt sets it to
  \<open>min (previous * 2) 300000\<close> (5 min) and adds one to the attempt counter, and
  \<^verbatim>\<open>connectXmpp\<close> records an attempt exactly when its pre-connection checks pass.
  Whatever sequence of connection attempts, online and offline events the worker goes
  through, the counter never exceeds 10, and when it stands at 10 a timer that ends
  the process with status 1 has been set. The online transition resets the counter to
  0 and the delay to 5 s.
\<close>

theorem reconnection_bounded:
  "reconnectionBackoffMs initial_state = 5000 \<and>
   reconnectionAttempts initial_state = 0 \<and>
   reconnectionBackoffMs (fst (recordReconnectionAttempt now s)) =
     min (reconnectionBackoffMs s * 2) 300000 \<and>
   reconnectionAttempts (fst (recordReconnectionAttempt now s)) = reconnectionAttempts s + 1 \<and>
   (performPreConnectionChecks now s \<longrightarrow>
      reconnectionBackoffMs (fst (connectXmpp now outcome s)) =
        min (reconnectionBackoffMs s * 2) 300000 \<and>
      reconnectionAttempts (fst (connectXmpp now outcome s)) = reconnectionAttempts s + 1) \<and>
   (\<not> performPreConnectionChecks now s \<longrightarrow> connectXmpp now outcome s = (s, [])) \<and>
   reconnectionAttempts (fst (conn_run evs)) \<le> 10 \<and>
   (reconnectionAttempts (fst (conn_run evs)) = 10 \<longrightarrow>
      ExitTimer 1 \<in> set (snd (conn_run evs))) \<and>
   reconnectionAttempts (handleXmppOnline s) = 0 \<and>
   reconnectionBackoffMs (handleXmppOnline s) = 5000"
proof -
  have init: "reconnectionBackoffMs initial_state = 5000 \<and> reconnectionAttempts initial_state = 0"
    by (simp add: initial_state_def)
  have rec: "reconnectionBackoffMs (fst (recordReconnectionAttempt now s)) =
        min (reconnectionBackoffMs s * 2) 300000 \<and>
      reconnectionAttempts (fst (recordReconnectionAttempt now s)) = reconnectionAttempts s + 1"
    by (simp add: recordReconnectionAttempt_def Let_def)
  have conn: "performPreConnectionChecks now s \<longrightarrow>
      reconnectionBackoffMs (fst (connectXmpp now outcome s)) =
        min (reconnectionBackoffMs s * 2) 300000 \<and>
      reconnectionAttempts (fst (connectXmpp now outcome s)) = reconnectionAttempts s + 1"
    by (simp add: connectXmpp_def recordReconnectionAttempt_def Let_def
        split: conn_outcome.splits option.splits)
  have skip: "\<not> performPreConnectionChecks now s \<longrightarrow> connectXmpp now outcome s = (s, [])"
    by (simp add: connectXmpp_def)
  have inv: "reconnection_inv (conn_run evs)"
    by (rule reconnection_inv_run)
  have bound: "reconnectionAttempts (fst (conn_run evs)) \<le> 10"
    using inv by (simp add: reconnection_inv_def)
  have exit: "reconnectionAttempts (fst (conn_run evs)) = 10 \<longrightarrow>
      ExitTimer 1 \<in> set (snd (conn_run evs))"
    using inv by (simp add: reconnection_inv_def split: if_splits)
  have online: "reconnectionAttempts (handleXmppOnline s) = 0 \<and>
      reconnectionBackoffMs (handleXmppOnline s) = 5000"
    by (simp add: handleXmppOnline_def resetReconnectionState_def)
  from init rec conn skip bound exit online show ?thesis by blast
qed

theorem reconnection_bounded_witness:
  "performPreConnectionChecks 5000 initial_state \<and>
   reconnectionBackoffMs (fst (connectXmpp 5000 (ConnectError None) initial_state)) = 10000 \<and>
   reconnectionAttempts (fst (connectXmpp 5000 (ConnectError None) initial_state)) = 1 \<and>
   \<not> performPreConnectionChecks 4999 initial_state \<and>
   connectXmpp 4999 (ConnectError None) initial_state = (initial_state, []) \<and>
   reconnectionAttempts (fst (conn_run ten_failures)) = 10 \<and>
   ExitTimer 1 \<in> set (snd (conn_run ten_failures))"
proof -
  have a: "performPreConnectionChecks 5000 initial_state"
    by (simp add: performPreConnectionChecks_def shouldAttemptReconnection_def initial_state_def)
  have b: "\<not> performPreConnectionChecks 4999 initial_state"
    by (simp add: performPreConnectionChecks_def shouldAttemptReconnection_def initial_state_def)
  have c: "reconnectionAttempts (fst (conn_run ten_failures)) = 10"
    by code_simp
  have i: "reconnectionBackoffMs initial_state = 5000" "reconnectionAttempts initial_state = 0"
    by (simp_all add: initial_state_def)
  from reconnection_bounded [of 5000 initial_state "ConnectError None" ten_failures] a c i
  have "reconnectionBackoffMs (fst (connectXmpp 5000 (ConnectError None) initial_state)) = 10000 \<and>
     reconnectionAttempts (fst (connectXmpp 5000 (ConnectError None) initial_state)) = 1 \<and>
     ExitTimer 1 \<in> set (snd (conn_run ten_failures))"
    by simp
  moreover from reconnection_bounded [of 4999 initial_state "ConnectError None" "[]"] b
  have "connectXmpp 4999 (ConnectError None) initial_state = (initial_state, [])"
    by simp
  ultimately show ?thesis using a b c by simp
qed

section \<open>Properties of the token refresh throttle\<close>















section \<open>Properties of the timer stage\<close>

lemma js_rem_nonneg: "0 \<le> a \<Longrightarrow> 0 < b \<Longrightarrow> js_rem a b = a mod b"
  by (cases "a = 0") (simp_all add: js_rem_def)

lemma js_at_in_range: "0 \<le> i \<Longrightarrow> i < int (length xs) \<Longrightarrow> js_at xs i = Some (xs ! nat i)"
  by (simp add: js_at_def Let_def)

lemma next_turn_in_range:
  assumes "0 \<le> getAutoMessageTurn roomId s" and "timers roomConfig \<noteq> []"
  shows "0 \<le> cursor_used roomId roomConfig s"
    and "cursor_used roomId roomConfig s < int (length (timers roomConfig))"
    and "cursor_used roomId roomConfig s =
           (getAutoMessageTurn roomId s + 1) mod int (length (timers roomConfig))"
  using assms
  by (simp_all add: cursor_used_def incrementAutoMessageTurn_def incrementMessageCount_def
      setMessageCount_def getAutoMessageTurn_def js_rem_nonneg Let_def)

text \<open>The timer stage in terms of what it reads.\<close>

lemma processTimedMessages_quiet:
  assumes "\<not> timer_emits roomId roomConfig s"
  shows "processTimedMessages roomId roomConfig s =
           (None, setMessageCount roomId (getMessageCount roomId s + 1) s)"
  using assms
  by (auto simp: processTimedMessages_def timer_emits_def incrementMessageCount_def Let_def)

lemma processTimedMessages_emit:
  assumes "timer_emits roomId roomConfig s" and "0 \<le> getAutoMessageTurn roomId s"
  shows "processTimedMessages roomId roomConfig s =
           (None,
            resetMessageCount roomId
              (queueStanza
                 (sendMessage (entityOrRoom roomId s)
                    (t_message (timers roomConfig ! nat (cursor_used roomId roomConfig s)))
                    (or_null (t_upload_id (timers roomConfig ! nat (cursor_used roomId roomConfig s)))))
                 (setAutoMessageTurn roomId (cursor_used roomId roomConfig s)
                    (setMessageCount roomId (getMessageCount roomId s + 1) s))))"
proof -
  have ne: "timers roomConfig \<noteq> []" using assms(1) by (auto simp: timer_emits_def)
  have at: "js_at (timers roomConfig) (cursor_used roomId roomConfig s) =
              Some (timers roomConfig ! nat (cursor_used roomId roomConfig s))"
    using next_turn_in_range(1,2) [OF assms(2) ne] by (rule js_at_in_range)
  have ent: "entityOrRoom roomId
               (setAutoMessageTurn roomId t (setMessageCount roomId c s)) = entityOrRoom roomId s" for t c
    by (simp add: entityOrRoom_def setAutoMessageTurn_def setMessageCount_def)
  show ?thesis
    using assms(1) at
    by (simp add: processTimedMessages_def timer_emits_def incrementMessageCount_def
        incrementAutoMessageTurn_def cursor_used_def Let_def ent)
qed

lemma processTimedMessages_no_error:
  assumes "0 \<le> getAutoMessageTurn roomId s"
  shows "fst (processTimedMessages roomId roomConfig s) = None"
  using processTimedMessages_emit [OF _ assms] processTimedMessages_quiet
  by (cases "timer_emits roomId roomConfig s") simp_all

lemma getters_setMessageCount [simp]:
  "getMessageCount r (setMessageCount r' c s) = (if r = r' then c else getMessageCount r s)"
  "getAutoMessageTurn r (setMessageCount r' c s) = getAutoMessageTurn r s"
  "outgoingStanzaQueue (setMessageCount r' c s) = outgoingStanzaQueue s"
  "isShuttingDown (setMessageCount r' c s) = isShuttingDown s"
  "entities (setMessageCount r' c s) = entities s"
  by (simp_all add: getMessageCount_def getAutoMessageTurn_def setMessageCount_def)

lemma getters_setAutoMessageTurn [simp]:
  "getMessageCount r (setAutoMessageTurn r' t s) = getMessageCount r s"
  "getAutoMessageTurn r (setAutoMessageTurn r' t s) = (if r = r' then t else getAutoMessageTurn r s)"
  "outgoingStanzaQueue (setAutoMessageTurn r' t s) = outgoingStanzaQueue s"
  "isShuttingDown (setAutoMessageTurn r' t s) = isShuttingDown s"
  "entities (setAutoMessageTurn r' t s) = entities s"
  by (simp_all add: getMessageCount_def getAutoMessageTurn_def setAutoMessageTurn_def)

lemma getters_queueStanza [simp]:
  "getMessageCount r (queueStanza st s) = getMessageCount r s"
  "getAutoMessageTurn r (queueStanza st s) = getAutoMessageTurn r s"
  "outgoingStanzaQueue (queueStanza st s) =
     (if isShuttingDown s then outgoingStanzaQueue s else outgoingStanzaQueue s @ [st])"
  "isShuttingDown (queueStanza st s) = isShuttingDown s"
  "entities (queueStanza st s) = entities s"
  by (simp_all add: getMessageCount_def getAutoMessageTurn_def queueStanza_def)

lemma getters_removeAutoMessageTurn [simp]:
  "getAutoMessageTurn r (removeAutoMessageTurn r' s) = (if r = r' then 0 else getAutoMessageTurn r s)"
  by (simp add: getAutoMessageTurn_def removeAutoMessageTurn_def)

lemma getAutoMessageTurn_messageCounts_update [simp]:
  "getAutoMessageTurn r (s\<lparr> messageCounts := m \<rparr>) = getAutoMessageTurn r s"
  by (simp add: getAutoMessageTurn_def)

lemma entityOrRoom_cong: "entities s' = entities s \<Longrightarrow> entityOrRoom r s' = entityOrRoom r s"
  by (simp add: entityOrRoom_def)

lemma timer_step_inv:
  assumes "cursors_nonneg s"
  shows "fst (timer_step (None, s) ev) = None \<and> cursors_nonneg (snd (timer_step (None, s) ev))"
proof (cases ev)
  case (TimerMessage roomId roomConfig)
  have nn: "0 \<le> getAutoMessageTurn roomId s" using assms by (simp add: cursors_nonneg_def)
  show ?thesis
  proof (cases "timer_emits roomId roomConfig s")
    case True
    then have ne: "timers roomConfig \<noteq> []" by (auto simp: timer_emits_def)
    show ?thesis
      using assms next_turn_in_range(1) [OF nn ne]
      by (simp add: TimerMessage processTimedMessages_emit [OF True nn] cursors_nonneg_def
          resetMessageCount_def)
  next
    case False
    then show ?thesis
      using assms by (simp add: TimerMessage processTimedMessages_quiet cursors_nonneg_def)
  qed
next
  case (TurnReset roomId)
  then show ?thesis using assms by (simp add: cursors_nonneg_def resetAutoMessageTurn_def)
next
  case (TurnRemoved roomId)
  then show ?thesis using assms by (simp add: cursors_nonneg_def)
qed

lemma timer_foldl_inv:
  "cursors_nonneg s \<Longrightarrow>
     fst (foldl timer_step (None, s) evs) = None \<and> cursors_nonneg (snd (foldl timer_step (None, s) evs))"
proof (induction evs arbitrary: s)
  case Nil
  then show ?case by simp
next
  case (Cons ev evs)
  obtain s' where s': "timer_step (None, s) ev = (None, s')" "cursors_nonneg s'"
    using timer_step_inv [OF Cons.prems, of ev] by (cases "timer_step (None, s) ev") auto
  show ?case using Cons.IH [OF s'(2)] s'(1) by simp
qed

lemma cursors_nonneg_initial: "cursors_nonneg initial_state"
  by (simp add: cursors_nonneg_def getAutoMessageTurn_def initial_state_def)

lemma timer_run_inv: "fst (timer_run evs) = None \<and> cursors_nonneg (snd (timer_run evs))"
  unfolding timer_run_def by (rule timer_foldl_inv [OF cursors_nonneg_initial])

lemma cursor_arith:
  fixes a n :: nat
  shows "(int (a mod n) + 1) mod int n = int (Suc a mod n)"
proof -
  have "(int (a mod n) + 1) mod int n = (int a mod int n + 1) mod int n"
    by (simp only: zmod_int)
  also have "\<dots> = (int a + 1) mod int n"
    by (rule mod_add_left_eq)
  also have "int a + 1 = int (Suc a)"
    by simp
  finally show ?thesis by (simp only: zmod_int)
qed

lemma timer_emits_iff:
  assumes "timers roomConfig \<noteq> []"
    and "getMessageCount roomId s = int c" and "c \<le> nat (timer_counter_max roomConfig)"
  shows "timer_emits roomId roomConfig s \<longleftrightarrow> c = nat (timer_counter_max roomConfig)"
  using assms by (auto simp: timer_emits_def incrementMessageCount_def Let_def)

lemma wrap_step:
  fixes m K :: nat
  assumes "m mod (K + 1) = K"
  shows "Suc m mod (K + 1) = 0" and "Suc m div (K + 1) = Suc (m div (K + 1))"
proof -
  show a: "Suc m mod (K + 1) = 0"
    using assms by (subst mod_Suc) simp
  show "Suc m div (K + 1) = Suc (m div (K + 1))"
    using a by (subst div_Suc) simp
qed

lemma plain_step:
  fixes m K :: nat
  assumes "m mod (K + 1) \<noteq> K"
  shows "Suc m mod (K + 1) = Suc (m mod (K + 1))" and "Suc m div (K + 1) = m div (K + 1)"
proof -
  show a: "Suc m mod (K + 1) = Suc (m mod (K + 1))"
    using assms by (subst mod_Suc) simp
  have "Suc m mod (K + 1) \<noteq> 0" using a by simp
  then show "Suc m div (K + 1) = m div (K + 1)"
    by (subst div_Suc) simp
qed

lemma feed_timer_closed:
  fixes K n :: nat
  assumes ne: "timers roomConfig \<noteq> []"
    and up: "\<not> isShuttingDown s"
    and fresh: "messageCounts s roomId = None" "autoMessageTurn s roomId = None"
    and K: "K = nat (timer_counter_max roomConfig)"
    and n: "n = length (timers roomConfig)"
  shows "fst (feed_timer m roomId roomConfig s) = None \<and>
         getMessageCount roomId (snd (feed_timer m roomId roomConfig s)) = int (m mod (K + 1)) \<and>
         getAutoMessageTurn roomId (snd (feed_timer m roomId roomConfig s)) = int ((m div (K + 1)) mod n) \<and>
         outgoingStanzaQueue (snd (feed_timer m roomId roomConfig s)) =
           outgoingStanzaQueue s @ map (timed_stanza roomId roomConfig s) [1..<Suc (m div (K + 1))] \<and>
         entities (snd (feed_timer m roomId roomConfig s)) = entities s \<and>
         \<not> isShuttingDown (snd (feed_timer m roomId roomConfig s))"
proof (induction m)
  case 0
  show ?case using fresh up by (simp add: getMessageCount_def getAutoMessageTurn_def)
next
  case (Suc m)
  obtain s' where s': "feed_timer m roomId roomConfig s = (None, s')"
    using Suc by (cases "feed_timer m roomId roomConfig s") auto
  have cnt: "getMessageCount roomId s' = int (m mod (K + 1))"
    and cur: "getAutoMessageTurn roomId s' = int ((m div (K + 1)) mod n)"
    and que: "outgoingStanzaQueue s' =
                outgoingStanzaQueue s @ map (timed_stanza roomId roomConfig s) [1..<Suc (m div (K + 1))]"
    and ent: "entities s' = entities s" and up': "\<not> isShuttingDown s'"
    using Suc s' by simp_all
  have npos: "0 < n" using ne by (simp add: n)
  have nn: "0 \<le> getAutoMessageTurn roomId s'" using cur by simp
  have step: "feed_timer (Suc m) roomId roomConfig s = processTimedMessages roomId roomConfig s'"
    using s' by simp
  have "m mod (K + 1) < K + 1"
    by simp
  then have le: "m mod (K + 1) \<le> nat (timer_counter_max roomConfig)"
    by (simp add: K)
  show ?case
  proof (cases "m mod (K + 1) = K")
    case True
    then have em: "timer_emits roomId roomConfig s'"
      using timer_emits_iff [OF ne cnt le] by (simp add: K)
    have md: "Suc m mod (K + 1) = 0" "Suc m div (K + 1) = Suc (m div (K + 1))"
      using True by (rule wrap_step)+
    have "(int ((m div (K + 1)) mod n) + 1) mod int n = int (Suc (m div (K + 1)) mod n)"
      by (rule cursor_arith)
    then have cu: "cursor_used roomId roomConfig s' = int (Suc (m div (K + 1)) mod n)"
      using next_turn_in_range(3) [OF nn ne] cur by (simp add: n)
    have st: "sendMessage (entityOrRoom roomId s')
                (t_message (timers roomConfig ! nat (cursor_used roomId roomConfig s')))
                (or_null (t_upload_id (timers roomConfig ! nat (cursor_used roomId roomConfig s')))) =
              timed_stanza roomId roomConfig s (Suc (m div (K + 1)))"
      using cu by (simp add: timed_stanza_def Let_def n entityOrRoom_cong [OF ent])
    show ?thesis
      unfolding step processTimedMessages_emit [OF em nn] st
      using que ent up' cu md
      by (simp add: resetMessageCount_def)
  next
    case False
    then have em: "\<not> timer_emits roomId roomConfig s'"
      using timer_emits_iff [OF ne cnt le] by (simp add: K)
    have md: "Suc m mod (K + 1) = Suc (m mod (K + 1))" "Suc m div (K + 1) = m div (K + 1)"
      using False by (rule plain_step)+
    show ?thesis
      unfolding step processTimedMessages_quiet [OF em]
      using cnt cur que ent up' md by simp
  qed
qed

text \<open>
  Claim C8. Take a room with a non-empty timers list \<open>t\<^sub>0 \<dots> t\<^sub>n\<^sub>-\<^sub>1\<close> and threshold
  \<open>timer_counter_max\<close>, on a worker that is not shutting down and whose cursor for the
  room is not negative. A message that takes the counter above the threshold moves the
  cursor to \<open>(cursor + 1) mod n\<close>, queues the message of the timer at the new cursor
  (with its attachment, if any) and resets the counter to 0; any other message only
  adds one to the counter. Starting from a room that has no counter and no cursor yet,
  after \<open>m\<close> messages the queue has grown by the stanzas of \<open>t\<^sub>1, t\<^sub>2, \<dots>, t\<^sub>0, t\<^sub>1, \<dots>\<close>
  (the \<open>j\<close>-th emission is the timer at index \<open>j mod n\<close>), one for every
  \<open>timer_counter_max + 1\<close> messages.
\<close>

theorem timer_rotation:
  assumes "timers roomConfig \<noteq> []" and "\<not> isShuttingDown s"
    and "0 \<le> getAutoMessageTurn roomId s"
  shows
    "(timer_counter_max roomConfig < getMessageCount roomId s + 1 \<longrightarrow>
        fst (processTimedMessages roomId roomConfig s) = None \<and>
        getAutoMessageTurn roomId (snd (processTimedMessages roomId roomConfig s)) =
          (getAutoMessageTurn roomId s + 1) mod int (length (timers roomConfig)) \<and>
        outgoingStanzaQueue (snd (processTimedMessages roomId roomConfig s)) =
          outgoingStanzaQueue s @
          [sendMessage (entityOrRoom roomId s)
             (t_message (timers roomConfig !
                nat (getAutoMessageTurn roomId (snd (processTimedMessages roomId roomConfig s)))))
             (or_null (t_upload_id (timers roomConfig !
                nat (getAutoMessageTurn roomId (snd (processTimedMessages roomId roomConfig s))))))] \<and>
        getMessageCount roomId (snd (processTimedMessages roomId roomConfig s)) = 0) \<and>
     (\<not> timer_counter_max roomConfig < getMessageCount roomId s + 1 \<longrightarrow>
        processTimedMessages roomId roomConfig s =
          (None, setMessageCount roomId (getMessageCount roomId s + 1) s)) \<and>
     (messageCounts s roomId = None \<and> autoMessageTurn s roomId = None \<longrightarrow>
        fst (feed_timer m roomId roomConfig s) = None \<and>
        outgoingStanzaQueue (snd (feed_timer m roomId roomConfig s)) =
          outgoingStanzaQueue s @
          map (timed_stanza roomId roomConfig s)
            [1..<Suc (m div (nat (timer_counter_max roomConfig) + 1))] \<and>
        getMessageCount roomId (snd (feed_timer m roomId roomConfig s)) =
          int (m mod (nat (timer_counter_max roomConfig) + 1)) \<and>
        getAutoMessageTurn roomId (snd (feed_timer m roomId roomConfig s)) =
          int ((m div (nat (timer_counter_max roomConfig) + 1)) mod length (timers roomConfig)))"
proof -
  have emit: "timer_counter_max roomConfig < getMessageCount roomId s + 1 \<longrightarrow>
        fst (processTimedMessages roomId roomConfig s) = None \<and>
        getAutoMessageTurn roomId (snd (processTimedMessages roomId roomConfig s)) =
          (getAutoMessageTurn roomId s + 1) mod int (length (timers roomConfig)) \<and>
        outgoingStanzaQueue (snd (processTimedMessages roomId roomConfig s)) =
          outgoingStanzaQueue s @
          [sendMessage (entityOrRoom roomId s)
             (t_message (timers roomConfig !
                nat (getAutoMessageTurn roomId (snd (processTimedMessages roomId roomConfig s)))))
             (or_null (t_upload_id (timers roomConfig !
                nat (getAutoMessageTurn roomId (snd (processTimedMessages roomId roomConfig s))))))] \<and>
        getMessageCount roomId (snd (processTimedMessages roomId roomConfig s)) = 0"
  proof
    assume "timer_counter_max roomConfig < getMessageCount roomId s + 1"
    then have em: "timer_emits roomId roomConfig s"
      using assms(1) by (simp add: timer_emits_def incrementMessageCount_def Let_def)
    show "fst (processTimedMessages roomId roomConfig s) = None \<and>
        getAutoMessageTurn roomId (snd (processTimedMessages roomId roomConfig s)) =
          (getAutoMessageTurn roomId s + 1) mod int (length (timers roomConfig)) \<and>
        outgoingStanzaQueue (snd (processTimedMessages roomId roomConfig s)) =
          outgoingStanzaQueue s @
          [sendMessage (entityOrRoom roomId s)
             (t_message (timers roomConfig !
                nat (getAutoMessageTurn roomId (snd (processTimedMessages roomId roomConfig s)))))
             (or_null (t_upload_id (timers roomConfig !
                nat (getAutoMessageTurn roomId (snd (processTimedMessages roomId roomConfig s))))))] \<and>
        getMessageCount roomId (snd (processTimedMessages roomId roomConfig s)) = 0"
      unfolding processTimedMessages_emit [OF em assms(3)]
      using assms(2) next_turn_in_range(3) [OF assms(3) assms(1)]
      by (simp add: resetMessageCount_def)
  qed
  have quiet: "\<not> timer_counter_max roomConfig < getMessageCount roomId s + 1 \<longrightarrow>
        processTimedMessages roomId roomConfig s =
          (None, setMessageCount roomId (getMessageCount roomId s + 1) s)"
  proof
    assume "\<not> timer_counter_max roomConfig < getMessageCount roomId s + 1"
    then have "\<not> timer_emits roomId roomConfig s"
      by (simp add: timer_emits_def incrementMessageCount_def Let_def)
    then show "processTimedMessages roomId roomConfig s =
          (None, setMessageCount roomId (getMessageCount roomId s + 1) s)"
      by (rule processTimedMessages_quiet)
  qed
  have closed: "messageCounts s roomId = None \<and> autoMessageTurn s roomId = None \<longrightarrow>
        fst (feed_timer m roomId roomConfig s) = None \<and>
        outgoingStanzaQueue (snd (feed_timer m roomId roomConfig s)) =
          outgoingStanzaQueue s @
          map (timed_stanza roomId roomConfig s)
            [1..<Suc (m div (nat (timer_counter_max roomConfig) + 1))] \<and>
        getMessageCount roomId (snd (feed_timer m roomId roomConfig s)) =
          int (m mod (nat (timer_counter_max roomConfig) + 1)) \<and>
        getAutoMessageTurn roomId (snd (feed_timer m roomId roomConfig s)) =
          int ((m div (nat (timer_counter_max roomConfig) + 1)) mod length (timers roomConfig))"
    using feed_timer_closed [OF assms(1) assms(2) _ _ refl refl, of roomId m] by blast
  from emit quiet closed show ?thesis by blast
qed

theorem timer_rotation_witness:
  "timers ex_E3 \<noteq> [] \<and> \<not> isShuttingDown ex_s3 \<and> 0 \<le> getAutoMessageTurn ''e3'' ex_s3 \<and>
   messageCounts ex_s3 ''e3'' = None \<and> autoMessageTurn ex_s3 ''e3'' = None \<and>
   outgoingStanzaQueue (snd (feed_timer 9 ''e3'' ex_E3 ex_s3)) =
     [\<lparr>st_to = Some ''club-e3-general@muclight.chat.faceit.com'',
        st_payload = GroupchatMessage ''one'' (Some ''img-1'')\<rparr>,
      \<lparr>st_to = Some ''club-e3-general@muclight.chat.faceit.com'',
        st_payload = GroupchatMessage ''two'' None\<rparr>,
      \<lparr>st_to = Some ''club-e3-general@muclight.chat.faceit.com'',
        st_payload = GroupchatMessage ''zero'' None\<rparr>] \<and>
   getMessageCount ''e3'' (snd (feed_timer 9 ''e3'' ex_E3 ex_s3)) = 0 \<and>
   getAutoMessageTurn ''e3'' (snd (feed_timer 9 ''e3'' ex_E3 ex_s3)) = 0 \<and>
   \<not> timer_counter_max ex_E3 < getMessageCount ''e3'' ex_s3 + 1 \<and>
   processTimedMessages ''e3'' ex_E3 ex_s3 = (None, setMessageCount ''e3'' 1 ex_s3) \<and>
   timer_counter_max ex_E3 < getMessageCount ''e3'' ex_s3_two + 1 \<and>
   getAutoMessageTurn ''e3'' (snd (processTimedMessages ''e3'' ex_E3 ex_s3_two)) = 1 \<and>
   getMessageCount ''e3'' (snd (processTimedMessages ''e3'' ex_E3 ex_s3_two)) = 0 \<and>
   outgoingStanzaQueue (snd (processTimedMessages ''e3'' ex_E3 ex_s3_two)) =
     [\<lparr>st_to = Some ''club-e3-general@muclight.chat.faceit.com'',
        st_payload = GroupchatMessage ''one'' (Some ''img-1'')\<rparr>]"
proof -
  have h: "timers ex_E3 \<noteq> []" "\<not> isShuttingDown ex_s3" "0 \<le> getAutoMessageTurn ''e3'' ex_s3"
    "messageCounts ex_s3 ''e3'' = None" "autoMessageTurn ex_s3 ''e3'' = None"
    "getMessageCount ''e3'' ex_s3 = 0" "timer_counter_max ex_E3 = 2"
    "length (timers ex_E3) = 3" "outgoingStanzaQueue ex_s3 = []"
    "getAutoMessageTurn ''e3'' ex_s3 = 0"
    by (simp_all add: ex_E3_def ex_s3_def initial_state_def getAutoMessageTurn_def
        getMessageCount_def)
  have h2: "\<not> isShuttingDown ex_s3_two" "0 \<le> getAutoMessageTurn ''e3'' ex_s3_two"
    "getMessageCount ''e3'' ex_s3_two = 2" "getAutoMessageTurn ''e3'' ex_s3_two = 0"
    "outgoingStanzaQueue ex_s3_two = []"
    using h by (simp_all add: ex_s3_two_def)
  have q: "map (timed_stanza ''e3'' ex_E3 ex_s3) [1..<Suc (9 div (nat 2 + 1))] =
     [\<lparr>st_to = Some ''club-e3-general@muclight.chat.faceit.com'',
        st_payload = GroupchatMessage ''one'' (Some ''img-1'')\<rparr>,
      \<lparr>st_to = Some ''club-e3-general@muclight.chat.faceit.com'',
        st_payload = GroupchatMessage ''two'' None\<rparr>,
      \<lparr>st_to = Some ''club-e3-general@muclight.chat.faceit.com'',
        st_payload = GroupchatMessage ''zero'' None\<rparr>]"
    by code_simp
  have one: "sendMessage (entityOrRoom ''e3'' ex_s3_two) (t_message (timers ex_E3 ! nat 1))
       (or_null (t_upload_id (timers ex_E3 ! nat 1))) =
     \<lparr>st_to = Some ''club-e3-general@muclight.chat.faceit.com'',
        st_payload = GroupchatMessage ''one'' (Some ''img-1'')\<rparr>"
    by code_simp
  note a = timer_rotation [OF h(1) h(2) h(3), of 9]
  note b = timer_rotation [OF h(1) h2(1) h2(2), of 0]
  have fed: "outgoingStanzaQueue (snd (feed_timer 9 ''e3'' ex_E3 ex_s3)) =
       map (timed_stanza ''e3'' ex_E3 ex_s3) [1..<Suc (9 div (nat 2 + 1))]"
    "getMessageCount ''e3'' (snd (feed_timer 9 ''e3'' ex_E3 ex_s3)) = 0"
    "getAutoMessageTurn ''e3'' (snd (feed_timer 9 ''e3'' ex_E3 ex_s3)) = 0"
    using a h by simp_all
  have first: "processTimedMessages ''e3'' ex_E3 ex_s3 = (None, setMessageCount ''e3'' 1 ex_s3)"
    using a h by simp
  have third: "getAutoMessageTurn ''e3'' (snd (processTimedMessages ''e3'' ex_E3 ex_s3_two)) = 1"
    "getMessageCount ''e3'' (snd (processTimedMessages ''e3'' ex_E3 ex_s3_two)) = 0"
    using b h h2 by simp_all
  have "outgoingStanzaQueue (snd (processTimedMessages ''e3'' ex_E3 ex_s3_two)) =
     [sendMessage (entityOrRoom ''e3'' ex_s3_two) (t_message (timers ex_E3 ! nat 1))
       (or_null (t_upload_id (timers ex_E3 ! nat 1)))]"
    using b h h2 third(1) by simp
  then have queued: "outgoingStanzaQueue (snd (processTimedMessages ''e3'' ex_E3 ex_s3_two)) =
     [\<lparr>st_to = Some ''club-e3-general@muclight.chat.faceit.com'',
        st_payload = GroupchatMessage ''one'' (Some ''img-1'')\<rparr>]"
    by (simp only: one)
  from h h2 fed q first third queued show ?thesis by simp
qed

text \<open>
  Claim C10. Whatever has happened to the timer state of a worker since it started
  (messages of any rooms under any configurations, cursors reset or dropped), the timer
  stage has not thrown; and when the next message makes it emit for a room under the
  room's current configuration, the cursor it computes lies in
  \<open>0 \<le> cursor < length timers\<close>, so \<^verbatim>\<open>timers.at(cursor)\<close> is the timer at that index
  and the stage stores that cursor and does not throw. The cursor is taken modulo the
  current length, so this holds when the list has become shorter since the last emission.
\<close>

theorem timer_cursor_in_range:
  "fst (timer_run evs) = None \<and>
   (timer_emits roomId roomConfig (snd (timer_run evs)) \<longrightarrow>
      0 \<le> cursor_used roomId roomConfig (snd (timer_run evs)) \<and>
      cursor_used roomId roomConfig (snd (timer_run evs)) < int (length (timers roomConfig)) \<and>
      js_at (timers roomConfig) (cursor_used roomId roomConfig (snd (timer_run evs))) =
        Some (timers roomConfig ! nat (cursor_used roomId roomConfig (snd (timer_run evs)))) \<and>
      fst (processTimedMessages roomId roomConfig (snd (timer_run evs))) = None \<and>
      getAutoMessageTurn roomId (snd (processTimedMessages roomId roomConfig (snd (timer_run evs)))) =
        cursor_used roomId roomConfig (snd (timer_run evs)))"
proof -
  let ?s = "snd (timer_run evs)"
  have inv: "fst (timer_run evs) = None" "cursors_nonneg ?s"
    using timer_run_inv [of evs] by simp_all
  have nn: "0 \<le> getAutoMessageTurn roomId ?s"
    using inv(2) by (simp add: cursors_nonneg_def)
  have "0 \<le> cursor_used roomId roomConfig ?s \<and>
      cursor_used roomId roomConfig ?s < int (length (timers roomConfig)) \<and>
      js_at (timers roomConfig) (cursor_used roomId roomConfig ?s) =
        Some (timers roomConfig ! nat (cursor_used roomId roomConfig ?s)) \<and>
      fst (processTimedMessages roomId roomConfig ?s) = None \<and>
      getAutoMessageTurn roomId (snd (processTimedMessages roomId roomConfig ?s)) =
        cursor_used roomId roomConfig ?s"
    if em: "timer_emits roomId roomConfig ?s"
  proof -
    have ne: "timers roomConfig \<noteq> []" using em by (auto simp: timer_emits_def)
    note r = next_turn_in_range(1,2) [OF nn ne]
    show ?thesis
      using r js_at_in_range [OF r]
      by (simp add: processTimedMessages_emit [OF em nn] resetMessageCount_def)
  qed
  with inv(1) show ?thesis by blast
qed

theorem timer_cursor_in_range_witness:
  "timer_emits ''e3'' ex_E3_short (snd (timer_run ex_timer_history)) \<and>
   getAutoMessageTurn ''e3'' (snd (timer_run ex_timer_history)) = 2 \<and>
   length (timers ex_E3_short) = 1 \<and>
   cursor_used ''e3'' ex_E3_short (snd (timer_run ex_timer_history)) = 0 \<and>
   js_at (timers ex_E3_short) (cursor_used ''e3'' ex_E3_short (snd (timer_run ex_timer_history))) =
     Some ex_T0 \<and>
   fst (processTimedMessages ''e3'' ex_E3_short (snd (timer_run ex_timer_history))) = None"
proof -
  have em: "timer_emits ''e3'' ex_E3_short (snd (timer_run ex_timer_history))"
    by code_simp
  have cur: "getAutoMessageTurn ''e3'' (snd (timer_run ex_timer_history)) = 2"
    by code_simp
  have len: "length (timers ex_E3_short) = 1" "timers ex_E3_short ! 0 = ex_T0"
    by (simp_all add: ex_E3_short_def)
  note t = timer_cursor_in_range [of ex_timer_history "''e3''" ex_E3_short]
  have c0: "cursor_used ''e3'' ex_E3_short (snd (timer_run ex_timer_history)) = 0"
    using t em len by simp
  show ?thesis
    using t em cur len c0 by simp
qed

section \<open>Properties of the moderation pipeline\<close>

lemma manager_checkBannedWords_exempt:
  assumes "in_manager_set user room m \<or> (case creds of None \<Rightarrow> False | Some c \<Rightarrow> bot_guid c = Some user)"
  shows "manager_checkBannedWords rx content room user creds m = (Inr False, m)"
  using assms
  by (auto simp: manager_checkBannedWords_def isAuthorExempt_def in_manager_set_def Let_def
      split: option.splits)

lemma stage_A_exempt:
  assumes "in_manager_set (md_author md) (md_roomId md) (bwm w) \<or> is_bot_guid (md_author md) (sm w)"
  shows "moderation_checkBannedWords rx md w = (Inr False, [], w)"
proof -
  have "manager_checkBannedWords rx (md_content md) (md_roomId md) (md_author md)
          (botCredentials (sm w)) (bwm w) = (Inr False, bwm w)"
    using assms by (intro manager_checkBannedWords_exempt) (simp add: is_bot_guid_def)
  then show ?thesis by (simp add: moderation_checkBannedWords_def)
qed

lemma validateMessage_own:
  assumes "author_of st = Some user" and "is_bot_guid user s"
  shows "validateMessage st s = Inr None"
  using assms
  by (auto simp: validateMessage_def author_of_def is_bot_guid_def Let_def truthy_def or_null_def
      split: option.splits if_splits)

lemma handle_own_message:
  assumes "author_of st = Some user" and "is_bot_guid user (sm w)"
  shows "handleGroupChatMessage rx st w = (None, [], w)"
  using validateMessage_own [OF assms] by (simp add: handleGroupChatMessage_def)

lemma queueStanza_up: "\<not> isShuttingDown s \<Longrightarrow>
    queueStanza st s = s\<lparr> outgoingStanzaQueue := outgoingStanzaQueue s @ [st] \<rparr>"
  by (simp add: queueStanza_def)

lemma accessToken_queue [simp]:
  "accessToken (s\<lparr> outgoingStanzaQueue := q \<rparr>) = accessToken s"
  by (simp add: accessToken_def)

lemma deleteMessage_queue [simp]:
  "deleteMessage i a r (s\<lparr> outgoingStanzaQueue := q \<rparr>) = deleteMessage i a r s"
  by (simp add: deleteMessage_def split: option.splits)

lemma muteUser_queue [simp]:
  "muteUser u r d (s\<lparr> outgoingStanzaQueue := q \<rparr>) = muteUser u r d s"
  by (simp add: muteUser_def muteClubId_def split: option.splits)

lemma muteDuration_sm [simp]: "muteDuration r (w\<lparr> sm := s \<rparr>) = muteDuration r w"
  by (simp add: muteDuration_def)

lemma muteDuration_bwm [simp]: "muteDuration r (w\<lparr> bwm := m \<rparr>) = muteDuration r w"
  by (simp add: muteDuration_def)

lemma getMessageReply_bwm [simp]: "getMessageReply r (w\<lparr> bwm := m \<rparr>) = getMessageReply r w"
  by (simp add: getMessageReply_def)

text \<open>
  What stage A does, by the result of the manager's check: \<open>stage_A_worker\<close> is the
  worker with the patterns that the check compiled.
\<close>

lemma stage_A_cases:
  assumes "manager_checkBannedWords rx (md_content md) (md_roomId md) (md_author md)
             (botCredentials (sm w)) (bwm w) = (res, m1)"
  shows "fst (moderation_checkBannedWords rx md w) = res"
    and "res \<noteq> Inr True \<Longrightarrow> moderation_checkBannedWords rx md w = (res, [], w\<lparr> bwm := m1 \<rparr>)"
    and "bwm (snd (snd (moderation_checkBannedWords rx md w))) = m1"
    and "webhookConfigs (snd (snd (moderation_checkBannedWords rx md w))) = webhookConfigs w"
    and "profanityFilterConfigs (snd (snd (moderation_checkBannedWords rx md w))) =
           profanityFilterConfigs w"
proof -
  consider e where "res = Inl e" | "res = Inr False" | "res = Inr True"
    by (cases res) auto
  then have "fst (moderation_checkBannedWords rx md w) = res \<and>
      (res \<noteq> Inr True \<longrightarrow> moderation_checkBannedWords rx md w = (res, [], w\<lparr> bwm := m1 \<rparr>)) \<and>
      bwm (snd (snd (moderation_checkBannedWords rx md w))) = m1 \<and>
      webhookConfigs (snd (snd (moderation_checkBannedWords rx md w))) = webhookConfigs w \<and>
      profanityFilterConfigs (snd (snd (moderation_checkBannedWords rx md w))) =
           profanityFilterConfigs w"
    using assms
    by cases (simp_all add: moderation_checkBannedWords_def Let_def split: option.splits)
  then show "fst (moderation_checkBannedWords rx md w) = res"
    and "res \<noteq> Inr True \<Longrightarrow> moderation_checkBannedWords rx md w = (res, [], w\<lparr> bwm := m1 \<rparr>)"
    and "bwm (snd (snd (moderation_checkBannedWords rx md w))) = m1"
    and "webhookConfigs (snd (snd (moderation_checkBannedWords rx md w))) = webhookConfigs w"
    and "profanityFilterConfigs (snd (snd (moderation_checkBannedWords rx md w))) =
           profanityFilterConfigs w"
    by simp_all
qed

lemma moderation_checkBannedWords_counters:
  "getMessageCount r (sm (snd (snd (moderation_checkBannedWords rx md w)))) = getMessageCount r (sm w) \<and>
   getAutoMessageTurn r (sm (snd (snd (moderation_checkBannedWords rx md w)))) = getAutoMessageTurn r (sm w)"
proof -
  obtain res m1 where c: "manager_checkBannedWords rx (md_content md) (md_roomId md) (md_author md)
      (botCredentials (sm w)) (bwm w) = (res, m1)"
    by (cases "manager_checkBannedWords rx (md_content md) (md_roomId md) (md_author md)
      (botCredentials (sm w)) (bwm w)") simp
  consider e where "res = Inl e" | "res = Inr False" | "res = Inr True"
    by (cases res) auto
  then show ?thesis
    using c
    by cases (simp_all add: moderation_checkBannedWords_def Let_def getMessageCount_def
        getAutoMessageTurn_def queueStanza_def split: option.splits)
qed

lemma moderation_checkBannedWords_miss:
  assumes "fst (moderation_checkBannedWords rx md w) = Inr False"
  shows "moderation_checkBannedWords rx md w =
           (Inr False, [],
            w\<lparr> bwm := snd (manager_checkBannedWords rx (md_content md) (md_roomId md) (md_author md)
                             (botCredentials (sm w)) (bwm w)) \<rparr>)"
proof -
  obtain res m1 where c: "manager_checkBannedWords rx (md_content md) (md_roomId md) (md_author md)
      (botCredentials (sm w)) (bwm w) = (res, m1)"
    by (cases "manager_checkBannedWords rx (md_content md) (md_roomId md) (md_author md)
      (botCredentials (sm w)) (bwm w)") simp
  from stage_A_cases(1) [OF c] assms have "res = Inr False" by simp
  with stage_A_cases(2) [OF c] c show ?thesis by simp
qed

lemma moderation_checkBannedWords_throw:
  assumes "fst (moderation_checkBannedWords rx md w) = Inl e"
  shows "moderation_checkBannedWords rx md w =
           (Inl e, [],
            w\<lparr> bwm := snd (manager_checkBannedWords rx (md_content md) (md_roomId md) (md_author md)
                             (botCredentials (sm w)) (bwm w)) \<rparr>)"
proof -
  obtain res m1 where c: "manager_checkBannedWords rx (md_content md) (md_roomId md) (md_author md)
      (botCredentials (sm w)) (bwm w) = (res, m1)"
    by (cases "manager_checkBannedWords rx (md_content md) (md_roomId md) (md_author md)
      (botCredentials (sm w)) (bwm w)") simp
  from stage_A_cases(1) [OF c] assms have "res = Inl e" by simp
  with stage_A_cases(2) [OF c] c show ?thesis by simp
qed

text \<open>
  Claim C1, as amended. For a message whose author is in the manager set that the
  banned-words manager holds for the room, or is the bot itself, the banned-word stage
  (stage A) does nothing: it returns false, makes no request and leaves the worker as
  it is, so no webhook call, no reply stanza, no delete request and no mute request.
  The read-only stage (stage B) has no exemption of its own. For such a message the two
  stages together do nothing when the room is not read-only; when it is read-only, stage
  B issues the delete request and the mute request for 10 seconds as for any author. A
  message of the bot itself never reaches the stages: \<^verbatim>\<open>validateMessage\<close> drops it, and
  the handler does nothing at all.
\<close>

theorem exempt_authors:
  "(in_manager_set (md_author md) (md_roomId md) (bwm w) \<or> is_bot_guid (md_author md) (sm w) \<longrightarrow>
      moderation_checkBannedWords rx md w = (Inr False, [], w) \<and>
      processModeration rx md roomConfig w =
        (if read_only roomConfig
         then (Inr True,
               deleteMessage (md_messageId md) (md_author md) (md_roomId md) (sm w) @
               muteUser (md_author md) (md_roomId md) 10 (sm w), w)
         else (Inr False, [], w))) \<and>
   (author_of st = Some user \<and> is_bot_guid user (sm w) \<longrightarrow>
      handleGroupChatMessage rx st w = (None, [], w))"
proof -
  have a: "moderation_checkBannedWords rx md w = (Inr False, [], w) \<and>
      processModeration rx md roomConfig w =
        (if read_only roomConfig
         then (Inr True,
               deleteMessage (md_messageId md) (md_author md) (md_roomId md) (sm w) @
               muteUser (md_author md) (md_roomId md) 10 (sm w), w)
         else (Inr False, [], w))"
    if ex: "in_manager_set (md_author md) (md_roomId md) (bwm w) \<or> is_bot_guid (md_author md) (sm w)"
    using stage_A_exempt [OF ex, of rx]
    by (simp add: processModeration_def enforceReadOnlyMode_def readOnlyMuteDuration_def)
  have b: "handleGroupChatMessage rx st w = (None, [], w)"
    if "author_of st = Some user \<and> is_bot_guid user (sm w)"
    using that handle_own_message by blast
  from a b show ?thesis by blast
qed

theorem exempt_authors_witness:
  "in_manager_set (md_author (ex_md ''m1'' ''badword'')) (md_roomId (ex_md ''m1'' ''badword''))
     (bwm ex_worker) \<and>
   moderation_checkBannedWords fragment_rx (ex_md ''m1'' ''badword'') ex_worker =
     (Inr False, [], ex_worker) \<and>
   processModeration fragment_rx (ex_md ''m1'' ''badword'') ex_E1 ex_worker =
     (Inr False, [], ex_worker) \<and>
   author_of (ex_msg ''bot-guid'' ''badword'') = Some ''bot-guid'' \<and>
   is_bot_guid ''bot-guid'' (sm ex_worker) \<and>
   handleGroupChatMessage fragment_rx (ex_msg ''bot-guid'' ''badword'') ex_worker = (None, [], ex_worker)"
proof -
  have m: "in_manager_set (md_author (ex_md ''m1'' ''badword'')) (md_roomId (ex_md ''m1'' ''badword''))
     (bwm ex_worker)"
    by code_simp
  have r: "\<not> read_only ex_E1"
    by (simp add: ex_E1_def)
  have o: "author_of (ex_msg ''bot-guid'' ''badword'') = Some ''bot-guid''"
    by code_simp
  have g: "is_bot_guid ''bot-guid'' (sm ex_worker)"
    by code_simp
  note t = exempt_authors [of "ex_md ''m1'' ''badword''" ex_worker fragment_rx ex_E1
      "ex_msg ''bot-guid'' ''badword''" "''bot-guid''"]
  from t m r o g show ?thesis by simp
qed

theorem exempt_authors_counterexample:
  "in_manager_set ''m1'' ex_room (bwm ex_worker_ro) \<and>
   md_author (ex_md ''m1'' ''hello'') = ''m1'' \<and>
   enforceReadOnlyMode (ex_E1\<lparr> read_only := True \<rparr>) (ex_md ''m1'' ''hello'') ex_worker_ro =
     (True, [DeleteRequest ''msg-1'' ''m1@chat.faceit.com'' ex_room_jid,
             MuteRequest ex_room ''m1'' 10]) \<and>
   fst (snd (handleGroupChatMessage fragment_rx (ex_msg ''m1'' ''hello'') ex_worker_ro)) =
     [DeleteRequest ''msg-1'' ''m1@chat.faceit.com'' ex_room_jid, MuteRequest ex_room ''m1'' 10]"
  by code_simp

text \<open>
  The map of compiled patterns holds the expression of a word \<open>W\<close> and the pattern
  array of a word \<open>V\<close> under the same key when \<open>W\<close> is \<^verbatim>\<open>evasion_\<close>\<open>V\<close>. With the custom
  words \<^verbatim>\<open>evasion_x\<close> and \<^verbatim>\<open>x\<close>, in this order, the check of the message \<^verbatim>\<open>taxi\<close>
  finds the expression of the first word where it looks for the patterns of the second
  and ends with a \<^verbatim>\<open>TypeError\<close>; in the other order the check of \<^verbatim>\<open>hello\<close> finds the
  patterns of the first word where it looks for the expression of the second. In both
  cases the handler ends with that error: no request is made and nothing is queued.
\<close>

lemma compiled_patterns_key_clash:
  "fst (manager_checkBannedWords fragment_rx ''taxi'' ex_room ''u1''
          (botCredentials (sm (ex_worker_keys [''evasion_x'', ''x''])))
          (bwm (ex_worker_keys [''evasion_x'', ''x'']))) = Inl TypeError \<and>
   fst (handleGroupChatMessage fragment_rx (ex_msg ''u1'' ''taxi'')
          (ex_worker_keys [''evasion_x'', ''x''])) = Some TypeError \<and>
   fst (snd (handleGroupChatMessage fragment_rx (ex_msg ''u1'' ''taxi'')
          (ex_worker_keys [''evasion_x'', ''x'']))) = [] \<and>
   fst (handleGroupChatMessage fragment_rx (ex_msg ''u1'' ''hello'')
          (ex_worker_keys [''x'', ''evasion_x''])) = Some TypeError \<and>
   fst (snd (handleGroupChatMessage fragment_rx (ex_msg ''u1'' ''hello'')
          (ex_worker_keys [''x'', ''evasion_x'']))) = [] \<and>
   outgoingStanzaQueue (sm (snd (snd (handleGroupChatMessage fragment_rx (ex_msg ''u1'' ''hello'')
          (ex_worker_keys [''x'', ''evasion_x'']))))) = []"
  by code_simp

text \<open>
  Claim C2, as amended. On a banned-word hit, that is when the check of the manager
  returns true, on a worker that has an access token and is not shutting down, and
  whose profanity configuration for the room is \<open>pc\<close>: the worker posts the Discord
  notification if a webhook is configured for the room, then issues the delete
  request, then mutes the author for \<open>mute_duration_seconds\<close> if that is positive; with
  a duration of 0 (or below) there is no mute request, and with no duration in the
  configuration the author is muted for the default of 86400 seconds. The reply is
  queued if the configuration has one; the manager keeps the patterns that the check
  compiled, and nothing else changes.
\<close>

theorem banned_word_hit:
  assumes hit: "manager_checkBannedWords rx (md_content md) (md_roomId md) (md_author md)
                  (botCredentials (sm w)) (bwm w) = (Inr True, m1)"
    and tok: "accessToken (sm w) = Some token"
    and up: "\<not> isShuttingDown (sm w)"
    and pc: "profanityFilterConfigs w (md_roomId md) = Some pc"
  shows
    "fst (moderation_checkBannedWords rx md w) = Inr True \<and>
     fst (snd (moderation_checkBannedWords rx md w)) =
       sendBannedWordsNotification (md_roomId md) (md_content md) (webhookConfigs w) @
       [DeleteRequest (case md_messageId md of None \<Rightarrow> ''undefined'' | Some i \<Rightarrow> i)
          (md_author md @ ''@'' @ domain xmppConfig)
          (toMucLightJidForEntity
             (case entities (sm w) (md_roomId md) of
                Some e \<Rightarrow> e | None \<Rightarrow> community_of (md_roomId md)) xmppConfig)] @
       (case mute_duration_seconds pc of
          None \<Rightarrow> [MuteRequest (muteClubId (md_roomId md) (sm w)) (md_author md) 86400]
        | Some d \<Rightarrow>
            if d \<le> 0 then []
            else [MuteRequest (muteClubId (md_roomId md) (sm w)) (md_author md) d]) \<and>
     snd (snd (moderation_checkBannedWords rx md w)) =
       (case or_null (message_reply pc) of
          None \<Rightarrow> w\<lparr> bwm := m1 \<rparr>
        | Some reply \<Rightarrow>
            w\<lparr> bwm := m1,
               sm := (sm w)\<lparr> outgoingStanzaQueue :=
                   outgoingStanzaQueue (sm w) @
                   [sendMessage (entityOrRoom (md_roomId md) (sm w)) reply None] \<rparr> \<rparr>)"
proof (cases "or_null (message_reply pc)")
  case None
  then show ?thesis
    using hit tok pc
    by (simp add: moderation_checkBannedWords_def getMessageReply_def deleteMessage_def
        muteUser_def muteDuration_def bannedWordMuteDuration_def Let_def split: option.splits)
next
  case (Some reply)
  then show ?thesis
    using hit tok pc up
    by (simp add: moderation_checkBannedWords_def getMessageReply_def queueStanza_up
        deleteMessage_def muteUser_def muteClubId_def muteDuration_def bannedWordMuteDuration_def
        accessToken_def Let_def split: option.splits)
qed

theorem banned_word_hit_counterexample:
  "fst (manager_checkBannedWords fragment_rx ''this is b a d w o r d indeed'' ex_room ''u1''
     (botCredentials (sm ex_worker)) (bwm ex_worker)) = Inr True \<and>
   profanityFilterConfigs ex_worker ex_room = Some ex_pc \<and>
   mute_duration_seconds ex_pc = None \<and>
   fst (snd (moderation_checkBannedWords fragment_rx
               (ex_md ''u1'' ''this is b a d w o r d indeed'') ex_worker)) =
     [WebhookPost ''https://discord.com/api/webhooks/42/tok-en_1'' ''this is b a d w o r d indeed'',
      DeleteRequest ''msg-1'' ''u1@chat.faceit.com'' ex_room_jid,
      MuteRequest ex_room ''u1'' 86400]"
  by code_simp

theorem banned_word_hit_witness:
  "fst (manager_checkBannedWords fragment_rx (md_content (ex_md ''u1'' ''this is b a d w o r d indeed''))
     (md_roomId (ex_md ''u1'' ''this is b a d w o r d indeed''))
     (md_author (ex_md ''u1'' ''this is b a d w o r d indeed''))
     (botCredentials (sm (ex_worker_mute 600))) (bwm (ex_worker_mute 600))) = Inr True \<and>
   accessToken (sm (ex_worker_mute 600)) = Some ''access-token'' \<and>
   \<not> isShuttingDown (sm (ex_worker_mute 600)) \<and>
   fst (snd (moderation_checkBannedWords fragment_rx
               (ex_md ''u1'' ''this is b a d w o r d indeed'') (ex_worker_mute 600))) =
     [WebhookPost ''https://discord.com/api/webhooks/42/tok-en_1'' ''this is b a d w o r d indeed'',
      DeleteRequest ''msg-1'' ''u1@chat.faceit.com'' ex_room_jid,
      MuteRequest ex_room ''u1'' 600] \<and>
   outgoingStanzaQueue (sm (snd (snd (moderation_checkBannedWords fragment_rx
               (ex_md ''u1'' ''this is b a d w o r d indeed'') (ex_worker_mute 600))))) =
     [ex_stanza ''Watch your language.''] \<and>
   fst (snd (moderation_checkBannedWords fragment_rx
               (ex_md ''u1'' ''this is b a d w o r d indeed'') (ex_worker_mute 0))) =
     [WebhookPost ''https://discord.com/api/webhooks/42/tok-en_1'' ''this is b a d w o r d indeed'',
      DeleteRequest ''msg-1'' ''u1@chat.faceit.com'' ex_room_jid]"
proof -
  let ?md = "ex_md ''u1'' ''this is b a d w o r d indeed''"
  let ?check = "\<lambda>d. manager_checkBannedWords fragment_rx (md_content ?md) (md_roomId ?md)
      (md_author ?md) (botCredentials (sm (ex_worker_mute d))) (bwm (ex_worker_mute d))"
  have res: "fst (?check d) = Inr True" if "d = 0 \<or> d = 600" for d
    using that by (elim disjE; hypsubst) (code_simp, code_simp)
  have hit: "?check d = (Inr True, snd (?check d))" if "d = 0 \<or> d = 600" for d
    using res [OF that] by (cases "?check d") simp
  have tok: "accessToken (sm (ex_worker_mute d)) = Some ''access-token''" for d
    by (simp add: ex_worker_mute_def ex_worker_with_def accessToken_def ex_creds_def
        initial_state_def or_null_def truthy_def)
  have up: "\<not> isShuttingDown (sm (ex_worker_mute d))" for d
    by (simp add: ex_worker_mute_def ex_worker_with_def initial_state_def)
  have pc: "profanityFilterConfigs (ex_worker_mute d) (md_roomId ?md) =
      Some (ex_pc\<lparr> mute_duration_seconds := Some d \<rparr>)" for d
    by (simp add: ex_worker_mute_def ex_worker_with_def ex_md_def message_data_of_def ex_v_def)
  have parts:
    "sendBannedWordsNotification (md_roomId ?md) (md_content ?md) (webhookConfigs (ex_worker_mute d)) =
       [WebhookPost ''https://discord.com/api/webhooks/42/tok-en_1'' ''this is b a d w o r d indeed'']"
    "(case md_messageId ?md of None \<Rightarrow> ''undefined'' | Some i \<Rightarrow> i) = ''msg-1''"
    "md_author ?md @ ''@'' @ domain xmppConfig = ''u1@chat.faceit.com''"
    "toMucLightJidForEntity
       (case entities (sm (ex_worker_mute d)) (md_roomId ?md) of
          Some e \<Rightarrow> e | None \<Rightarrow> community_of (md_roomId ?md)) xmppConfig = ex_room_jid"
    "muteClubId (md_roomId ?md) (sm (ex_worker_mute d)) = ex_room"
    "md_author ?md = ''u1''"
    if "d = 0 \<or> d = 600" for d
    using that by (elim disjE; hypsubst; code_simp)+
  have reply: "or_null (message_reply (ex_pc\<lparr> mute_duration_seconds := Some d \<rparr>)) =
      Some ''Watch your language.''" for d
    by (simp add: ex_pc_def or_null_def truthy_def)
  have st: "sendMessage (entityOrRoom (md_roomId ?md) (sm (ex_worker_mute 600)))
      ''Watch your language.'' None = ex_stanza ''Watch your language.''"
    by code_simp
  have q0: "outgoingStanzaQueue (sm (ex_worker_mute 600)) = []"
    by (simp add: ex_worker_mute_def ex_worker_with_def initial_state_def)
  note t600 = banned_word_hit [OF hit tok up pc, of 600]
  note t0 = banned_word_hit [OF hit tok up pc, of 0]
  have e600: "fst (snd (moderation_checkBannedWords fragment_rx ?md (ex_worker_mute 600))) =
     [WebhookPost ''https://discord.com/api/webhooks/42/tok-en_1'' ''this is b a d w o r d indeed'',
      DeleteRequest ''msg-1'' ''u1@chat.faceit.com'' ex_room_jid,
      MuteRequest ex_room ''u1'' 600]"
    using t600 parts [of 600] by simp
  have q600: "outgoingStanzaQueue (sm (snd (snd (moderation_checkBannedWords fragment_rx ?md
      (ex_worker_mute 600))))) = [ex_stanza ''Watch your language.'']"
    using t600 reply [of 600] st q0 by simp
  have e0: "fst (snd (moderation_checkBannedWords fragment_rx ?md (ex_worker_mute 0))) =
     [WebhookPost ''https://discord.com/api/webhooks/42/tok-en_1'' ''this is b a d w o r d indeed'',
      DeleteRequest ''msg-1'' ''u1@chat.faceit.com'' ex_room_jid]"
    using t0 parts [of 0] by simp
  from res [of 600] tok [of 600] up [of 600] e600 q600 e0 show ?thesis by simp
qed

text \<open>
  Claim C3, as amended. For a message that has passed validation and the entity checks
  and whose room has the configuration \<open>roomConfig\<close>, and on which the banned-word check
  returns: if the banned-word stage (A) acts, the handler ends with what that stage
  did, so the read-only stage, the timer stage and the command stage do not run (the
  room's message counter stays as it was); if stage A does not act and the room is
  read-only, the handler ends with the requests of stage B, and of the worker only the
  patterns compiled by stage A have changed; otherwise the timer stage (C) runs and,
  unless it throws, the command stage (D) runs after it on the state that stage C left,
  whether or not stage C emitted a timed message. Here \<open>stage_A\<close> is the outcome of
  stage A and \<open>w1\<close> the worker with the patterns that its check compiled.
\<close>

theorem pipeline_early_return:
  assumes val: "validateMessage st (sm w) = Inr (Some v)"
    and ok: "isValidEntity (v_roomId v) (sm w)"
    and cfg: "getRoomConfig (v_roomId v) (sm w) = Some roomConfig"
    and stage_A: "stage_A = moderation_checkBannedWords rx (message_data_of v) w"
    and w1: "w1 = w\<lparr> bwm := snd (manager_checkBannedWords rx (md_content (message_data_of v))
                                  (md_roomId (message_data_of v)) (md_author (message_data_of v))
                                  (botCredentials (sm w)) (bwm w)) \<rparr>"
  shows
    "(fst stage_A = Inr True \<longrightarrow>
        handleGroupChatMessage rx st w = (None, fst (snd stage_A), snd (snd stage_A)) \<and>
        getMessageCount (md_roomId (message_data_of v))
          (sm (snd (snd (handleGroupChatMessage rx st w)))) =
          getMessageCount (md_roomId (message_data_of v)) (sm w)) \<and>
     (fst stage_A = Inr False \<and> read_only roomConfig \<longrightarrow>
        handleGroupChatMessage rx st w =
          (None, snd (enforceReadOnlyMode roomConfig (message_data_of v) w), w1)) \<and>
     (fst stage_A = Inr False \<and> \<not> read_only roomConfig \<longrightarrow>
        handleGroupChatMessage rx st w =
          (case processTimedMessages (md_roomId (message_data_of v)) roomConfig (sm w) of
             (Some e, s2) \<Rightarrow> (Some e, [], w1\<lparr> sm := s2 \<rparr>)
           | (None, s2) \<Rightarrow>
               (None, [],
                w1\<lparr> sm := snd (processCommands (md_content (message_data_of v))
                                  (md_roomId (message_data_of v)) roomConfig s2) \<rparr>)))"
proof -
  let ?md = "message_data_of v"
  let ?A = "moderation_checkBannedWords rx ?md w"
  have hit: "handleGroupChatMessage rx st w = (None, fst (snd ?A), snd (snd ?A))"
    if "fst ?A = Inr True"
    using that val ok cfg
    by (cases ?A) (simp add: handleGroupChatMessage_def processModeration_def Let_def)
  have miss: "?A = (Inr False, [], w1)" if "fst ?A = Inr False"
    using moderation_checkBannedWords_miss [OF that] w1 by simp
  have sm1: "sm w1 = sm w"
    using w1 by simp
  have ro: "handleGroupChatMessage rx st w = (None, snd (enforceReadOnlyMode roomConfig ?md w), w1)"
    if "fst ?A = Inr False" "read_only roomConfig"
    using that(2) val ok cfg miss [OF that(1)] sm1
    by (simp add: handleGroupChatMessage_def processModeration_def enforceReadOnlyMode_def Let_def)
  have rest: "handleGroupChatMessage rx st w =
          (case processTimedMessages (md_roomId ?md) roomConfig (sm w) of
             (Some e, s2) \<Rightarrow> (Some e, [], w1\<lparr> sm := s2 \<rparr>)
           | (None, s2) \<Rightarrow>
               (None, [],
                w1\<lparr> sm := snd (processCommands (md_content ?md) (md_roomId ?md) roomConfig s2) \<rparr>))"
    if "fst ?A = Inr False" "\<not> read_only roomConfig"
    using that(2) val ok cfg miss [OF that(1)] sm1
    by (simp add: handleGroupChatMessage_def processModeration_def enforceReadOnlyMode_def Let_def
        split: prod.splits option.splits)
  have cnt: "getMessageCount (md_roomId ?md) (sm (snd (snd (handleGroupChatMessage rx st w)))) =
          getMessageCount (md_roomId ?md) (sm w)" if "fst ?A = Inr True"
    using hit [OF that] moderation_checkBannedWords_counters [of "md_roomId ?md" rx ?md w]
    by simp
  from hit ro rest cnt stage_A show ?thesis by blast
qed

text \<open>
  When the banned-word check ends with an error, so does the handler, and no later
  stage runs.
\<close>

lemma pipeline_stage_A_throws:
  assumes val: "validateMessage st (sm w) = Inr (Some v)"
    and ok: "isValidEntity (v_roomId v) (sm w)"
    and cfg: "getRoomConfig (v_roomId v) (sm w) = Some roomConfig"
    and err: "fst (moderation_checkBannedWords rx (message_data_of v) w) = Inl e"
  shows "fst (handleGroupChatMessage rx st w) = Some e \<and>
         fst (snd (handleGroupChatMessage rx st w)) = [] \<and>
         sm (snd (snd (handleGroupChatMessage rx st w))) = sm w"
  using val ok cfg moderation_checkBannedWords_throw [OF err]
  by (simp add: handleGroupChatMessage_def processModeration_def Let_def)

theorem pipeline_early_return_counterexample:
  "validateMessage (ex_msg ''u1'' ''!help'') (sm ex_worker) = Inr (Some (ex_v ''u1'' ''!help'')) \<and>
   outgoingStanzaQueue (sm ex_worker) = [] \<and>
   outgoingStanzaQueue (sm (snd (snd (handleGroupChatMessage fragment_rx (ex_msg ''u1'' ''!help'')
     ex_worker)))) = [ex_stanza ''zero'', ex_stanza ''Ask a manager.'']"
  by code_simp

theorem pipeline_early_return_witness:
  "validateMessage (ex_msg ''u1'' ''badword'') (sm ex_worker) = Inr (Some (ex_v ''u1'' ''badword'')) \<and>
   isValidEntity (v_roomId (ex_v ''u1'' ''badword'')) (sm ex_worker) \<and>
   getRoomConfig (v_roomId (ex_v ''u1'' ''badword'')) (sm ex_worker) = Some ex_E1 \<and>
   fst (moderation_checkBannedWords fragment_rx (message_data_of (ex_v ''u1'' ''badword'')) ex_worker)
     = Inr True \<and>
   getMessageCount ex_room (sm (snd (snd (handleGroupChatMessage fragment_rx
     (ex_msg ''u1'' ''badword'') ex_worker)))) = 0 \<and>
   fst (moderation_checkBannedWords fragment_rx (message_data_of (ex_v ''u1'' ''hello''))
     ex_worker_ro) = Inr False \<and>
   fst (snd (handleGroupChatMessage fragment_rx (ex_msg ''u1'' ''hello'') ex_worker_ro)) =
     [DeleteRequest ''msg-1'' ''u1@chat.faceit.com'' ex_room_jid, MuteRequest ex_room ''u1'' 10] \<and>
   sm (snd (snd (handleGroupChatMessage fragment_rx (ex_msg ''u1'' ''hello'') ex_worker_ro))) =
     sm ex_worker_ro \<and>
   fst (moderation_checkBannedWords fragment_rx (message_data_of (ex_v ''u1'' ''!help''))
     ex_worker) = Inr False \<and>
   outgoingStanzaQueue (sm (snd (snd (handleGroupChatMessage fragment_rx (ex_msg ''u1'' ''!help'')
     ex_worker)))) = [ex_stanza ''zero'', ex_stanza ''Ask a manager.'']"
proof -
  have val: "validateMessage (ex_msg ''u1'' b) (sm ex_worker) = Inr (Some (ex_v ''u1'' b))"
    "validateMessage (ex_msg ''u1'' b) (sm ex_worker_ro) = Inr (Some (ex_v ''u1'' b))"
    if "b = ''badword'' \<or> b = ''hello'' \<or> b = ''!help''" for b
    using that by (elim disjE; hypsubst; code_simp)+
  have ok: "isValidEntity (v_roomId (ex_v ''u1'' b)) (sm ex_worker)"
    "isValidEntity (v_roomId (ex_v ''u1'' b)) (sm ex_worker_ro)" for b
    by (simp_all add: isValidEntity_def ex_v_def ex_worker_def ex_worker_ro_def ex_worker_with_def
        initial_state_def)
  have cfg: "getRoomConfig (v_roomId (ex_v ''u1'' b)) (sm ex_worker) = Some ex_E1"
    "getRoomConfig (v_roomId (ex_v ''u1'' b)) (sm ex_worker_ro) = Some (ex_E1\<lparr> read_only := True \<rparr>)"
    for b
    by (simp_all add: getRoomConfig_def ex_v_def ex_worker_def ex_worker_ro_def ex_worker_with_def)
  have a: "fst (moderation_checkBannedWords fragment_rx (message_data_of (ex_v ''u1'' ''badword''))
      ex_worker) = Inr True"
    by code_simp
  have b: "fst (moderation_checkBannedWords fragment_rx (message_data_of (ex_v ''u1'' ''hello''))
      ex_worker_ro) = Inr False"
    by code_simp
  have c: "fst (moderation_checkBannedWords fragment_rx (message_data_of (ex_v ''u1'' ''!help''))
      ex_worker) = Inr False"
    by code_simp
  have ro: "read_only (ex_E1\<lparr> read_only := True \<rparr>)" "\<not> read_only ex_E1"
    by (simp_all add: ex_E1_def)
  have c0: "getMessageCount ex_room (sm ex_worker) = 0"
    "md_roomId (message_data_of (ex_v ''u1'' b)) = ex_room" for b
    by (simp_all add: getMessageCount_def ex_worker_def ex_worker_with_def initial_state_def
        message_data_of_def ex_v_def)
  note ta = pipeline_early_return [OF val(1) ok(1) cfg(1) refl refl, of "''badword''" fragment_rx]
  note tb = pipeline_early_return [OF val(2) ok(2) cfg(2) refl refl, of "''hello''" fragment_rx]
  note tc = pipeline_early_return [OF val(1) ok(1) cfg(1) refl refl, of "''!help''" fragment_rx]
  have "getMessageCount (md_roomId (message_data_of (ex_v ''u1'' ''badword'')))
      (sm (snd (snd (handleGroupChatMessage fragment_rx (ex_msg ''u1'' ''badword'') ex_worker)))) =
      getMessageCount (md_roomId (message_data_of (ex_v ''u1'' ''badword''))) (sm ex_worker)"
    using ta a by blast
  then have ra: "getMessageCount ex_room (sm (snd (snd (handleGroupChatMessage fragment_rx
      (ex_msg ''u1'' ''badword'') ex_worker)))) = 0"
    by (simp only: c0)
  have eb: "snd (enforceReadOnlyMode (ex_E1\<lparr> read_only := True \<rparr>)
        (message_data_of (ex_v ''u1'' ''hello'')) ex_worker_ro) =
      [DeleteRequest ''msg-1'' ''u1@chat.faceit.com'' ex_room_jid, MuteRequest ex_room ''u1'' 10]"
    by code_simp
  have rb: "fst (snd (handleGroupChatMessage fragment_rx (ex_msg ''u1'' ''hello'') ex_worker_ro)) =
      [DeleteRequest ''msg-1'' ''u1@chat.faceit.com'' ex_room_jid, MuteRequest ex_room ''u1'' 10]"
    "sm (snd (snd (handleGroupChatMessage fragment_rx (ex_msg ''u1'' ''hello'') ex_worker_ro))) =
      sm ex_worker_ro"
    using tb b ro eb by simp_all
  have ec: "outgoingStanzaQueue (snd (processCommands (md_content (message_data_of (ex_v ''u1'' ''!help'')))
        (md_roomId (message_data_of (ex_v ''u1'' ''!help''))) ex_E1
        (snd (processTimedMessages (md_roomId (message_data_of (ex_v ''u1'' ''!help''))) ex_E1
                (sm ex_worker))))) =
      [ex_stanza ''zero'', ex_stanza ''Ask a manager.'']"
    "fst (processTimedMessages (md_roomId (message_data_of (ex_v ''u1'' ''!help''))) ex_E1
                (sm ex_worker)) = None"
    by code_simp+
  have rc: "outgoingStanzaQueue (sm (snd (snd (handleGroupChatMessage fragment_rx
      (ex_msg ''u1'' ''!help'') ex_worker)))) = [ex_stanza ''zero'', ex_stanza ''Ask a manager.'']"
    using tc c ro ec
    by (cases "processTimedMessages (md_roomId (message_data_of (ex_v ''u1'' ''!help''))) ex_E1
                (sm ex_worker)") simp
  from val(1) [of "''badword''"] ok(1) [of "''badword''"] cfg(1) [of "''badword''"] a ra b rb c rc
  show ?thesis by simp
qed

section \<open>Properties of the banned-word lists\<close>

lemma unsafe_chars: "\<not> safe_char (CHR ''('')" "\<not> safe_char (CHR '')'')" "\<not> safe_char (CHR ''{'')"
  "\<not> safe_char (CHR ''}'')" "\<not> safe_char (CHR ''+'')" "\<not> safe_char (CHR ''*'')"
  by code_simp+

lemma safe_char_plain: "safe_char c \<Longrightarrow> c \<notin> set ''(){}+*''"
  using unsafe_chars by auto

lemma safe_word_plain: "list_all safe_char w \<Longrightarrow> list_all (\<lambda>c. c \<notin> set ''(){}+*'') w"
  by (induction w) (simp_all add: safe_char_plain del: set_simps)

lemma word_ok_held: "word_ok v \<Longrightarrow> held_word_ok v"
proof (cases v)
  case (JString w)
  assume "word_ok v"
  then have a: "1 \<le> length w" "length w \<le> 100" "list_all safe_char w"
    "\<not> containsDangerousRegexPatterns w"
    using JString
    by (simp_all add: word_ok_def isSafeWordString_def isValidString_def split: if_splits)
  show ?thesis
    using a safe_word_plain [OF a(3)] JString by (simp add: held_word_ok_def)
next
  case JOther
  assume "word_ok v"
  then show ?thesis using JOther by (simp add: word_ok_def isSafeWordString_def isValidString_def)
qed

lemma validateAndSanitizeWords_held:
  "v \<in> set (validateAndSanitizeWords ws) \<Longrightarrow> held_word_ok v"
  by (simp add: validateAndSanitizeWords_def sanitizeStringArray_def word_ok_held
      split: if_splits)

lemma set_alist_update: "set (AList.update k v al) \<subseteq> insert (k, v) (set al)"
  by (induction al) auto

lemma set_alist_delete: "set (AList.delete k al) \<subseteq> set al"
  by (auto simp: AList.delete_eq)

lemma list_all_validated: "list_all held_word_ok (validateAndSanitizeWords ws)"
  using validateAndSanitizeWords_held by (simp add: list_all_iff)

lemma initializePreset_entityConfigs:
  "entityConfigs (initializePreset pid fetched m) = entityConfigs m"
  by (simp add: initializePreset_def split: option.splits)

lemma initializePreset_presetWords:
  "x \<in> set (presetWords (initializePreset pid fetched m)) \<Longrightarrow>
     x \<in> set (presetWords m) \<or> (\<exists>ws. snd x = Words ws \<and> list_all held_word_ok ws)"
proof (cases "map_of (presetWords m) pid \<noteq> None \<or> fetched = None")
  case True
  assume "x \<in> set (presetWords (initializePreset pid fetched m))"
  with True show ?thesis by (auto simp: initializePreset_def split: option.splits)
next
  case False
  then obtain p where p: "fetched = Some p" and n: "map_of (presetWords m) pid = None" by auto
  assume "x \<in> set (presetWords (initializePreset pid fetched m))"
  then have "x \<in> set (AList.update pid
       (Words (validateAndSanitizeWords (raw_preset_words (preset_words p)))) (presetWords m))"
    using p n by (simp add: initializePreset_def)
  then have "x = (pid, Words (validateAndSanitizeWords (raw_preset_words (preset_words p))))
      \<or> x \<in> set (presetWords m)"
    using set_alist_update by fastforce
  then show ?thesis using list_all_validated by auto
qed

lemma configureEntity_entityConfigs:
  "x \<in> set (entityConfigs (configureEntity e pc fetched m)) \<Longrightarrow>
     x \<in> set (entityConfigs m) \<or> config_words_ok x"
proof (cases "pc = None \<or> (\<exists>c. pc = Some c \<and> \<not> is_active c)")
  case True
  assume "x \<in> set (entityConfigs (configureEntity e pc fetched m))"
  with True have "x \<in> set (AList.delete e (entityConfigs m))"
    by (auto simp: configureEntity_def)
  then show ?thesis using set_alist_delete by fastforce
next
  case False
  then obtain c where c: "pc = Some c" "is_active c" by auto
  assume "x \<in> set (entityConfigs (configureEntity e pc fetched m))"
  then obtain cfg where x: "x \<in> set (AList.update e cfg (entityConfigs m))"
    and w: "list_all held_word_ok (customWords cfg)"
    using c list_all_validated
    by (auto simp: configureEntity_def Let_def initializePreset_entityConfigs
        split: words_field.splits if_splits)
  then have "x = (e, cfg) \<or> x \<in> set (entityConfigs m)"
    using set_alist_update by fastforce
  then show ?thesis using w by (auto simp: config_words_ok_def)
qed

lemma configureEntity_presetWords:
  "x \<in> set (presetWords (configureEntity e pc fetched m)) \<Longrightarrow>
     x \<in> set (presetWords m) \<or> cached_words_ok x"
proof -
  assume a: "x \<in> set (presetWords (configureEntity e pc fetched m))"
  have "presetWords (configureEntity e pc fetched m) = presetWords m \<or>
        (\<exists>pid. presetWords (configureEntity e pc fetched m) =
                 presetWords (initializePreset pid fetched m))"
    by (auto simp: configureEntity_def Let_def split: option.splits if_splits)
  then show ?thesis
  proof
    assume "presetWords (configureEntity e pc fetched m) = presetWords m"
    then show ?thesis using a by simp
  next
    assume "\<exists>pid. presetWords (configureEntity e pc fetched m) =
                 presetWords (initializePreset pid fetched m)"
    then obtain pid where "x \<in> set (presetWords (initializePreset pid fetched m))"
      using a by auto
    from initializePreset_presetWords [OF this] show ?thesis
      by (auto simp: cached_words_ok_def)
  qed
qed

lemma cleanupEntity_entityConfigs:
  "set (entityConfigs (cleanupEntity e m)) \<subseteq> set (entityConfigs m)"
  using set_alist_delete [of e "entityConfigs m"]
  by (auto simp: cleanupEntity_def Let_def split: option.splits)

lemma cleanupEntity_presetWords:
  "set (presetWords (cleanupEntity e m)) \<subseteq> set (presetWords m)"
  using set_alist_delete [of _ "presetWords m"]
  by (auto simp: cleanupEntity_def Let_def split: option.splits)

lemma refreshPreset_entityConfigs:
  "entityConfigs (snd (refreshPreset pid fetched m)) = entityConfigs m"
  by (simp add: refreshPreset_def clearCompiledPatterns_def Let_def split: option.splits)

lemma refresh_each_entityConfigs:
  "entityConfigs (refresh_each ids fetch m) = entityConfigs m"
  by (induction ids arbitrary: m) (simp_all split: option.splits)

lemma refreshLoadedPresets_entityConfigs:
  "entityConfigs (refreshLoadedPresets fetch m) = entityConfigs m"
  by (simp add: refreshLoadedPresets_def clearCompiledPatterns_def refresh_each_entityConfigs)

lemma bw_run_snoc: "bw_run (ops @ [op]) = bw_step (bw_run ops) op"
  by (simp add: bw_run_def)

lemma custom_words_iff:
  "list_all held_word_ok (all_custom_words m) = list_all config_words_ok (entityConfigs m)"
  by (auto simp: all_custom_words_def config_words_ok_def list_all_iff)

lemma bw_step_custom:
  assumes "list_all config_words_ok (entityConfigs m)"
  shows "list_all config_words_ok (entityConfigs (bw_step m op))"
proof (cases op)
  case (Configure e pc fetched)
  then show ?thesis
    using assms configureEntity_entityConfigs [of _ e pc fetched m]
    by (auto simp: list_all_iff)
next
  case (Cleanup e)
  then show ?thesis
    using assms cleanupEntity_entityConfigs [of e m] by (auto simp: list_all_iff)
next
  case (Refresh pid fetched)
  then show ?thesis using assms by (simp add: refreshPreset_entityConfigs)
next
  case (RefreshLoaded presets)
  then show ?thesis using assms by (simp add: refreshLoadedPresets_entityConfigs)
qed

lemma bw_run_custom: "list_all config_words_ok (entityConfigs (bw_run ops))"
proof (induction ops rule: rev_induct)
  case Nil
  show ?case by (simp add: bw_run_def new_manager_def)
next
  case (snoc op ops)
  then show ?case by (simp add: bw_run_snoc bw_step_custom)
qed

lemma in_presetWords_cached: "x \<in> set (presetWords m) \<Longrightarrow> cached m (fst x)"
  by (cases x) (auto simp: cached_def dest: weak_map_of_SomeI)

lemma refreshPreset_presetWords:
  assumes "x \<in> set (presetWords (snd (refreshPreset pid fetched m)))"
  shows "x \<in> set (presetWords m) \<or> fst x \<in> set (refresh_writes m (Refresh pid fetched))"
proof (cases "\<exists>i p. pid = Some i \<and> map_of (presetWords m) i \<noteq> None \<and> fetched = Some p")
  case True
  then obtain i p where c: "pid = Some i" "map_of (presetWords m) i \<noteq> None" "fetched = Some p"
    by blast
  then have "x \<in> set (AList.update i (refreshed_words (preset_words p)) (presetWords m))"
    using assms by (simp add: refreshPreset_def clearCompiledPatterns_def Let_def split: if_splits)
  then have "x = (i, refreshed_words (preset_words p)) \<or> x \<in> set (presetWords m)"
    using set_alist_update by fastforce
  then show ?thesis
    using c by (auto simp: refresh_writes_def cached_def)
next
  case False
  then have "x \<in> set (presetWords m) \<or> (\<exists>i. x \<in> set (AList.delete i (presetWords m)))"
    using assms
    by (auto simp: refreshPreset_def clearCompiledPatterns_def Let_def split: option.splits if_splits)
  then show ?thesis using set_alist_delete by fastforce
qed

lemma refresh_each_presetWords:
  "x \<in> set (presetWords (refresh_each ids fetch m)) \<Longrightarrow>
     x \<in> set (presetWords m) \<or> (fst x \<in> set ids \<and> fetch (fst x) \<noteq> None)"
proof (induction ids arbitrary: m)
  case Nil
  then show ?case by simp
next
  case (Cons i ids)
  show ?case
  proof (cases "fetch i")
    case None
    let ?m1 = "m\<lparr> presetWords := AList.delete i (presetWords m),
                    usedPresetIds := usedPresetIds m - {i} \<rparr>"
    have "x \<in> set (presetWords (refresh_each ids fetch ?m1))"
      using Cons.prems None by simp
    from Cons.IH [OF this]
    have "x \<in> set (AList.delete i (presetWords m)) \<or> (fst x \<in> set ids \<and> fetch (fst x) \<noteq> None)"
      by simp
    then show ?thesis using set_alist_delete by fastforce
  next
    case (Some p)
    let ?m1 = "m\<lparr> presetWords := AList.update i (refreshed_words (preset_words p)) (presetWords m) \<rparr>"
    have "x \<in> set (presetWords (refresh_each ids fetch ?m1))"
      using Cons.prems Some by simp
    from Cons.IH [OF this]
    have "x \<in> set (AList.update i (refreshed_words (preset_words p)) (presetWords m)) \<or>
        (fst x \<in> set ids \<and> fetch (fst x) \<noteq> None)"
      by simp
    then consider "x \<in> set (AList.update i (refreshed_words (preset_words p)) (presetWords m))"
      | "fst x \<in> set ids \<and> fetch (fst x) \<noteq> None"
      by blast
    then show ?thesis
    proof cases
      case 1
      then have "x = (i, refreshed_words (preset_words p)) \<or> x \<in> set (presetWords m)"
        using set_alist_update by fastforce
      then show ?thesis using Some by auto
    next
      case 2
      then show ?thesis by simp
    qed
  qed
qed

lemma refreshLoadedPresets_presetWords:
  assumes "x \<in> set (presetWords (refreshLoadedPresets (map_of presets) m))"
  shows "x \<in> set (presetWords m) \<or> fst x \<in> set (refresh_writes m (RefreshLoaded presets))"
proof (cases "presetWords m = []")
  case True
  then show ?thesis using assms by (simp add: refreshLoadedPresets_def)
next
  case False
  then have "x \<in> set (presetWords (refresh_each (map fst (presetWords m)) (map_of presets) m))"
    using assms by (simp add: refreshLoadedPresets_def clearCompiledPatterns_def)
  from refresh_each_presetWords [OF this] show ?thesis
    by (auto simp: refresh_writes_def)
qed

lemma bw_step_presetWords:
  assumes "x \<in> set (presetWords (bw_step m op))"
  shows "x \<in> set (presetWords m) \<or> cached_words_ok x \<or> fst x \<in> set (refresh_writes m op)"
proof (cases op)
  case (Configure e pc fetched)
  then show ?thesis using assms configureEntity_presetWords [of x e pc fetched m] by auto
next
  case (Cleanup e)
  then show ?thesis using assms cleanupEntity_presetWords [of e m] by auto
next
  case (Refresh pid fetched)
  then show ?thesis using assms refreshPreset_presetWords [of x pid fetched m] by auto
next
  case (RefreshLoaded presets)
  then show ?thesis using assms refreshLoadedPresets_presetWords [of x presets m] by auto
qed

text \<open>
  Every cached preset either holds fit words or is among the presets written by a
  refresh.
\<close>

lemma bw_step_loaded:
  assumes inv: "\<forall>x\<in>set (presetWords m). fst x \<in> set r \<or> cached_words_ok x"
    and x: "x \<in> set (presetWords (bw_step m op))"
  shows "fst x \<in> set (filter (cached (bw_step m op)) (r @ refresh_writes m op)) \<or> cached_words_ok x"
proof -
  have c: "cached (bw_step m op) (fst x)"
    using x by (rule in_presetWords_cached)
  from bw_step_presetWords [OF x] inv
  have "fst x \<in> set r \<or> cached_words_ok x \<or> fst x \<in> set (refresh_writes m op)"
    by auto
  then show ?thesis using c by auto
qed

lemma foldl_loaded:
  "\<forall>x\<in>set (presetWords m). fst x \<in> set r \<or> cached_words_ok x \<Longrightarrow>
     \<forall>x\<in>set (presetWords (foldl bw_step m ops)). fst x \<in> set (refreshed_presets m r ops) \<or> cached_words_ok x"
proof (induction ops arbitrary: m r)
  case Nil
  then show ?case by simp
next
  case (Cons op ops)
  have "\<forall>x\<in>set (presetWords (bw_step m op)).
      fst x \<in> set (filter (cached (bw_step m op)) (r @ refresh_writes m op)) \<or> cached_words_ok x"
    using bw_step_loaded [OF Cons.prems] by blast
  from Cons.IH [OF this] show ?case by simp
qed

lemma bw_run_loaded: "list_all held_word_ok (loaded_preset_words ops)"
proof -
  have "\<forall>x\<in>set (presetWords (bw_run ops)). fst x \<in> set (replaced_by_refresh ops) \<or> cached_words_ok x"
    using foldl_loaded [of new_manager "[]" ops]
    by (simp add: bw_run_def replaced_by_refresh_def new_manager_def)
  then show ?thesis
    by (auto simp: loaded_preset_words_def cached_words_ok_def list_all_iff
        split: cached_words.splits if_splits)
qed

text \<open>
  \<^verbatim>\<open>initializePreset\<close> filters the words of a preset before it caches them;
  \<^verbatim>\<open>refreshPreset\<close> caches the words of the same preset as they arrive. After a
  refresh of preset 1 with the words \<^verbatim>\<open>(.*)+\<close> and \<^verbatim>\<open>bad word\<close> the cache holds both;
  loaded by \<^verbatim>\<open>initializePreset\<close>, the same preset leaves only \<^verbatim>\<open>bad word\<close>.
\<close>

lemma refresh_keeps_raw_words:
  "all_preset_words
     (bw_run [Configure ''e1'' (Some ex_pc) (Some ex_preset), Refresh (Some 1) (Some ex_raw_preset)]) =
     [JString ''(.*)+'', JString ''bad word''] \<and>
   \<not> held_word_ok (JString ''(.*)+'') \<and>
   all_preset_words
     (bw_run [Configure ''e1'' (Some ex_pc) (Some ex_raw_preset)]) = [JString ''bad word'']"
  by code_simp

text \<open>
  Claim C4, as amended. After any history of \<^verbatim>\<open>configureEntity\<close>, \<^verbatim>\<open>cleanupEntity\<close>,
  \<^verbatim>\<open>refreshPreset\<close> and \<^verbatim>\<open>refreshLoadedPresets\<close> calls, whatever the data-plane
  answered, every custom word that the manager holds is a string of 1 to 100 characters,
  each a letter, a number, a white space character (\<^verbatim>\<open>\s\<close>: the space, and also the
  tab, the line breaks and the no-break space) or one of \<^verbatim>\<open>-_'.!?\<close>; it has no
  lookaround, no unbounded repetition \<^verbatim>\<open>{n,}\<close>, no \<^verbatim>\<open>++\<close> or \<^verbatim>\<open>**\<close> and no group
  \<^verbatim>\<open>(.*)\<close> or \<^verbatim>\<open>(.+)\<close>, and in fact none of the characters \<^verbatim>\<open>( ) { } + *\<close>. The
  same holds for every word of every cached preset that no refresh has written since
  \<^verbatim>\<open>initializePreset\<close> loaded it, whatever refresh calls the history has for other
  presets or for presets that are not loaded.
\<close>

theorem held_words_shape:
  "list_all held_word_ok (all_custom_words (bw_run ops)) \<and>
   list_all held_word_ok (loaded_preset_words ops)"
  using bw_run_custom [of ops] bw_run_loaded [of ops]
  by (simp add: custom_words_iff)

theorem held_words_shape_witness:
  "replaced_by_refresh ex_refresh_history = [2] \<and>
   all_custom_words (bw_run ex_refresh_history) = [JString ''bad word'', JString ''it's''] \<and>
   all_preset_words (bw_run ex_refresh_history) =
     [JString ''bad word'', JString ''(.*)+'', JString ''bad word''] \<and>
   loaded_preset_words ex_refresh_history = [JString ''bad word''] \<and>
   list_all held_word_ok (all_custom_words (bw_run ex_refresh_history)) \<and>
   list_all held_word_ok (loaded_preset_words ex_refresh_history)"
proof -
  have r: "replaced_by_refresh ex_refresh_history = [2]"
    by code_simp
  have c: "all_custom_words (bw_run ex_refresh_history) = [JString ''bad word'', JString ''it's'']"
    by code_simp
  have p: "all_preset_words (bw_run ex_refresh_history) =
      [JString ''bad word'', JString ''(.*)+'', JString ''bad word'']"
    by code_simp
  have l: "loaded_preset_words ex_refresh_history = [JString ''bad word'']"
    by code_simp
  from held_words_shape [of ex_refresh_history] r c p l show ?thesis by simp
qed

theorem held_words_shape_counterexample:
  "all_custom_words (bw_run [Configure ''e1'' (Some (ex_pc_words [JString ex_tab_word])) None]) =
     [JString ex_tab_word] \<and>
   ex_tab_word ! 3 = CHR 0x09 \<and>
   \<not> is_letter (CHR 0x09) \<and> \<not> is_number (CHR 0x09) \<and> CHR 0x09 \<noteq> CHR '' '' \<and>
   \<not> is_word_punct (CHR 0x09)"
  by code_simp

lemma referenced_iff:
  "referenced m p \<longleftrightarrow> p \<noteq> 0 \<and> (\<exists>e c. (e, c) \<in> set (entityConfigs m) \<and> presetId c = Some p)"
  by (auto simp: referenced_def list_ex_iff)

lemma stillUsed_iff:
  "stillUsed p cfgs \<longleftrightarrow> (\<exists>e c. (e, c) \<in> set cfgs \<and> presetId c = Some p)"
  by (auto simp: stillUsed_def list_ex_iff)

lemma in_alist_delete: "x \<in> set (AList.delete k al) \<longleftrightarrow> x \<in> set al \<and> fst x \<noteq> k"
  by (auto simp: AList.delete_eq)

lemma in_alist_update_other: "(k', v') \<in> set al \<Longrightarrow> k' \<noteq> k \<Longrightarrow> (k', v') \<in> set (AList.update k v al)"
  by (induction al) auto

lemma in_alist_update_same: "(k, v) \<in> set (AList.update k v al)"
  by (induction al) auto

lemma cached_initializePreset:
  "cached (initializePreset pid fetched m) p \<longleftrightarrow> cached m p \<or> (p = pid \<and> fetched \<noteq> None)"
  by (auto simp: cached_def initializePreset_def update_conv' split: option.splits)

lemma alist_update_key: "(k', v') \<in> set (AList.update k v al) \<Longrightarrow> k' = k \<Longrightarrow> v' = v \<or> (k', v') \<in> set al"
  using set_alist_update [of k v al] by auto

lemma configureEntity_inactive:
  assumes "pc = None \<or> (\<exists>c. pc = Some c \<and> \<not> is_active c)"
  shows "configureEntity e pc f m = m\<lparr> entityConfigs := AList.delete e (entityConfigs m) \<rparr>"
  using assms by (auto simp: configureEntity_def)

lemma configureEntity_active_configs:
  assumes "pc = Some c" "is_active c"
  shows "\<exists>cfg. presetId cfg = banned_words_preset_id c \<and>
           entityConfigs (configureEntity e pc f m) = AList.update e cfg (entityConfigs m)"
  using assms
  apply (simp add: configureEntity_def Let_def initializePreset_entityConfigs)
  apply (rule exI, rule conjI)
   prefer 2
   apply (rule refl)
  apply simp
  done

lemma cached_usedPresetIds [simp]: "cached (m\<lparr> usedPresetIds := u \<rparr>) p = cached m p"
  by (simp add: cached_def)

lemma cached_entityConfigs [simp]: "cached (m\<lparr> entityConfigs := u \<rparr>) p = cached m p"
  by (simp add: cached_def)

lemma configureEntity_active_cached:
  assumes "pc = Some c" "is_active c"
  shows "cached (configureEntity e pc f m) p \<longleftrightarrow>
           cached m p \<or>
           (truthy_id (banned_words_preset_id c) \<and> banned_words_preset_id c = Some p \<and> f \<noteq> None)"
  using assms
  by (auto simp: configureEntity_def Let_def cached_initializePreset truthy_id_def)

lemma cleanupEntity_absent:
  "map_of (entityConfigs m) e = None \<Longrightarrow> cleanupEntity e m = m"
  by (simp add: cleanupEntity_def)

lemma cleanupEntity_configs:
  "entityConfigs (cleanupEntity e m) = AList.delete e (entityConfigs m)"
proof (cases "map_of (entityConfigs m) e")
  case None
  then have "e \<notin> fst ` set (entityConfigs m)" by (simp add: map_of_eq_None_iff)
  then have "AList.delete e (entityConfigs m) = entityConfigs m"
    by (rule delete_id)
  then show ?thesis using None by (simp add: cleanupEntity_def)
next
  case (Some c)
  then show ?thesis by (simp add: cleanupEntity_def Let_def)
qed

lemma cleanupEntity_cached:
  assumes "map_of (entityConfigs m) e = Some c"
  shows "cached (cleanupEntity e m) p \<longleftrightarrow>
           cached m p \<and>
           \<not> (truthy_id (presetId c) \<and> presetId c = Some p \<and>
              \<not> stillUsed p (AList.delete e (entityConfigs m)))"
  using assms
  by (auto simp: cleanupEntity_def Let_def cached_def delete_conv' truthy_id_def)

lemma new_preset_id_active:
  "pc = Some c \<Longrightarrow> is_active c \<Longrightarrow>
     new_preset_id pc = (if truthy_id (banned_words_preset_id c) then banned_words_preset_id c else None)"
  by (simp add: new_preset_id_def)

lemma configureEntity_ref_cached:
  assumes inv: "ref_cached m" and ok: "fetch_succeeds (Configure e pc f)"
  shows "ref_cached (configureEntity e pc f m)"
proof (cases "pc = None \<or> (\<exists>c. pc = Some c \<and> \<not> is_active c)")
  case True
  show ?thesis
    unfolding ref_cached_def
  proof (intro allI impI)
    fix p assume "referenced (configureEntity e pc f m) p"
    then have "referenced m p"
      by (auto simp: configureEntity_inactive [OF True] referenced_iff in_alist_delete)
    then have "cached m p" using inv by (simp add: ref_cached_def)
    then show "cached (configureEntity e pc f m) p"
      by (simp add: configureEntity_inactive [OF True])
  qed
next
  case False
  then obtain c where c: "pc = Some c" "is_active c" by auto
  obtain cfg where cfg: "presetId cfg = banned_words_preset_id c"
    "entityConfigs (configureEntity e pc f m) = AList.update e cfg (entityConfigs m)"
    using configureEntity_active_configs [OF c] by blast
  show ?thesis
    unfolding ref_cached_def
  proof (intro allI impI)
    fix p assume "referenced (configureEntity e pc f m) p"
    then obtain e' c' where r: "p \<noteq> 0" "(e', c') \<in> set (AList.update e cfg (entityConfigs m))"
      "presetId c' = Some p"
      by (auto simp: referenced_iff cfg(2))
    from r(2) have "(e', c') = (e, cfg) \<or> (e', c') \<in> set (entityConfigs m)"
      using set_alist_update [of e cfg "entityConfigs m"] by auto
    then show "cached (configureEntity e pc f m) p"
    proof
      assume "(e', c') = (e, cfg)"
      then have b: "banned_words_preset_id c = Some p" using r(3) cfg(1) by simp
      then have t: "truthy_id (banned_words_preset_id c)" using r(1) by (simp add: truthy_id_def)
      then have "f \<noteq> None"
        using ok c b by (simp add: fetch_succeeds_def new_preset_id_def)
      then show ?thesis using b t by (simp add: configureEntity_active_cached [OF c])
    next
      assume "(e', c') \<in> set (entityConfigs m)"
      then have "referenced m p" using r by (auto simp: referenced_iff)
      then have "cached m p" using inv by (simp add: ref_cached_def)
      then show ?thesis by (simp add: configureEntity_active_cached [OF c])
    qed
  qed
qed

lemma cleanupEntity_ref_cached:
  assumes inv: "ref_cached m"
  shows "ref_cached (cleanupEntity e m)"
proof (cases "map_of (entityConfigs m) e")
  case None
  then show ?thesis using inv by (simp add: cleanupEntity_absent)
next
  case (Some c)
  show ?thesis
    unfolding ref_cached_def
  proof (intro allI impI)
    fix p assume "referenced (cleanupEntity e m) p"
    then obtain e' c' where r: "p \<noteq> 0" "(e', c') \<in> set (AList.delete e (entityConfigs m))"
      "presetId c' = Some p"
      by (auto simp: referenced_iff cleanupEntity_configs)
    then have "referenced m p" by (auto simp: referenced_iff in_alist_delete)
    then have "cached m p" using inv by (simp add: ref_cached_def)
    moreover have "stillUsed p (AList.delete e (entityConfigs m))"
      using r by (auto simp: stillUsed_iff)
    ultimately show "cached (cleanupEntity e m) p"
      by (simp add: cleanupEntity_cached [OF Some])
  qed
qed

lemma distinct_in_map_of:
  "distinct (map fst al) \<Longrightarrow> (k, v) \<in> set al \<Longrightarrow> map_of al k = Some v"
  by simp

lemma configureEntity_cached_ref:
  assumes inv: "cached_ref m" and ok: "\<not> drops_reference m (Configure e pc f)"
  shows "cached_ref (configureEntity e pc f m)"
proof (cases "pc = None \<or> (\<exists>c. pc = Some c \<and> \<not> is_active c)")
  case True
  then have n: "new_preset_id pc = None" by (auto simp: new_preset_id_def)
  have d: "distinct (map fst (entityConfigs m))" using inv by (simp add: cached_ref_def)
  show ?thesis
    unfolding cached_ref_def
  proof (intro conjI allI impI)
    show "distinct (map fst (entityConfigs (configureEntity e pc f m)))"
      using d by (simp add: configureEntity_inactive [OF True] distinct_delete)
  next
    fix p assume "cached (configureEntity e pc f m) p"
    then have "cached m p" by (simp add: configureEntity_inactive [OF True])
    then have "referenced m p" using inv by (simp add: cached_ref_def)
    then obtain e' c' where r: "p \<noteq> 0" "(e', c') \<in> set (entityConfigs m)" "presetId c' = Some p"
      by (auto simp: referenced_iff)
    have "e' \<noteq> e"
    proof
      assume "e' = e"
      then have "map_of (entityConfigs m) e = Some c'" using d r(2) by simp
      then show False using ok n r by (simp add: drops_reference_def truthy_id_def)
    qed
    then show "referenced (configureEntity e pc f m) p"
      using r by (auto simp: configureEntity_inactive [OF True] referenced_iff in_alist_delete)
  qed
next
  case False
  then obtain c where c: "pc = Some c" "is_active c" by auto
  obtain cfg where cfg: "presetId cfg = banned_words_preset_id c"
    "entityConfigs (configureEntity e pc f m) = AList.update e cfg (entityConfigs m)"
    using configureEntity_active_configs [OF c] by blast
  have d: "distinct (map fst (entityConfigs m))" using inv by (simp add: cached_ref_def)
  show ?thesis
    unfolding cached_ref_def
  proof (intro conjI allI impI)
    show "distinct (map fst (entityConfigs (configureEntity e pc f m)))"
      using d by (simp add: cfg(2) distinct_update)
  next
    fix p assume "cached (configureEntity e pc f m) p"
    then have "cached m p \<or>
        (truthy_id (banned_words_preset_id c) \<and> banned_words_preset_id c = Some p \<and> f \<noteq> None)"
      by (simp add: configureEntity_active_cached [OF c])
    then show "referenced (configureEntity e pc f m) p"
    proof
      assume "cached m p"
      then have "referenced m p" using inv by (simp add: cached_ref_def)
      then obtain e' c' where r: "p \<noteq> 0" "(e', c') \<in> set (entityConfigs m)" "presetId c' = Some p"
        by (auto simp: referenced_iff)
      show ?thesis
      proof (cases "e' = e")
        case True
        then have "map_of (entityConfigs m) e = Some c'" using d r(2) by simp
        then have "new_preset_id pc = Some p"
          using ok r by (simp add: drops_reference_def truthy_id_def)
        then have "presetId cfg = Some p"
          using c cfg(1) by (simp add: new_preset_id_def split: if_splits)
        then show ?thesis
          using r(1) in_alist_update_same [of e cfg "entityConfigs m"]
          by (auto simp: referenced_iff cfg(2))
      next
        case False
        then show ?thesis
          using r in_alist_update_other [of e' c' "entityConfigs m" e cfg]
          by (auto simp: referenced_iff cfg(2))
      qed
    next
      assume a: "truthy_id (banned_words_preset_id c) \<and> banned_words_preset_id c = Some p \<and> f \<noteq> None"
      then have "p \<noteq> 0" by (auto simp: truthy_id_def)
      then show ?thesis
        using a cfg(1) in_alist_update_same [of e cfg "entityConfigs m"]
        by (auto simp: referenced_iff cfg(2))
    qed
  qed
qed

lemma cleanupEntity_cached_ref:
  assumes inv: "cached_ref m"
  shows "cached_ref (cleanupEntity e m)"
proof (cases "map_of (entityConfigs m) e")
  case None
  then show ?thesis using inv by (simp add: cleanupEntity_absent)
next
  case (Some c)
  have d: "distinct (map fst (entityConfigs m))" using inv by (simp add: cached_ref_def)
  show ?thesis
    unfolding cached_ref_def
  proof (intro conjI allI impI)
    show "distinct (map fst (entityConfigs (cleanupEntity e m)))"
      using d by (simp add: cleanupEntity_configs distinct_delete)
  next
    fix p assume "cached (cleanupEntity e m) p"
    then have k: "cached m p"
      and u: "\<not> (truthy_id (presetId c) \<and> presetId c = Some p \<and>
              \<not> stillUsed p (AList.delete e (entityConfigs m)))"
      by (simp_all add: cleanupEntity_cached [OF Some])
    from k have "referenced m p" using inv by (simp add: cached_ref_def)
    then obtain e' c' where r: "p \<noteq> 0" "(e', c') \<in> set (entityConfigs m)" "presetId c' = Some p"
      by (auto simp: referenced_iff)
    show "referenced (cleanupEntity e m) p"
    proof (cases "e' = e")
      case True
      then have "map_of (entityConfigs m) e = Some c'" using d r(2) by simp
      then have "c' = c" using Some by simp
      then have "stillUsed p (AList.delete e (entityConfigs m))"
        using u r by (simp add: truthy_id_def)
      then show ?thesis
        using r(1) by (auto simp: referenced_iff stillUsed_iff cleanupEntity_configs)
    next
      case False
      then show ?thesis
        using r by (auto simp: referenced_iff cleanupEntity_configs in_alist_delete)
    qed
  qed
qed

lemma bw_step_ref_cached:
  "ref_cached m \<Longrightarrow> \<not> is_refresh op \<Longrightarrow> fetch_succeeds op \<Longrightarrow> ref_cached (bw_step m op)"
  by (cases op) (simp_all add: configureEntity_ref_cached cleanupEntity_ref_cached is_refresh_def)

lemma bw_step_cached_ref:
  "cached_ref m \<Longrightarrow> \<not> is_refresh op \<Longrightarrow> \<not> drops_reference m op \<Longrightarrow> cached_ref (bw_step m op)"
  by (cases op) (simp_all add: configureEntity_cached_ref cleanupEntity_cached_ref is_refresh_def)

lemma foldl_ref_cached:
  "ref_cached m \<Longrightarrow> no_refresh ops \<Longrightarrow> fetches_succeed ops \<Longrightarrow> ref_cached (foldl bw_step m ops)"
  by (induction ops arbitrary: m) (simp_all add: no_refresh_def fetches_succeed_def bw_step_ref_cached)

lemma foldl_cached_ref:
  "cached_ref m \<Longrightarrow> no_refresh ops \<Longrightarrow> no_reference_dropped m ops \<Longrightarrow>
     cached_ref (foldl bw_step m ops)"
  by (induction ops arbitrary: m) (simp_all add: no_refresh_def bw_step_cached_ref)

lemma ref_cached_new: "ref_cached new_manager"
  by (simp add: ref_cached_def referenced_def new_manager_def)

lemma cached_ref_new: "cached_ref new_manager"
  by (simp add: cached_ref_def cached_def new_manager_def)

text \<open>
  \<^verbatim>\<open>cleanupEntity\<close> unloads the preset of the configuration it removes when no other
  configuration uses it; \<^verbatim>\<open>configureEntity\<close> replaces or removes a configuration
  without looking at the preset it had. A room moved from preset 1 to preset 2 by
  \<^verbatim>\<open>configureEntity\<close> alone leaves preset 1 in the cache with no configuration that
  references it; with a \<^verbatim>\<open>cleanupEntity\<close> call in between, preset 1 is unloaded.
\<close>

lemma reconfigure_keeps_preset:
  "cached (bw_run [Configure ''e1'' (Some (ex_pc_preset 1)) (Some ex_preset),
                   Configure ''e1'' (Some (ex_pc_preset 2)) (Some ex_raw_preset)]) 1 \<and>
   \<not> referenced (bw_run [Configure ''e1'' (Some (ex_pc_preset 1)) (Some ex_preset),
                   Configure ''e1'' (Some (ex_pc_preset 2)) (Some ex_raw_preset)]) 1 \<and>
   \<not> cached (bw_run [Configure ''e1'' (Some (ex_pc_preset 1)) (Some ex_preset),
                   Cleanup ''e1'',
                   Configure ''e1'' (Some (ex_pc_preset 2)) (Some ex_raw_preset)]) 1"
  by code_simp

text \<open>
  Claim C5, as amended. After any history of \<^verbatim>\<open>configureEntity\<close> and
  \<^verbatim>\<open>cleanupEntity\<close> calls on a new manager: if every \<^verbatim>\<open>configureEntity\<close> call that
  names a preset got the preset from the data-plane, then every preset id that a
  configuration references is in the cache; and if no \<^verbatim>\<open>configureEntity\<close> call
  replaced or removed a configuration that referenced a preset (such configurations
  were removed by \<^verbatim>\<open>cleanupEntity\<close> only), then every preset id in the cache is
  referenced by a configuration.
\<close>

theorem preset_cache_iff:
  "(no_refresh ops \<and> fetches_succeed ops \<and> referenced (bw_run ops) p \<longrightarrow> cached (bw_run ops) p) \<and>
   (no_refresh ops \<and> no_reference_dropped new_manager ops \<and> cached (bw_run ops) p \<longrightarrow>
      referenced (bw_run ops) p)"
proof (intro conjI impI)
  assume "no_refresh ops \<and> fetches_succeed ops \<and> referenced (bw_run ops) p"
  then show "cached (bw_run ops) p"
    using foldl_ref_cached [OF ref_cached_new, of ops] by (simp add: bw_run_def ref_cached_def)
next
  assume "no_refresh ops \<and> no_reference_dropped new_manager ops \<and> cached (bw_run ops) p"
  then show "referenced (bw_run ops) p"
    using foldl_cached_ref [OF cached_ref_new, of ops] by (simp add: bw_run_def cached_ref_def)
qed

theorem preset_cache_iff_witness:
  "no_refresh ex_cache_history \<and> fetches_succeed ex_cache_history \<and>
   no_reference_dropped new_manager ex_cache_history \<and>
   map fst (entityConfigs (bw_run ex_cache_history)) = [''e2''] \<and>
   referenced (bw_run ex_cache_history) 1 \<and> cached (bw_run ex_cache_history) 1 \<and>
   \<not> referenced (bw_run ex_cache_history) 2 \<and> \<not> cached (bw_run ex_cache_history) 2"
proof -
  have n: "no_refresh ex_cache_history"
    by code_simp
  have f: "fetches_succeed ex_cache_history"
    by code_simp
  have d: "no_reference_dropped new_manager ex_cache_history"
    by code_simp
  have e: "map fst (entityConfigs (bw_run ex_cache_history)) = [''e2'']"
    by code_simp
  have r: "referenced (bw_run ex_cache_history) 1"
    by code_simp
  have r2: "\<not> referenced (bw_run ex_cache_history) 2"
    by code_simp
  from preset_cache_iff [of ex_cache_history 1] preset_cache_iff [of ex_cache_history 2] n f d e r r2
  show ?thesis by blast
qed

theorem preset_cache_iff_counterexample:
  "referenced (bw_run [Configure ''e1'' (Some (ex_pc_preset 1)) None]) 1 \<and>
   \<not> cached (bw_run [Configure ''e1'' (Some (ex_pc_preset 1)) None]) 1"
  by code_simp

section \<open>Properties of the 404 handling\<close>

lemma handle404Error_state: "snd (snd (handle404Error stanza s)) = s"
  by (simp add: handle404Error_def stateManager_cleanupEntityData_def split: option.splits)

lemma handleVerboseError_state: "snd (snd (handleVerboseError stanza s)) = s"
  by (simp add: handleVerboseError_def handle404Error_state)

lemma handleVerboseError_no_request: "fst (snd (handleVerboseError stanza s)) = []"
  by (simp add: handleVerboseError_def handle404Error_def stateManager_cleanupEntityData_def
      split: option.splits)

text \<open>
  The queue ticker never sends a stanza whose addressee is an entity of the
  non-existent set: it takes the stanza out of the queue and drops it.
\<close>

lemma processStanzaQueue_skips:
  assumes "outgoingStanzaQueue s = st # rest" and "st_to st = Some jid" and "jid \<noteq> []"
    and "fromJid jid = Some entityId" and "hasNonExistentEntity entityId s"
  shows "processStanzaQueue s = ([], if xmppOnline s then s\<lparr> outgoingStanzaQueue := rest \<rparr> else s)"
  using assms by (simp add: processStanzaQueue_def Let_def hasNonExistentEntity_def)

text \<open>
  Had \<^verbatim>\<open>handle404Error\<close> applied \<^verbatim>\<open>cleanupEntityData\<close> of lib/utils/index.js to the
  state, with the options it passes, the room would be out of the entity map and in the
  non-existent set, and the ticker would drop a stanza for the room.
\<close>

lemma cleanupEntityData_silences:
  "\<not> hasEntity ex_room (cleanupEntityData ex_room True True (sm ex_worker)) \<and>
   hasNonExistentEntity ex_room (cleanupEntityData ex_room True True (sm ex_worker)) \<and>
   fst (processStanzaQueue
          (queueStanza (ex_stanza ''hello'') (cleanupEntityData ex_room True True (sm ex_worker)))) = []"
  by code_simp

text \<open>
  Claim C6, on the code. The room of the example worker is in the entity map. When the
  IQ error with code 404 arrives from the room's address, \<^verbatim>\<open>handle404Error\<close> reaches
  the call of \<^verbatim>\<open>cleanupEntityData\<close> on the state manager and is rejected with a
  \<^verbatim>\<open>TypeError\<close>: no request is made and the state is as before. The room is still in
  the entity map and is not in the non-existent set, and the next tick of the queue
  sends the stanza that is addressed to the room.
\<close>

theorem iq_404_not_handled:
  "hasEntity ex_room (sm ex_worker) \<and>
   fromJid ex_room_jid = Some ex_room \<and>
   handleVerboseError ex_iq_404 (sm ex_worker) = (Some TypeError, [], sm ex_worker) \<and>
   hasEntity ex_room ex_after_404 \<and>
   \<not> hasNonExistentEntity ex_room ex_after_404 \<and>
   fst (processStanzaQueue ex_after_404) = [XmppSend (ex_stanza ''hello'')]"
proof -
  have a: "hasEntity ex_room (sm ex_worker)"
    by code_simp
  have b: "fromJid ex_room_jid = Some ex_room"
    by code_simp
  have c: "fst (handleVerboseError ex_iq_404 (sm ex_worker)) = Some TypeError"
    by code_simp
  have d: "fst (snd (handleVerboseError ex_iq_404 (sm ex_worker))) = []"
    by code_simp
  have e: "handleVerboseError ex_iq_404 (sm ex_worker) = (Some TypeError, [], sm ex_worker)"
    using c d handleVerboseError_state [of ex_iq_404 "sm ex_worker"]
    by (cases "handleVerboseError ex_iq_404 (sm ex_worker)") simp
  have f: "hasEntity ex_room ex_after_404"
    by code_simp
  have g: "\<not> hasNonExistentEntity ex_room ex_after_404"
    by code_simp
  have h: "fst (processStanzaQueue ex_after_404) = [XmppSend (ex_stanza ''hello'')]"
    by code_simp
  from a b e f g h show ?thesis by simp
qed

end
